theory Spec2Isabelle
  imports
    Complex_Main
    "HOL-Library.AList"
    "HOL-Library.Char_ord"
    "HOL-Library.List_Lexorder"
    "HOL-Library.Product_Lexorder"
begin

section \<open>The scheduler services of TaskSchedulerHW\<close>

text \<open>
  The repository holds four scheduler services: \<^verbatim>\<open>fifo/scheduler.py\<close> (FIFO),
  \<^verbatim>\<open>priority/scheduler.py\<close> (static priority), \<^verbatim>\<open>round-robin/scheduler.py\<close>
  (round-robin with arrivals) and the top-level \<^verbatim>\<open>scheduler.py\<close> (round-robin, every
  job ready at once). Each one is embedded below, function by function. Names carry a
  suffix for the file they come from: \<open>_f\<close>, \<open>_p\<close>, \<open>_rr\<close> and \<open>_r0\<close>.

  Conventions of the embedding:
  \<^item> Python's \<open>int\<close> is \<^typ>\<open>int\<close>; Python's \<open>float\<close> (the speed-up, the readings of
    \<^verbatim>\<open>time.time()\<close>, the slowdown) is \<^typ>\<open>real\<close>, that is, without rounding error.
  \<^item> A \<open>dict\<close> is an association list in insertion order; storing under a key that is
    present keeps its position (\<^const>\<open>AList.update\<close>).
  \<^item> Every reading of the clock, the fresh run id and the files under \<^verbatim>\<open>DATA_DIR\<close> are
    arguments of the function that uses them.
  \<^item> An endpoint takes the global \<^verbatim>\<open>ACTIVE_RUN\<close> and returns it updated, next to its
    result; a raised exception is \<^term>\<open>Inl e\<close>.
  \<^item> The blocking \<^verbatim>\<open>RUN_CV.wait\<close> inside \<^verbatim>\<open>/next\<close> hands the lock to the other threads:
    the loop continues on the \<^verbatim>\<open>ACTIVE_RUN\<close> and the clock it finds when it wakes up, which
    are given as a list of wake-ups.
  \<^item> The result files are represented by the per-job rows written to them; the directory
    and file writes themselves and the summary statistics (numpy) are left out.
\<close>

subsection \<open>Errors, responses, requests\<close>

datatype http400 = NotEnoughSlots | DatasetNotFound | NotAlive | UnknownJob

datatype error =
  HTTPException http400 | ValueError | KeyError | ParserError | ZeroDivisionError

datatype response =
    StatusNoRun
  | StatusDone
  | StatusWait
  | StatusOk
  | OkFifo string int
  | OkPrio string int int int
  | OkRR string int int int
  | OkRoot string int int
  | RunId string

text \<open>One pass of the long-poll loop of \<^verbatim>\<open>/next\<close> either leaves the function or blocks on the
  condition variable for a number of seconds.\<close>

datatype outcome = Raise error | Return response | Block real

record NextReq =
  worker_id :: string
  core_id :: int
  timeout_ms :: int

record DoneReq =
  worker_id_d :: string
  core_id_d :: int
  job_id_d :: string
  started_wall_ms_d :: int
  finished_wall_ms_d :: int
  cpu_percent_d :: "real option"
  memory_mb_d :: "real option"

record StartReq =
  dataset_file_s :: string
  speedup_s :: real
  min_slots_s :: int

subsection \<open>Worker registry (the same code in the four files)\<close>

record worker_info =
  cores :: int
  last_seen :: real

record registry =
  WORKERS :: "(string \<times> worker_info) list"
  WORKER_TIMEOUT_SEC :: real

definition is_alive_worker_core :: "registry \<Rightarrow> real \<Rightarrow> string \<Rightarrow> int \<Rightarrow> bool" where
  "is_alive_worker_core reg now wid cid =
     (case map_of (WORKERS reg) wid of
        None \<Rightarrow> False
      | Some info \<Rightarrow>
          if now - last_seen info > WORKER_TIMEOUT_SEC reg then False
          else 0 \<le> cid \<and> cid < cores info)"

definition total_alive_slots :: "registry \<Rightarrow> real \<Rightarrow> int" where
  "total_alive_slots reg now =
     sum_list (map (\<lambda>(wid, info). cores info)
       (filter (\<lambda>(wid, info). now - last_seen info \<le> WORKER_TIMEOUT_SEC reg) (WORKERS reg)))"

subsection \<open>Simulated time\<close>

text \<open>Python 3's \<^verbatim>\<open>round\<close> of a float rounds a tie to the even neighbour.\<close>

definition py_round :: "real \<Rightarrow> int" where
  "py_round x =
     (let f = \<lfloor>x\<rfloor>; d = x - of_int f
      in if d < 1 / 2 then f
         else if 1 / 2 < d then f + 1
         else if even f then f else f + 1)"

text \<open>\<^verbatim>\<open>wall_to_sim(run, wall_ms)\<close> reads \<^verbatim>\<open>run.start_wall_ms\<close> and \<^verbatim>\<open>run.speedup\<close>; the
  same function stands in each of the four files, so it takes the two fields.\<close>

definition wall_to_sim :: "int \<Rightarrow> real \<Rightarrow> int \<Rightarrow> int" where
  "wall_to_sim start_wall speedup wall_ms = py_round (of_int (wall_ms - start_wall) * speedup)"

subsection \<open>Datasets\<close>

text \<open>The data frame \<^verbatim>\<open>pd.read_csv\<close> returns: its column names and its rows. A cell is
  what \<^verbatim>\<open>int(...)\<close> makes of it: an integer, or a \<^verbatim>\<open>ValueError\<close>. The \<^verbatim>\<open>job_id\<close> cell is
  kept as the string \<^verbatim>\<open>str(...)\<close> returns. A cell of a column the frame lacks is never
  read. A file \<^verbatim>\<open>read_csv\<close> cannot parse is \<open>Unparsable\<close>.\<close>

datatype cell = IntCell int | NotInt

record csv_row =
  col_job_id :: string
  col_service_time_ms :: cell
  col_arrival_time_ms :: cell
  col_priority :: cell

record dataframe =
  df_columns :: "string list"
  df_rows :: "csv_row list"

datatype csv_file = Unparsable | Parsed dataframe

type_synonym filesystem = "string \<rightharpoonup> csv_file"

definition py_int :: "cell \<Rightarrow> error + int" where
  "py_int c = (case c of IntCell i \<Rightarrow> Inr i | NotInt \<Rightarrow> Inl ValueError)"

text \<open>A value in a row of the result file.\<close>

datatype csv_value = S string | I int | R real

type_synonym result_row = "(string \<times> csv_value) list"

subsection \<open>\<^verbatim>\<open>fifo/scheduler.py\<close>\<close>

record JobState_f =
  job_id_f :: string
  service_ms_f :: int
  arrival_ms_f :: int
  start_ms_f :: "int option"
  finish_ms_f :: "int option"
  cpu_percent_f :: "real option"
  memory_mb_f :: "real option"

record RunState_f =
  run_id_f :: string
  dataset_file_f :: string
  speedup_f :: real
  start_wall_ms_f :: int
  jobs_f :: "(string \<times> JobState_f) list"
  ready_q_f :: "string list"
  pending_jobs_f :: "(string \<times> JobState_f) list"
  total_jobs_f :: int
  current_sim_ms_f :: int
  completed_f :: int
  done_f :: bool
  jobs_csv_f :: "result_row list option"

fun load_rows_f :: "bool \<Rightarrow> csv_row list \<Rightarrow> (string \<times> JobState_f) list
    \<Rightarrow> error + (string \<times> JobState_f) list" where
  "load_rows_f has_arrival [] jobs = Inr jobs"
| "load_rows_f has_arrival (row # rest) jobs =
     (case py_int (col_service_time_ms row) of
        Inl e \<Rightarrow> Inl e
      | Inr svc \<Rightarrow>
          (case (if has_arrival then py_int (col_arrival_time_ms row) else Inr 0) of
             Inl e \<Rightarrow> Inl e
           | Inr arrival \<Rightarrow>
               load_rows_f has_arrival rest
                 (AList.update (col_job_id row)
                    \<lparr>job_id_f = col_job_id row, service_ms_f = svc, arrival_ms_f = arrival,
                     start_ms_f = None, finish_ms_f = None,
                     cpu_percent_f = None, memory_mb_f = None\<rparr> jobs)))"

definition load_jobs_f :: "csv_file \<Rightarrow> error + (string \<times> JobState_f) list" where
  "load_jobs_f file =
     (case file of
        Unparsable \<Rightarrow> Inl ParserError
      | Parsed df \<Rightarrow>
          if \<not> {''job_id'', ''service_time_ms''} \<subseteq> set (df_columns df) then Inl ValueError
          else load_rows_f (''arrival_time_ms'' \<in> set (df_columns df)) (df_rows df) [])"

text \<open>One pass of the body of \<^verbatim>\<open>arrival_thread_func\<close>, at the wall clock \<open>now_ms\<close>.\<close>

definition arrival_tick_f :: "RunState_f \<Rightarrow> int \<Rightarrow> RunState_f" where
  "arrival_tick_f run now_ms =
     (let current_sim = wall_to_sim (start_wall_ms_f run) (speedup_f run) now_ms;
          jobs_to_add = map fst (filter (\<lambda>(jid, job). arrival_ms_f job \<le> current_sim)
                                   (pending_jobs_f run))
      in run\<lparr>pending_jobs_f := filter (\<lambda>(jid, job). \<not> arrival_ms_f job \<le> current_sim)
                                   (pending_jobs_f run),
              ready_q_f := ready_q_f run @ jobs_to_add,
              current_sim_ms_f := max (current_sim_ms_f run) current_sim\<rparr>)"

definition result_row_f :: "JobState_f \<Rightarrow> int \<Rightarrow> int \<Rightarrow> result_row" where
  "result_row_f j start finish =
     (let waiting_time = start - arrival_ms_f j;
          execution_time = finish - start;
          response_time = finish - arrival_ms_f j;
          slowdown = of_int response_time / of_int (max 1 (service_ms_f j))
      in [(''job_id'', S (job_id_f j)),
          (''arrival_time_ms'', I (arrival_ms_f j)),
          (''service_time_ms'', I (service_ms_f j)),
          (''start_time_ms'', I start),
          (''finish_time_ms'', I finish),
          (''waiting_time_ms'', I waiting_time),
          (''execution_time_ms'', I execution_time),
          (''response_time_ms'', I response_time),
          (''cpu_usage_percent'', R (case cpu_percent_f j of None \<Rightarrow> 0 | Some c \<Rightarrow> c)),
          (''memory_usage_mb'', R (case memory_mb_f j of None \<Rightarrow> 0 | Some m \<Rightarrow> m)),
          (''slowdown'', R slowdown)])"

fun result_rows_f :: "(string \<times> JobState_f) list \<Rightarrow> result_row list" where
  "result_rows_f [] = []"
| "result_rows_f ((jid, j) # rest) =
     (case (finish_ms_f j, start_ms_f j) of
        (Some finish, Some start) \<Rightarrow> result_row_f j start finish # result_rows_f rest
      | _ \<Rightarrow> result_rows_f rest)"

definition finalize_run_f :: "RunState_f \<Rightarrow> RunState_f" where
  "finalize_run_f run =
     (let rows = result_rows_f (jobs_f run)
      in if length rows = 0 then run
         else run\<lparr>jobs_csv_f := Some (map (\<lambda>r. (''run_id'', S (run_id_f run)) # r) rows),
                  done_f := True\<rparr>)"

definition partition_f :: "(string \<times> JobState_f) list
    \<Rightarrow> string list \<times> (string \<times> JobState_f) list" where
  "partition_f jobs =
     (map fst (filter (\<lambda>(jid, job). arrival_ms_f job \<le> 0) jobs),
      filter (\<lambda>(jid, job). \<not> arrival_ms_f job \<le> 0) jobs)"

definition start_f :: "registry \<Rightarrow> real \<Rightarrow> filesystem \<Rightarrow> string \<Rightarrow> int \<Rightarrow> StartReq
    \<Rightarrow> RunState_f option \<Rightarrow> (error + response) \<times> RunState_f option" where
  "start_f reg now fs fresh_id now_ms req active =
     (if total_alive_slots reg now < min_slots_s req
      then (Inl (HTTPException NotEnoughSlots), active)
      else
       (case fs (dataset_file_s req) of
        None \<Rightarrow> (Inl (HTTPException DatasetNotFound), active)
      | Some file \<Rightarrow>
          (case load_jobs_f file of
             Inl e \<Rightarrow> (Inl e, active)
           | Inr jobs \<Rightarrow>
               (let (ready_q, pending_jobs) = partition_f jobs;
                    run = \<lparr>run_id_f = fresh_id, dataset_file_f = dataset_file_s req,
                           speedup_f = speedup_s req, start_wall_ms_f = now_ms,
                           jobs_f = jobs, ready_q_f = ready_q, pending_jobs_f = pending_jobs,
                           total_jobs_f = int (length jobs), current_sim_ms_f = 0,
                           completed_f = 0, done_f = False, jobs_csv_f = None\<rparr>
                in (Inr (RunId fresh_id), Some run)))))"

text \<open>One pass of the \<^verbatim>\<open>while True\<close> loop of \<^verbatim>\<open>next_job\<close>; \<open>t\<close> is the reading of
  \<^verbatim>\<open>time.time()\<close> that \<^verbatim>\<open>remaining\<close> is computed from.\<close>

definition next_pass_f :: "real \<Rightarrow> RunState_f option \<Rightarrow> real \<Rightarrow> outcome \<times> RunState_f option" where
  "next_pass_f deadline active t =
     (case active of
        None \<Rightarrow> (Return StatusNoRun, active)
      | Some run \<Rightarrow>
          if done_f run \<or> completed_f run \<ge> total_jobs_f run then (Return StatusDone, active)
          else
            (case ready_q_f run of
               jid # rest \<Rightarrow>
                 (case map_of (jobs_f run) jid of
                    None \<Rightarrow> (Raise KeyError, Some (run\<lparr>ready_q_f := rest\<rparr>))
                  | Some job \<Rightarrow>
                      (Return (OkFifo jid (service_ms_f job)),
                       Some (run\<lparr>ready_q_f := rest\<rparr>)))
             | [] \<Rightarrow>
                 (let remaining = deadline - t
                  in if remaining \<le> 0 then (Return StatusWait, active)
                     else (Block remaining, active))))"

text \<open>The loop: after a blocking wait it goes on with the \<^verbatim>\<open>ACTIVE_RUN\<close> and the clock of
  the next wake-up. \<open>None\<close>: still blocked when the wake-ups given are used up.\<close>

fun next_loop_f :: "real \<Rightarrow> RunState_f option \<Rightarrow> real \<Rightarrow> (RunState_f option \<times> real) list
    \<Rightarrow> (outcome \<times> RunState_f option) option" where
  "next_loop_f deadline active t wakes =
     (case next_pass_f deadline active t of
        (Block d, a) \<Rightarrow>
          (case wakes of
             [] \<Rightarrow> None
           | (a', t') # rest \<Rightarrow> next_loop_f deadline a' t' rest)
      | (r, a) \<Rightarrow> Some (r, a))"

definition next_job_f :: "registry \<Rightarrow> real \<Rightarrow> real \<Rightarrow> NextReq \<Rightarrow> RunState_f option \<Rightarrow> real
    \<Rightarrow> (RunState_f option \<times> real) list \<Rightarrow> (outcome \<times> RunState_f option) option" where
  "next_job_f reg now t0 req active t wakes =
     (if \<not> is_alive_worker_core reg now (worker_id req) (core_id req)
      then Some (Raise (HTTPException NotAlive), active)
      else next_loop_f (t0 + of_int (timeout_ms req) / 1000) active t wakes)"

definition done_f_ep :: "registry \<Rightarrow> real \<Rightarrow> DoneReq \<Rightarrow> RunState_f option
    \<Rightarrow> (error + response) \<times> RunState_f option" where
  "done_f_ep reg now req active =
     (if \<not> is_alive_worker_core reg now (worker_id_d req) (core_id_d req)
      then (Inl (HTTPException NotAlive), active)
      else
       (case active of
        None \<Rightarrow> (Inr StatusNoRun, active)
      | Some run \<Rightarrow>
          if done_f run then (Inr StatusDone, active)
          else
           (case map_of (jobs_f run) (job_id_d req) of
            None \<Rightarrow> (Inl (HTTPException UnknownJob), active)
          | Some job \<Rightarrow>
              (let started_sim = wall_to_sim (start_wall_ms_f run) (speedup_f run)
                                   (started_wall_ms_d req);
                   start = (case start_ms_f job of None \<Rightarrow> started_sim | Some s \<Rightarrow> s);
                   finish = start + service_ms_f job;
                   job' = job\<lparr>start_ms_f := Some start, finish_ms_f := Some finish,
                              cpu_percent_f := cpu_percent_d req,
                              memory_mb_f := memory_mb_d req\<rparr>;
                   run' = run\<lparr>jobs_f := AList.update (job_id_d req) job' (jobs_f run),
                              current_sim_ms_f := max (current_sim_ms_f run) finish,
                              completed_f := completed_f run + 1\<rparr>
               in (Inr StatusOk,
                   Some (if completed_f run' \<ge> total_jobs_f run' then finalize_run_f run'
                         else run'))))))"

subsection \<open>\<^verbatim>\<open>priority/scheduler.py\<close>\<close>

text \<open>\<^verbatim>\<open>heapq\<close> is Python's standard binary heap. Its list is represented by the same
  elements in ascending order: \<^verbatim>\<open>heappush\<close> inserts in order, \<^verbatim>\<open>heap[0]\<close> and
  \<^verbatim>\<open>heappop\<close> take the first element. The entries are tuples, which Python compares
  lexicographically, and job ids are strings, compared character by character.\<close>

definition heappush :: "'a::linorder list \<Rightarrow> 'a \<Rightarrow> 'a list" where
  "heappush heap item = insort item heap"

record JobState_p =
  job_id_p :: string
  service_ms_p :: int
  arrival_ms_p :: int
  priority_p :: int
  start_ms_p :: "int option"
  finish_ms_p :: "int option"
  cpu_percent_p :: "real option"
  memory_mb_p :: "real option"

record RunState_p =
  run_id_p :: string
  dataset_file_p :: string
  speedup_p :: real
  start_wall_ms_p :: int
  jobs_p :: "(string \<times> JobState_p) list"
  ready_heap_p :: "(int \<times> int \<times> int \<times> string) list"
  pending_heap_p :: "(int \<times> int \<times> string) list"
  next_seq_p :: int
  total_jobs_p :: int
  current_sim_ms_p :: int
  completed_p :: int
  done_p :: bool
  jobs_csv_p :: "result_row list option"

fun load_rows_p :: "bool \<Rightarrow> csv_row list \<Rightarrow> (string \<times> JobState_p) list
    \<Rightarrow> error + (string \<times> JobState_p) list" where
  "load_rows_p has_arrival [] jobs = Inr jobs"
| "load_rows_p has_arrival (row # rest) jobs =
     (case py_int (col_service_time_ms row) of
        Inl e \<Rightarrow> Inl e
      | Inr service \<Rightarrow>
          (case (if has_arrival then py_int (col_arrival_time_ms row) else Inr 0) of
             Inl e \<Rightarrow> Inl e
           | Inr arrival \<Rightarrow>
               (case py_int (col_priority row) of
                  Inl e \<Rightarrow> Inl e
                | Inr priority \<Rightarrow>
                    load_rows_p has_arrival rest
                      (AList.update (col_job_id row)
                         \<lparr>job_id_p = col_job_id row, service_ms_p = service,
                          arrival_ms_p = arrival, priority_p = priority,
                          start_ms_p = None, finish_ms_p = None,
                          cpu_percent_p = None, memory_mb_p = None\<rparr> jobs))))"

definition load_jobs_p :: "csv_file \<Rightarrow> error + (string \<times> JobState_p) list" where
  "load_jobs_p file =
     (case file of
        Unparsable \<Rightarrow> Inl ParserError
      | Parsed df \<Rightarrow>
          if \<not> {''job_id'', ''service_time_ms'', ''priority''} \<subseteq> set (df_columns df)
          then Inl ValueError
          else load_rows_p (''arrival_time_ms'' \<in> set (df_columns df)) (df_rows df) [])"

definition push_ready :: "RunState_p \<Rightarrow> string \<Rightarrow> error + RunState_p" where
  "push_ready run jid =
     (case map_of (jobs_p run) jid of
        None \<Rightarrow> Inl KeyError
      | Some job \<Rightarrow>
          Inr (run\<lparr>ready_heap_p :=
                      heappush (ready_heap_p run)
                        (priority_p job, arrival_ms_p job, next_seq_p run, jid),
                    next_seq_p := next_seq_p run + 1\<rparr>))"

definition push_pending :: "RunState_p \<Rightarrow> string \<Rightarrow> error + RunState_p" where
  "push_pending run jid =
     (case map_of (jobs_p run) jid of
        None \<Rightarrow> Inl KeyError
      | Some job \<Rightarrow>
          Inr (run\<lparr>pending_heap_p :=
                      heappush (pending_heap_p run) (arrival_ms_p job, next_seq_p run, jid),
                    next_seq_p := next_seq_p run + 1\<rparr>))"

text \<open>The \<^verbatim>\<open>while\<close> loop of \<^verbatim>\<open>promote_arrivals\<close>; a \<^verbatim>\<open>KeyError\<close> of \<^verbatim>\<open>push_ready\<close> leaves
  the run with the entry already popped from the pending heap.\<close>

function promote_arrivals :: "RunState_p \<Rightarrow> int \<Rightarrow> error option \<times> RunState_p" where
  "promote_arrivals run upto_sim_ms =
     (case pending_heap_p run of
        [] \<Rightarrow> (None, run)
      | (arr, seq, jid) # rest \<Rightarrow>
          if arr \<le> upto_sim_ms then
            (case push_ready (run\<lparr>pending_heap_p := rest\<rparr>) jid of
               Inl e \<Rightarrow> (Some e, run\<lparr>pending_heap_p := rest\<rparr>)
             | Inr run' \<Rightarrow> promote_arrivals run' upto_sim_ms)
          else (None, run))"
  by pat_completeness auto
termination
  by (relation "measure (\<lambda>(run, upto). length (pending_heap_p run))")
     (auto simp: push_ready_def split: option.splits)

definition arrival_tick_p :: "RunState_p \<Rightarrow> int \<Rightarrow> error option \<times> RunState_p" where
  "arrival_tick_p run now_wall =
     (let current_sim = wall_to_sim (start_wall_ms_p run) (speedup_p run) now_wall;
          run1 = run\<lparr>current_sim_ms_p := max (current_sim_ms_p run) current_sim\<rparr>
      in promote_arrivals run1 (current_sim_ms_p run1))"

definition result_row_p :: "JobState_p \<Rightarrow> int \<Rightarrow> int \<Rightarrow> result_row" where
  "result_row_p job start finish =
     (let waiting = start - arrival_ms_p job;
          response = finish - arrival_ms_p job;
          execution = finish - start;
          slowdown = of_int response / of_int (max 1 (service_ms_p job))
      in [(''job_id'', S (job_id_p job)),
          (''arrival_time_ms'', I (arrival_ms_p job)),
          (''service_time_ms'', I (service_ms_p job)),
          (''start_time_ms'', I start),
          (''finish_time_ms'', I finish),
          (''waiting_time_ms'', I waiting),
          (''execution_time_ms'', I execution),
          (''response_time_ms'', I response),
          (''cpu_usage_percent'', R (case cpu_percent_p job of None \<Rightarrow> 0 | Some c \<Rightarrow> c)),
          (''memory_usage_mb'', R (case memory_mb_p job of None \<Rightarrow> 0 | Some m \<Rightarrow> m)),
          (''slowdown'', R slowdown),
          (''priority'', I (priority_p job))])"

fun result_rows_p :: "(string \<times> JobState_p) list \<Rightarrow> result_row list" where
  "result_rows_p [] = []"
| "result_rows_p ((jid, job) # rest) =
     (case (start_ms_p job, finish_ms_p job) of
        (Some start, Some finish) \<Rightarrow> result_row_p job start finish # result_rows_p rest
      | _ \<Rightarrow> result_rows_p rest)"

definition finalize_run_p :: "RunState_p \<Rightarrow> RunState_p" where
  "finalize_run_p run =
     (let rows = result_rows_p (jobs_p run)
      in if rows = [] then run
         else run\<lparr>jobs_csv_p := Some (map (\<lambda>r. (''run_id'', S (run_id_p run)) # r) rows),
                  done_p := True\<rparr>)"

text \<open>The loop of \<^verbatim>\<open>start\<close> over \<^verbatim>\<open>jobs.items()\<close>, with its counter \<^verbatim>\<open>seq\<close>.\<close>

fun partition_p :: "(string \<times> JobState_p) list \<Rightarrow> (int \<times> int \<times> int \<times> string) list
    \<Rightarrow> (int \<times> int \<times> string) list \<Rightarrow> int
    \<Rightarrow> (int \<times> int \<times> int \<times> string) list \<times> (int \<times> int \<times> string) list \<times> int" where
  "partition_p [] ready_heap pending_heap seq = (ready_heap, pending_heap, seq)"
| "partition_p ((job_id, job) # rest) ready_heap pending_heap seq =
     (if arrival_ms_p job \<le> 0
      then partition_p rest
             (heappush ready_heap (priority_p job, arrival_ms_p job, seq, job_id))
             pending_heap (seq + 1)
      else partition_p rest ready_heap
             (heappush pending_heap (arrival_ms_p job, seq, job_id)) (seq + 1))"

definition start_p :: "registry \<Rightarrow> real \<Rightarrow> filesystem \<Rightarrow> string \<Rightarrow> int \<Rightarrow> StartReq
    \<Rightarrow> RunState_p option \<Rightarrow> (error + response) \<times> RunState_p option" where
  "start_p reg now fs fresh_id now_ms req active =
     (if total_alive_slots reg now < min_slots_s req
      then (Inl (HTTPException NotEnoughSlots), active)
      else
       (case fs (dataset_file_s req) of
          None \<Rightarrow> (Inl (HTTPException DatasetNotFound), active)
        | Some file \<Rightarrow>
            (case load_jobs_p file of
               Inl e \<Rightarrow> (Inl e, active)
             | Inr jobs \<Rightarrow>
                 (let (ready_heap, pending_heap, seq) = partition_p jobs [] [] 0;
                      run = \<lparr>run_id_p = fresh_id, dataset_file_p = dataset_file_s req,
                             speedup_p = speedup_s req, start_wall_ms_p = now_ms,
                             jobs_p = jobs, ready_heap_p = ready_heap,
                             pending_heap_p = pending_heap, next_seq_p = seq,
                             total_jobs_p = int (length jobs), current_sim_ms_p = 0,
                             completed_p = 0, done_p = False, jobs_csv_p = None\<rparr>
                  in (Inr (RunId fresh_id), Some run)))))"

text \<open>One pass of the loop of \<^verbatim>\<open>next_job\<close>: \<open>now_ms\<close> is the reading
  \<^verbatim>\<open>int(time.time() * 1000)\<close>, \<open>t\<close> the later reading \<^verbatim>\<open>time.time()\<close>.\<close>

definition next_pass_p :: "real \<Rightarrow> RunState_p option \<Rightarrow> int \<Rightarrow> real
    \<Rightarrow> outcome \<times> RunState_p option" where
  "next_pass_p deadline active now_ms t =
     (case active of
        None \<Rightarrow> (Return StatusNoRun, active)
      | Some run \<Rightarrow>
          if done_p run \<or> completed_p run \<ge> total_jobs_p run then (Return StatusDone, active)
          else
            (let now_sim = wall_to_sim (start_wall_ms_p run) (speedup_p run) now_ms;
                 run1 = run\<lparr>current_sim_ms_p := max (current_sim_ms_p run) now_sim\<rparr>
             in case promote_arrivals run1 (current_sim_ms_p run1) of
                  (Some e, run2) \<Rightarrow> (Raise e, Some run2)
                | (None, run2) \<Rightarrow>
                    (case ready_heap_p run2 of
                       (priority, arrival, seq, jid) # rest \<Rightarrow>
                         (case map_of (jobs_p run2) jid of
                            None \<Rightarrow> (Raise KeyError, Some (run2\<lparr>ready_heap_p := rest\<rparr>))
                          | Some job \<Rightarrow>
                              (Return (OkPrio jid (service_ms_p job) priority arrival),
                               Some (run2\<lparr>ready_heap_p := rest\<rparr>)))
                     | [] \<Rightarrow>
                         (let remaining = deadline - t
                          in if remaining \<le> 0 then (Return StatusWait, Some run2)
                             else (Block remaining, Some run2)))))"

fun next_loop_p :: "real \<Rightarrow> RunState_p option \<Rightarrow> int \<Rightarrow> real
    \<Rightarrow> (RunState_p option \<times> int \<times> real) list \<Rightarrow> (outcome \<times> RunState_p option) option" where
  "next_loop_p deadline active now_ms t wakes =
     (case next_pass_p deadline active now_ms t of
        (Block d, a) \<Rightarrow>
          (case wakes of
             [] \<Rightarrow> None
           | (a', now_ms', t') # rest \<Rightarrow> next_loop_p deadline a' now_ms' t' rest)
      | (r, a) \<Rightarrow> Some (r, a))"

definition next_job_p :: "registry \<Rightarrow> real \<Rightarrow> real \<Rightarrow> NextReq \<Rightarrow> RunState_p option \<Rightarrow> int
    \<Rightarrow> real \<Rightarrow> (RunState_p option \<times> int \<times> real) list
    \<Rightarrow> (outcome \<times> RunState_p option) option" where
  "next_job_p reg now t0 req active now_ms t wakes =
     (if \<not> is_alive_worker_core reg now (worker_id req) (core_id req)
      then Some (Raise (HTTPException NotAlive), active)
      else next_loop_p (t0 + of_int (timeout_ms req) / 1000) active now_ms t wakes)"

definition done_p_ep :: "registry \<Rightarrow> real \<Rightarrow> DoneReq \<Rightarrow> RunState_p option
    \<Rightarrow> (error + response) \<times> RunState_p option" where
  "done_p_ep reg now req active =
     (if \<not> is_alive_worker_core reg now (worker_id_d req) (core_id_d req)
      then (Inl (HTTPException NotAlive), active)
      else
       (case active of
          None \<Rightarrow> (Inr StatusNoRun, active)
        | Some run \<Rightarrow>
            if done_p run then (Inr StatusDone, active)
            else
             (case map_of (jobs_p run) (job_id_d req) of
                None \<Rightarrow> (Inl (HTTPException UnknownJob), active)
              | Some job \<Rightarrow>
                  (let started_sim = wall_to_sim (start_wall_ms_p run) (speedup_p run)
                                       (started_wall_ms_d req);
                       finished_sim = started_sim + service_ms_p job;
                       job' = job\<lparr>start_ms_p := (case start_ms_p job of
                                                    None \<Rightarrow> Some started_sim
                                                  | Some s \<Rightarrow> Some s),
                                  finish_ms_p := Some finished_sim,
                                  cpu_percent_p := cpu_percent_d req,
                                  memory_mb_p := memory_mb_d req\<rparr>;
                       run' = run\<lparr>jobs_p := AList.update (job_id_d req) job' (jobs_p run),
                                  current_sim_ms_p := max (current_sim_ms_p run) finished_sim,
                                  completed_p := completed_p run + 1\<rparr>
                   in (Inr StatusOk,
                       Some (if completed_p run' \<ge> total_jobs_p run' then finalize_run_p run'
                             else run'))))))"

subsection \<open>\<^verbatim>\<open>round-robin/scheduler.py\<close>\<close>

text \<open>\<^verbatim>\<open>JobState\<close>, \<^verbatim>\<open>StartReq\<close> and \<^verbatim>\<open>DoneReq\<close> have the same fields in
  \<^verbatim>\<open>round-robin/scheduler.py\<close> and in the top-level \<^verbatim>\<open>scheduler.py\<close>.\<close>

record JobState_rr =
  job_id_rr :: string
  service_ms_rr :: int
  remaining_ms_rr :: int
  arrival_ms_rr :: int
  first_start_ms_rr :: "int option"
  finish_ms_rr :: "int option"
  slices_rr :: int
  preemptions_rr :: int

record StartReq_rr =
  dataset_file_srr :: string
  quantum_ms_srr :: int
  speedup_srr :: real
  min_slots_srr :: int

record DoneReq_rr =
  worker_id_drr :: string
  core_id_drr :: int
  job_id_drr :: string
  ran_ms_drr :: int
  remaining_after_ms_drr :: int
  started_wall_ms_drr :: int
  finished_wall_ms_drr :: int

record RunState_rr =
  run_id_rr :: string
  dataset_file_rr :: string
  quantum_ms_rr :: int
  speedup_rr :: real
  start_wall_ms_rr :: int
  jobs_rr :: "(string \<times> JobState_rr) list"
  ready_q_rr :: "string list"
  pending_ids_rr :: "string list"
  total_jobs_rr :: int
  pending_idx_rr :: nat
  completed_rr :: int
  done_rr :: bool
  jobs_csv_rr :: "result_row list option"

text \<open>The \<^verbatim>\<open>while\<close> loop of \<^verbatim>\<open>release_arrivals\<close>.\<close>

function release_arrivals :: "RunState_rr \<Rightarrow> int \<Rightarrow> error option \<times> RunState_rr" where
  "release_arrivals run now_sim_ms =
     (if pending_idx_rr run < length (pending_ids_rr run) then
        (let jid = pending_ids_rr run ! pending_idx_rr run
         in case map_of (jobs_rr run) jid of
              None \<Rightarrow> (Some KeyError, run)
            | Some job \<Rightarrow>
                if arrival_ms_rr job > now_sim_ms then (None, run)
                else release_arrivals
                       (run\<lparr>ready_q_rr := ready_q_rr run @ [jid],
                            pending_idx_rr := pending_idx_rr run + 1\<rparr>) now_sim_ms)
      else (None, run))"
  by pat_completeness auto
termination
  by (relation "measure (\<lambda>(run, now). length (pending_ids_rr run) - pending_idx_rr run)") auto

text \<open>The sort key of \<^verbatim>\<open>df.sort_values("arrival_time_ms", kind="stable")\<close>. The loop
  after it converts every arrival cell with \<^verbatim>\<open>int\<close>, so a frame with a cell that is not
  an integer ends in an exception wherever the sort has put the row.\<close>

definition arrival_key :: "csv_row \<Rightarrow> int" where
  "arrival_key row = (case col_arrival_time_ms row of IntCell i \<Rightarrow> i | NotInt \<Rightarrow> 0)"

fun load_rows_rr :: "csv_row list \<Rightarrow> (string \<times> JobState_rr) list
    \<Rightarrow> error + (string \<times> JobState_rr) list" where
  "load_rows_rr [] jobs = Inr jobs"
| "load_rows_rr (row # rest) jobs =
     (case py_int (col_service_time_ms row) of
        Inl e \<Rightarrow> Inl e
      | Inr svc \<Rightarrow>
          (case py_int (col_arrival_time_ms row) of
             Inl e \<Rightarrow> Inl e
           | Inr arr \<Rightarrow>
               load_rows_rr rest
                 (AList.update (col_job_id row)
                    \<lparr>job_id_rr = col_job_id row, service_ms_rr = svc, remaining_ms_rr = svc,
                     arrival_ms_rr = arr, first_start_ms_rr = None, finish_ms_rr = None,
                     slices_rr = 0, preemptions_rr = 0\<rparr> jobs)))"

definition load_jobs_rr :: "csv_file \<Rightarrow> error + (string \<times> JobState_rr) list" where
  "load_jobs_rr file =
     (case file of
        Unparsable \<Rightarrow> Inl ParserError
      | Parsed df \<Rightarrow>
          if \<not> {''job_id'', ''service_time_ms'', ''arrival_time_ms''} \<subseteq> set (df_columns df)
          then Inl ValueError
          else load_rows_rr (sort_key arrival_key (df_rows df)) [])"

definition result_row_rr :: "JobState_rr \<Rightarrow> int \<Rightarrow> result_row" where
  "result_row_rr j finish =
     (let response = finish - arrival_ms_rr j;
          waiting = response - service_ms_rr j
      in [(''job_id'', S (job_id_rr j)),
          (''service_time_ms'', I (service_ms_rr j)),
          (''arrival_time_ms'', I (arrival_ms_rr j)),
          (''first_start_time_ms'', I (case first_start_ms_rr j of None \<Rightarrow> 0 | Some s \<Rightarrow> s)),
          (''finish_time_ms'', I finish),
          (''response_time_ms'', I response),
          (''waiting_time_ms'', I waiting),
          (''slices'', I (slices_rr j)),
          (''preemptions'', I (preemptions_rr j))])"

fun result_rows_rr :: "(string \<times> JobState_rr) list \<Rightarrow> result_row list" where
  "result_rows_rr [] = []"
| "result_rows_rr ((jid, j) # rest) =
     (case finish_ms_rr j of
        None \<Rightarrow> result_rows_rr rest
      | Some finish \<Rightarrow> result_row_rr j finish # result_rows_rr rest)"

definition finalize_run_rr :: "RunState_rr \<Rightarrow> RunState_rr" where
  "finalize_run_rr run =
     run\<lparr>jobs_csv_rr :=
            Some (map (\<lambda>r. (''run_id'', S (run_id_rr run)) #
                            (''quantum_ms'', I (quantum_ms_rr run)) # r)
                    (result_rows_rr (jobs_rr run))),
          done_rr := True\<rparr>"

definition start_rr :: "registry \<Rightarrow> real \<Rightarrow> filesystem \<Rightarrow> string \<Rightarrow> int \<Rightarrow> StartReq_rr
    \<Rightarrow> RunState_rr option \<Rightarrow> (error + response) \<times> RunState_rr option" where
  "start_rr reg now fs fresh_id now_ms req active =
     (if total_alive_slots reg now < min_slots_srr req
      then (Inl (HTTPException NotEnoughSlots), active)
      else
       (case fs (dataset_file_srr req) of
          None \<Rightarrow> (Inl (HTTPException DatasetNotFound), active)
        | Some file \<Rightarrow>
            (case load_jobs_rr file of
               Inl e \<Rightarrow> (Inl e, active)
             | Inr jobs \<Rightarrow>
                 (let pending_ids = map fst (sort_key (\<lambda>(jid, job). arrival_ms_rr job) jobs);
                      run = \<lparr>run_id_rr = fresh_id, dataset_file_rr = dataset_file_srr req,
                             quantum_ms_rr = quantum_ms_srr req, speedup_rr = speedup_srr req,
                             start_wall_ms_rr = now_ms, jobs_rr = jobs, ready_q_rr = [],
                             pending_ids_rr = pending_ids,
                             total_jobs_rr = int (length jobs), pending_idx_rr = 0,
                             completed_rr = 0, done_rr = False, jobs_csv_rr = None\<rparr>
                  in case release_arrivals run 0 of
                       (Some e, run') \<Rightarrow> (Inl e, active)
                     | (None, run') \<Rightarrow> (Inr (RunId fresh_id), Some run')))))"

text \<open>One pass of the loop of \<^verbatim>\<open>next_slice\<close>: \<open>now_wall_ms\<close> is the reading
  \<^verbatim>\<open>int(time.time() * 1000)\<close>, \<open>t\<close> the later reading \<^verbatim>\<open>time.time()\<close>. The division
  by a speed-up of 0 raises \<^verbatim>\<open>ZeroDivisionError\<close>.\<close>

definition next_pass_rr :: "real \<Rightarrow> RunState_rr option \<Rightarrow> int \<Rightarrow> real
    \<Rightarrow> outcome \<times> RunState_rr option" where
  "next_pass_rr deadline_wall active now_wall_ms t =
     (case active of
        None \<Rightarrow> (Return StatusNoRun, active)
      | Some run \<Rightarrow>
          if done_rr run \<or> completed_rr run \<ge> total_jobs_rr run
          then (Return StatusDone, active)
          else
            (let now_sim_ms = wall_to_sim (start_wall_ms_rr run) (speedup_rr run) now_wall_ms
             in case release_arrivals run now_sim_ms of
                  (Some e, run1) \<Rightarrow> (Raise e, Some run1)
                | (None, run1) \<Rightarrow>
                    (case ready_q_rr run1 of
                       jid # rest \<Rightarrow>
                         (case map_of (jobs_rr run1) jid of
                            None \<Rightarrow> (Raise KeyError, Some (run1\<lparr>ready_q_rr := rest\<rparr>))
                          | Some job \<Rightarrow>
                              (Return (OkRR jid (min (quantum_ms_rr run1) (remaining_ms_rr job))
                                         (remaining_ms_rr job) (arrival_ms_rr job)),
                               Some (run1\<lparr>ready_q_rr := rest\<rparr>)))
                     | [] \<Rightarrow>
                         (let remaining_req = deadline_wall - t
                          in if remaining_req \<le> 0 then (Return StatusWait, Some run1)
                             else if pending_idx_rr run1 < length (pending_ids_rr run1) then
                               (case map_of (jobs_rr run1)
                                       (pending_ids_rr run1 ! pending_idx_rr run1) of
                                  None \<Rightarrow> (Raise KeyError, Some run1)
                                | Some next_job \<Rightarrow>
                                    (let delta_sim = max 0 (arrival_ms_rr next_job - now_sim_ms)
                                     in if speedup_rr run1 = 0
                                        then (Raise ZeroDivisionError, Some run1)
                                        else
                                          (let wait_until_arrival =
                                                 max (1 / 1000)
                                                   ((of_int delta_sim / speedup_rr run1) / 1000)
                                           in (Block (min remaining_req wait_until_arrival),
                                               Some run1))))
                             else (Block remaining_req, Some run1)))))"

fun next_loop_rr :: "real \<Rightarrow> RunState_rr option \<Rightarrow> int \<Rightarrow> real
    \<Rightarrow> (RunState_rr option \<times> int \<times> real) list \<Rightarrow> (outcome \<times> RunState_rr option) option" where
  "next_loop_rr deadline_wall active now_wall_ms t wakes =
     (case next_pass_rr deadline_wall active now_wall_ms t of
        (Block d, a) \<Rightarrow>
          (case wakes of
             [] \<Rightarrow> None
           | (a', now_wall_ms', t') # rest \<Rightarrow> next_loop_rr deadline_wall a' now_wall_ms' t' rest)
      | (r, a) \<Rightarrow> Some (r, a))"

definition next_slice_rr :: "registry \<Rightarrow> real \<Rightarrow> real \<Rightarrow> NextReq \<Rightarrow> RunState_rr option \<Rightarrow> int
    \<Rightarrow> real \<Rightarrow> (RunState_rr option \<times> int \<times> real) list
    \<Rightarrow> (outcome \<times> RunState_rr option) option" where
  "next_slice_rr reg now t0 req active now_wall_ms t wakes =
     (if \<not> is_alive_worker_core reg now (worker_id req) (core_id req)
      then Some (Raise (HTTPException NotAlive), active)
      else next_loop_rr (t0 + of_int (timeout_ms req) / 1000) active now_wall_ms t wakes)"

text \<open>The part of \<^verbatim>\<open>done\<close> that updates the job, which reads the same in both round-robin
  files: it returns the job and whether it has finished.\<close>

definition done_job_rr :: "JobState_rr \<Rightarrow> int \<Rightarrow> int \<Rightarrow> int \<Rightarrow> JobState_rr" where
  "done_job_rr job started_sim finished_sim remaining_after_ms =
     (let job1 = job\<lparr>first_start_ms_rr := (case first_start_ms_rr job of
                                              None \<Rightarrow> Some started_sim
                                            | Some s \<Rightarrow> Some s),
                     slices_rr := slices_rr job + 1,
                     remaining_ms_rr := max 0 remaining_after_ms\<rparr>
      in if remaining_ms_rr job1 = 0 then job1\<lparr>finish_ms_rr := Some finished_sim\<rparr>
         else job1\<lparr>preemptions_rr := preemptions_rr job1 + 1\<rparr>)"

definition done_rr_ep :: "registry \<Rightarrow> real \<Rightarrow> DoneReq_rr \<Rightarrow> RunState_rr option
    \<Rightarrow> (error + response) \<times> RunState_rr option" where
  "done_rr_ep reg now req active =
     (if \<not> is_alive_worker_core reg now (worker_id_drr req) (core_id_drr req)
      then (Inl (HTTPException NotAlive), active)
      else
       (case active of
          None \<Rightarrow> (Inr StatusNoRun, active)
        | Some run \<Rightarrow>
            if done_rr run then (Inr StatusDone, active)
            else
             (case map_of (jobs_rr run) (job_id_drr req) of
                None \<Rightarrow> (Inl (HTTPException UnknownJob), active)
              | Some job \<Rightarrow>
                  (let started_sim = wall_to_sim (start_wall_ms_rr run) (speedup_rr run)
                                       (started_wall_ms_drr req);
                       finished_sim = wall_to_sim (start_wall_ms_rr run) (speedup_rr run)
                                        (finished_wall_ms_drr req);
                       job' = done_job_rr job started_sim finished_sim
                                (remaining_after_ms_drr req);
                       run1 = run\<lparr>jobs_rr := AList.update (job_id_drr req) job' (jobs_rr run)\<rparr>;
                       run2 = (if remaining_ms_rr job' = 0
                               then run1\<lparr>completed_rr := completed_rr run1 + 1\<rparr>
                               else run1\<lparr>ready_q_rr := ready_q_rr run1 @ [job_id_rr job']\<rparr>)
                   in (Inr StatusOk,
                       Some (if completed_rr run2 \<ge> total_jobs_rr run2
                             then finalize_run_rr run2 else run2))))))"

subsection \<open>The top-level \<^verbatim>\<open>scheduler.py\<close>\<close>

record RunState_r0 =
  run_id_r0 :: string
  dataset_file_r0 :: string
  quantum_ms_r0 :: int
  speedup_r0 :: real
  start_wall_ms_r0 :: int
  jobs_r0 :: "(string \<times> JobState_rr) list"
  ready_q_r0 :: "string list"
  total_jobs_r0 :: int
  completed_r0 :: int
  done_r0 :: bool
  jobs_csv_r0 :: "result_row list option"

fun load_rows_r0 :: "csv_row list \<Rightarrow> (string \<times> JobState_rr) list
    \<Rightarrow> error + (string \<times> JobState_rr) list" where
  "load_rows_r0 [] jobs = Inr jobs"
| "load_rows_r0 (row # rest) jobs =
     (case py_int (col_service_time_ms row) of
        Inl e \<Rightarrow> Inl e
      | Inr svc \<Rightarrow>
          load_rows_r0 rest
            (AList.update (col_job_id row)
               \<lparr>job_id_rr = col_job_id row, service_ms_rr = svc, remaining_ms_rr = svc,
                arrival_ms_rr = 0, first_start_ms_rr = None, finish_ms_rr = None,
                slices_rr = 0, preemptions_rr = 0\<rparr> jobs))"

definition load_jobs_r0 :: "csv_file \<Rightarrow> error + (string \<times> JobState_rr) list" where
  "load_jobs_r0 file =
     (case file of
        Unparsable \<Rightarrow> Inl ParserError
      | Parsed df \<Rightarrow>
          if \<not> {''job_id'', ''service_time_ms''} \<subseteq> set (df_columns df) then Inl ValueError
          else load_rows_r0 (df_rows df) [])"

definition result_row_r0 :: "JobState_rr \<Rightarrow> int \<Rightarrow> result_row" where
  "result_row_r0 j finish =
     (let response = finish - arrival_ms_rr j;
          waiting = response - service_ms_rr j;
          slowdown = of_int response / of_int (max 1 (service_ms_rr j))
      in [(''job_id'', S (job_id_rr j)),
          (''service_time_ms'', I (service_ms_rr j)),
          (''arrival_time_ms'', I (arrival_ms_rr j)),
          (''first_start_time_ms'', I (case first_start_ms_rr j of None \<Rightarrow> 0 | Some s \<Rightarrow> s)),
          (''finish_time_ms'', I finish),
          (''response_time_ms'', I response),
          (''waiting_time_ms'', I waiting),
          (''slices'', I (slices_rr j)),
          (''preemptions'', I (preemptions_rr j)),
          (''slowdown'', R slowdown)])"

fun result_rows_r0 :: "(string \<times> JobState_rr) list \<Rightarrow> result_row list" where
  "result_rows_r0 [] = []"
| "result_rows_r0 ((jid, j) # rest) =
     (case finish_ms_rr j of
        None \<Rightarrow> result_rows_r0 rest
      | Some finish \<Rightarrow> result_row_r0 j finish # result_rows_r0 rest)"

text \<open>With no row, the frame has no column \<^verbatim>\<open>response_time_ms\<close> and the percentile
  lookup raises \<^verbatim>\<open>KeyError\<close>.\<close>

definition finalize_run_r0 :: "RunState_r0 \<Rightarrow> error + RunState_r0" where
  "finalize_run_r0 run =
     (let rows = result_rows_r0 (jobs_r0 run)
      in if rows = [] then Inl KeyError
         else Inr (run\<lparr>jobs_csv_r0 :=
                          Some (map (\<lambda>r. (''run_id'', S (run_id_r0 run)) #
                                          (''quantum_ms'', I (quantum_ms_r0 run)) # r) rows),
                        done_r0 := True\<rparr>))"

definition start_r0 :: "registry \<Rightarrow> real \<Rightarrow> filesystem \<Rightarrow> string \<Rightarrow> int \<Rightarrow> StartReq_rr
    \<Rightarrow> RunState_r0 option \<Rightarrow> (error + response) \<times> RunState_r0 option" where
  "start_r0 reg now fs fresh_id now_ms req active =
     (if total_alive_slots reg now < min_slots_srr req
      then (Inl (HTTPException NotEnoughSlots), active)
      else
       (case fs (dataset_file_srr req) of
          None \<Rightarrow> (Inl (HTTPException DatasetNotFound), active)
        | Some file \<Rightarrow>
            (case load_jobs_r0 file of
               Inl e \<Rightarrow> (Inl e, active)
             | Inr jobs \<Rightarrow>
                 (Inr (RunId fresh_id),
                  Some \<lparr>run_id_r0 = fresh_id, dataset_file_r0 = dataset_file_srr req,
                        quantum_ms_r0 = quantum_ms_srr req, speedup_r0 = speedup_srr req,
                        start_wall_ms_r0 = now_ms, jobs_r0 = jobs, ready_q_r0 = map fst jobs,
                        total_jobs_r0 = int (length jobs), completed_r0 = 0,
                        done_r0 = False, jobs_csv_r0 = None\<rparr>))))"

definition next_pass_r0 :: "real \<Rightarrow> RunState_r0 option \<Rightarrow> real
    \<Rightarrow> outcome \<times> RunState_r0 option" where
  "next_pass_r0 deadline active t =
     (case active of
        None \<Rightarrow> (Return StatusNoRun, active)
      | Some run \<Rightarrow>
          if done_r0 run \<or> completed_r0 run \<ge> total_jobs_r0 run
          then (Return StatusDone, active)
          else
            (case ready_q_r0 run of
               jid # rest \<Rightarrow>
                 (case map_of (jobs_r0 run) jid of
                    None \<Rightarrow> (Raise KeyError, Some (run\<lparr>ready_q_r0 := rest\<rparr>))
                  | Some job \<Rightarrow>
                      (Return (OkRoot jid (min (quantum_ms_r0 run) (remaining_ms_rr job))
                                 (remaining_ms_rr job)),
                       Some (run\<lparr>ready_q_r0 := rest\<rparr>)))
             | [] \<Rightarrow>
                 (let remaining = deadline - t
                  in if remaining \<le> 0 then (Return StatusWait, active)
                     else (Block remaining, active))))"

fun next_loop_r0 :: "real \<Rightarrow> RunState_r0 option \<Rightarrow> real \<Rightarrow> (RunState_r0 option \<times> real) list
    \<Rightarrow> (outcome \<times> RunState_r0 option) option" where
  "next_loop_r0 deadline active t wakes =
     (case next_pass_r0 deadline active t of
        (Block d, a) \<Rightarrow>
          (case wakes of
             [] \<Rightarrow> None
           | (a', t') # rest \<Rightarrow> next_loop_r0 deadline a' t' rest)
      | (r, a) \<Rightarrow> Some (r, a))"

definition next_slice_r0 :: "registry \<Rightarrow> real \<Rightarrow> real \<Rightarrow> NextReq \<Rightarrow> RunState_r0 option \<Rightarrow> real
    \<Rightarrow> (RunState_r0 option \<times> real) list \<Rightarrow> (outcome \<times> RunState_r0 option) option" where
  "next_slice_r0 reg now t0 req active t wakes =
     (if \<not> is_alive_worker_core reg now (worker_id req) (core_id req)
      then Some (Raise (HTTPException NotAlive), active)
      else next_loop_r0 (t0 + of_int (timeout_ms req) / 1000) active t wakes)"

definition done_r0_ep :: "registry \<Rightarrow> real \<Rightarrow> DoneReq_rr \<Rightarrow> RunState_r0 option
    \<Rightarrow> (error + response) \<times> RunState_r0 option" where
  "done_r0_ep reg now req active =
     (if \<not> is_alive_worker_core reg now (worker_id_drr req) (core_id_drr req)
      then (Inl (HTTPException NotAlive), active)
      else
       (case active of
          None \<Rightarrow> (Inr StatusNoRun, active)
        | Some run \<Rightarrow>
            if done_r0 run then (Inr StatusDone, active)
            else
             (case map_of (jobs_r0 run) (job_id_drr req) of
                None \<Rightarrow> (Inl (HTTPException UnknownJob), active)
              | Some job \<Rightarrow>
                  (let started_sim = wall_to_sim (start_wall_ms_r0 run) (speedup_r0 run)
                                       (started_wall_ms_drr req);
                       finished_sim = wall_to_sim (start_wall_ms_r0 run) (speedup_r0 run)
                                        (finished_wall_ms_drr req);
                       job' = done_job_rr job started_sim finished_sim
                                (remaining_after_ms_drr req);
                       run1 = run\<lparr>jobs_r0 := AList.update (job_id_drr req) job' (jobs_r0 run)\<rparr>;
                       run2 = (if remaining_ms_rr job' = 0
                               then run1\<lparr>completed_r0 := completed_r0 run1 + 1\<rparr>
                               else run1\<lparr>ready_q_r0 := ready_q_r0 run1 @ [job_id_rr job']\<rparr>)
                   in if completed_r0 run2 \<ge> total_jobs_r0 run2
                      then (case finalize_run_r0 run2 of
                              Inl e \<Rightarrow> (Inl e, Some run2)
                            | Inr run3 \<Rightarrow> (Inr StatusOk, Some run3))
                      else (Inr StatusOk, Some run2)))))"

text \<open>The job ids held in the entries of a ready heap and of a pending heap.\<close>

definition heap_ready_ids :: "(int \<times> int \<times> int \<times> string) list \<Rightarrow> string set" where
  "heap_ready_ids h = (\<lambda>(p, a, s, jid). jid) ` set h"

definition heap_pending_ids :: "(int \<times> int \<times> string) list \<Rightarrow> string set" where
  "heap_pending_ids h = (\<lambda>(a, s, jid). jid) ` set h"

text \<open>The order of a job's recorded times: a recorded start is not before the arrival,
  and a recorded finish is not before the recorded start (for round-robin the start is
  \<open>first_start_ms\<close>).\<close>

definition times_ok_f :: "JobState_f \<Rightarrow> bool" where
  "times_ok_f j =
     (case start_ms_f j of
        None \<Rightarrow> finish_ms_f j = None
      | Some s \<Rightarrow> arrival_ms_f j \<le> s
          \<and> (case finish_ms_f j of None \<Rightarrow> True | Some f \<Rightarrow> s \<le> f))"

definition times_ok_p :: "JobState_p \<Rightarrow> bool" where
  "times_ok_p j =
     (case start_ms_p j of
        None \<Rightarrow> finish_ms_p j = None
      | Some s \<Rightarrow> arrival_ms_p j \<le> s
          \<and> (case finish_ms_p j of None \<Rightarrow> True | Some f \<Rightarrow> s \<le> f))"

definition times_ok_rr :: "JobState_rr \<Rightarrow> bool" where
  "times_ok_rr j =
     (case first_start_ms_rr j of
        None \<Rightarrow> finish_ms_rr j = None
      | Some s \<Rightarrow> arrival_ms_rr j \<le> s
          \<and> (case finish_ms_rr j of None \<Rightarrow> True | Some f \<Rightarrow> s \<le> f))"

text \<open>A \<^verbatim>\<open>/done\<close> report whose times stand in that order: the reported start, in
  simulated time, is not before the job's arrival; and the finish that \<^verbatim>\<open>done\<close> will
  record is not before the start it keeps (FIFO: \<open>service_ms \<ge> 0\<close>; priority:
  \<open>service_ms \<ge> 0\<close> and a start recorded earlier is at most the reported start plus
  \<open>service_ms\<close>; round-robin: the reported finish is not before the start recorded
  earlier, or the reported start).\<close>

definition report_ok_f :: "RunState_f \<Rightarrow> DoneReq \<Rightarrow> bool" where
  "report_ok_f run req =
     (case map_of (jobs_f run) (job_id_d req) of
        None \<Rightarrow> True
      | Some j \<Rightarrow>
          arrival_ms_f j
            \<le> wall_to_sim (start_wall_ms_f run) (speedup_f run) (started_wall_ms_d req)
          \<and> 0 \<le> service_ms_f j)"

definition report_ok_p :: "RunState_p \<Rightarrow> DoneReq \<Rightarrow> bool" where
  "report_ok_p run req =
     (case map_of (jobs_p run) (job_id_d req) of
        None \<Rightarrow> True
      | Some j \<Rightarrow>
          (let started_sim = wall_to_sim (start_wall_ms_p run) (speedup_p run)
                               (started_wall_ms_d req)
           in arrival_ms_p j \<le> started_sim \<and> 0 \<le> service_ms_p j
              \<and> (case start_ms_p j of
                    None \<Rightarrow> True
                  | Some s \<Rightarrow> s \<le> started_sim + service_ms_p j)))"

definition report_ok_rr :: "int \<Rightarrow> real \<Rightarrow> (string \<times> JobState_rr) list \<Rightarrow> DoneReq_rr \<Rightarrow> bool" where
  "report_ok_rr start_wall speedup jobs req =
     (case map_of jobs (job_id_drr req) of
        None \<Rightarrow> True
      | Some j \<Rightarrow>
          (let started_sim = wall_to_sim start_wall speedup (started_wall_ms_drr req);
               finished_sim = wall_to_sim start_wall speedup (finished_wall_ms_drr req)
           in arrival_ms_rr j \<le> started_sim
              \<and> (case first_start_ms_rr j of None \<Rightarrow> started_sim | Some s \<Rightarrow> s)
                   \<le> finished_sim))"

subsection \<open>Concrete inputs\<close>

text \<open>A registry with one worker of two cores, last seen at second 100; a data set of two
  jobs without an arrival column; and the requests used in the examples below.\<close>

definition reg_ex :: registry where
  "reg_ex = \<lparr>WORKERS = [(''w1'', \<lparr>cores = 2, last_seen = 100\<rparr>)], WORKER_TIMEOUT_SEC = 10\<rparr>"

definition two_df :: dataframe where
  "two_df = \<lparr>df_columns = [''job_id'', ''service_time_ms'', ''priority''],
      df_rows = [\<lparr>col_job_id = ''A'', col_service_time_ms = IntCell 100,
                   col_arrival_time_ms = NotInt, col_priority = IntCell 1\<rparr>,
                 \<lparr>col_job_id = ''B'', col_service_time_ms = IntCell 100,
                   col_arrival_time_ms = NotInt, col_priority = IntCell 2\<rparr>]\<rparr>"

definition two_jobs_csv :: csv_file where
  "two_jobs_csv = Parsed two_df"

definition start_req_ex :: StartReq where
  "start_req_ex = \<lparr>dataset_file_s = ''two.csv'', speedup_s = 1, min_slots_s = 1\<rparr>"

definition done_A :: "int \<Rightarrow> DoneReq" where
  "done_A started = \<lparr>worker_id_d = ''w1'', core_id_d = 0, job_id_d = ''A'',
     started_wall_ms_d = started, finished_wall_ms_d = started + 100,
     cpu_percent_d = None, memory_mb_d = None\<rparr>"

text \<open>A run of the two jobs is started at wall clock 1000 ms with speed-up 1; the worker
  reports job \<open>A\<close> done (started at 1000 ms), and then reports \<open>A\<close> done once more (started
  at 1050 ms). Job \<open>B\<close> is never reported.\<close>

definition replay_f :: "RunState_f option" where
  "replay_f =
     (let r0 = snd (start_f reg_ex 101 [''two.csv'' \<mapsto> two_jobs_csv] ''r1'' 1000
                      start_req_ex None);
          r1 = snd (done_f_ep reg_ex 102 (done_A 1000) r0)
      in snd (done_f_ep reg_ex 103 (done_A 1050) r1))"

definition replay_p :: "RunState_p option" where
  "replay_p =
     (let r0 = snd (start_p reg_ex 101 [''two.csv'' \<mapsto> two_jobs_csv] ''r1'' 1000
                      start_req_ex None);
          r1 = snd (done_p_ep reg_ex 102 (done_A 1000) r0)
      in snd (done_p_ep reg_ex 103 (done_A 1050) r1))"

text \<open>Jobs \<open>A\<close> (50 ms) and \<open>B\<close> (30 ms), both arrived, under a quantum of 20 ms, as the two
  round-robin services hold them after \<^verbatim>\<open>/next\<close> has handed out \<open>A\<close>.\<close>

definition job_A_rr :: JobState_rr where
  "job_A_rr = \<lparr>job_id_rr = ''A'', service_ms_rr = 50, remaining_ms_rr = 50, arrival_ms_rr = 0,
     first_start_ms_rr = None, finish_ms_rr = None, slices_rr = 0, preemptions_rr = 0\<rparr>"

definition job_B_rr :: JobState_rr where
  "job_B_rr = \<lparr>job_id_rr = ''B'', service_ms_rr = 30, remaining_ms_rr = 30, arrival_ms_rr = 0,
     first_start_ms_rr = None, finish_ms_rr = None, slices_rr = 0, preemptions_rr = 0\<rparr>"

definition run_ex_rr :: RunState_rr where
  "run_ex_rr = \<lparr>run_id_rr = ''r1'', dataset_file_rr = ''ab.csv'', quantum_ms_rr = 20,
     speedup_rr = 1, start_wall_ms_rr = 1000,
     jobs_rr = [(''A'', job_A_rr), (''B'', job_B_rr)], ready_q_rr = [''B''],
     pending_ids_rr = [''A'', ''B''], total_jobs_rr = 2, pending_idx_rr = 2,
     completed_rr = 0, done_rr = False, jobs_csv_rr = None\<rparr>"

definition run_ex_r0 :: RunState_r0 where
  "run_ex_r0 = \<lparr>run_id_r0 = ''r1'', dataset_file_r0 = ''ab.csv'', quantum_ms_r0 = 20,
     speedup_r0 = 1, start_wall_ms_r0 = 1000,
     jobs_r0 = [(''A'', job_A_rr), (''B'', job_B_rr)], ready_q_r0 = [''B''],
     total_jobs_r0 = 2, completed_r0 = 0, done_r0 = False, jobs_csv_r0 = None\<rparr>"

definition slice_A :: "int \<Rightarrow> DoneReq_rr" where
  "slice_A remaining_after = \<lparr>worker_id_drr = ''w1'', core_id_drr = 0, job_id_drr = ''A'',
     ran_ms_drr = 20, remaining_after_ms_drr = remaining_after,
     started_wall_ms_drr = 1000, finished_wall_ms_drr = 1020\<rparr>"

text \<open>The FIFO and the priority run after a first report of job \<open>A\<close>: its \<open>finish_ms\<close>
  is set.\<close>

definition job_A_done_f :: JobState_f where
  "job_A_done_f = \<lparr>job_id_f = ''A'', service_ms_f = 100, arrival_ms_f = 0,
     start_ms_f = Some 0, finish_ms_f = Some 100, cpu_percent_f = None, memory_mb_f = None\<rparr>"

definition run_A_done_f :: RunState_f where
  "run_A_done_f = \<lparr>run_id_f = ''r1'', dataset_file_f = ''two.csv'', speedup_f = 1,
     start_wall_ms_f = 1000,
     jobs_f = [(''A'', job_A_done_f),
               (''B'', \<lparr>job_id_f = ''B'', service_ms_f = 100, arrival_ms_f = 0,
                       start_ms_f = None, finish_ms_f = None, cpu_percent_f = None,
                       memory_mb_f = None\<rparr>)],
     ready_q_f = [], pending_jobs_f = [], total_jobs_f = 2, current_sim_ms_f = 100,
     completed_f = 1, done_f = False, jobs_csv_f = None\<rparr>"

definition job_A_done_p :: JobState_p where
  "job_A_done_p = \<lparr>job_id_p = ''A'', service_ms_p = 100, arrival_ms_p = 0, priority_p = 1,
     start_ms_p = Some 0, finish_ms_p = Some 100, cpu_percent_p = None, memory_mb_p = None\<rparr>"

definition run_A_done_p :: RunState_p where
  "run_A_done_p = \<lparr>run_id_p = ''r1'', dataset_file_p = ''two.csv'', speedup_p = 1,
     start_wall_ms_p = 1000,
     jobs_p = [(''A'', job_A_done_p),
               (''B'', \<lparr>job_id_p = ''B'', service_ms_p = 100, arrival_ms_p = 0, priority_p = 2,
                       start_ms_p = None, finish_ms_p = None, cpu_percent_p = None,
                       memory_mb_p = None\<rparr>)],
     ready_heap_p = [], pending_heap_p = [], next_seq_p = 2, total_jobs_p = 2,
     current_sim_ms_p = 100, completed_p = 1, done_p = False, jobs_csv_p = None\<rparr>"

text \<open>A FIFO run whose only job, \<open>B\<close>, arrives at 50 ms and is still pending although the
  simulated clock of the run stands at 100 ms.\<close>

definition job_B_pending_f :: JobState_f where
  "job_B_pending_f = \<lparr>job_id_f = ''B'', service_ms_f = 10, arrival_ms_f = 50,
     start_ms_f = None, finish_ms_f = None, cpu_percent_f = None, memory_mb_f = None\<rparr>"

definition run_pending_f :: RunState_f where
  "run_pending_f = \<lparr>run_id_f = ''r1'', dataset_file_f = ''b.csv'', speedup_f = 1,
     start_wall_ms_f = 1000, jobs_f = [(''B'', job_B_pending_f)], ready_q_f = [],
     pending_jobs_f = [(''B'', job_B_pending_f)], total_jobs_f = 1, current_sim_ms_f = 100,
     completed_f = 0, done_f = False, jobs_csv_f = None\<rparr>"

text \<open>A round-robin run with speed-up 2 whose job \<open>A\<close> has finished and whose job \<open>B\<close>
  arrives at 1000 ms.\<close>

definition job_B_late_rr :: JobState_rr where
  "job_B_late_rr = \<lparr>job_id_rr = ''B'', service_ms_rr = 10, remaining_ms_rr = 10,
     arrival_ms_rr = 1000, first_start_ms_rr = None, finish_ms_rr = None, slices_rr = 0,
     preemptions_rr = 0\<rparr>"

definition run_wait_rr :: RunState_rr where
  "run_wait_rr = \<lparr>run_id_rr = ''r1'', dataset_file_rr = ''ab.csv'', quantum_ms_rr = 20,
     speedup_rr = 2, start_wall_ms_rr = 1000,
     jobs_rr = [(''A'', \<lparr>job_id_rr = ''A'', service_ms_rr = 10, remaining_ms_rr = 0,
                          arrival_ms_rr = 0, first_start_ms_rr = Some 0,
                          finish_ms_rr = Some 10, slices_rr = 1, preemptions_rr = 0\<rparr>),
                (''B'', job_B_late_rr)],
     ready_q_rr = [], pending_ids_rr = [''A'', ''B''], total_jobs_rr = 2, pending_idx_rr = 1,
     completed_rr = 1, done_rr = False, jobs_csv_rr = None\<rparr>"

text \<open>Data sets that lack the column \<^verbatim>\<open>service_time_ms\<close>, that hold a service time which
  is not a number, and that lack the column \<^verbatim>\<open>arrival_time_ms\<close>.\<close>

definition no_service_csv :: csv_file where
  "no_service_csv = Parsed \<lparr>df_columns = [''job_id'', ''arrival_time_ms'', ''priority''],
      df_rows = [\<lparr>col_job_id = ''A'', col_service_time_ms = NotInt,
                   col_arrival_time_ms = IntCell 0, col_priority = IntCell 1\<rparr>]\<rparr>"

definition bad_service_csv :: csv_file where
  "bad_service_csv =
     Parsed \<lparr>df_columns = [''job_id'', ''service_time_ms'', ''arrival_time_ms'', ''priority''],
      df_rows = [\<lparr>col_job_id = ''A'', col_service_time_ms = NotInt,
                   col_arrival_time_ms = IntCell 0, col_priority = IntCell 1\<rparr>]\<rparr>"

definition bad_req :: StartReq where
  "bad_req = \<lparr>dataset_file_s = ''bad.csv'', speedup_s = 1, min_slots_s = 1\<rparr>"

definition bad_req_rr :: StartReq_rr where
  "bad_req_rr = \<lparr>dataset_file_srr = ''bad.csv'', quantum_ms_srr = 10, speedup_srr = 1,
     min_slots_srr = 1\<rparr>"

text \<open>A round-robin run whose only job \<open>B\<close> (30 ms, arrived at 0) got its first slice at
  20 ms and finished at 60 ms, in the shape of either round-robin service.\<close>

definition job_B_fin_rr :: JobState_rr where
  "job_B_fin_rr = \<lparr>job_id_rr = ''B'', service_ms_rr = 30, remaining_ms_rr = 0,
     arrival_ms_rr = 0, first_start_ms_rr = Some 20, finish_ms_rr = Some 60, slices_rr = 2,
     preemptions_rr = 1\<rparr>"

definition run_fin_rr :: RunState_rr where
  "run_fin_rr = \<lparr>run_id_rr = ''r1'', dataset_file_rr = ''b.csv'', quantum_ms_rr = 20,
     speedup_rr = 1, start_wall_ms_rr = 1000, jobs_rr = [(''B'', job_B_fin_rr)],
     ready_q_rr = [], pending_ids_rr = [''B''], total_jobs_rr = 1, pending_idx_rr = 1,
     completed_rr = 1, done_rr = False, jobs_csv_rr = None\<rparr>"

definition run_fin_r0 :: RunState_r0 where
  "run_fin_r0 = \<lparr>run_id_r0 = ''r1'', dataset_file_r0 = ''b.csv'', quantum_ms_r0 = 20,
     speedup_r0 = 1, start_wall_ms_r0 = 1000, jobs_r0 = [(''B'', job_B_fin_rr)],
     ready_q_r0 = [], total_jobs_r0 = 1, completed_r0 = 1, done_r0 = False,
     jobs_csv_r0 = None\<rparr>"

text \<open>A data set with an arrival column: job \<open>A\<close> (10 ms) arrives at 500 ms. The FIFO run
  that \<^verbatim>\<open>/start\<close> makes of it at wall clock 1000 ms.\<close>

definition late_df :: dataframe where
  "late_df = \<lparr>df_columns = [''job_id'', ''service_time_ms'', ''arrival_time_ms''],
      df_rows = [\<lparr>col_job_id = ''A'', col_service_time_ms = IntCell 10,
                   col_arrival_time_ms = IntCell 500, col_priority = NotInt\<rparr>]\<rparr>"

definition late_req :: StartReq where
  "late_req = \<lparr>dataset_file_s = ''late.csv'', speedup_s = 1, min_slots_s = 1\<rparr>"

definition late_req_rr :: StartReq_rr where
  "late_req_rr = \<lparr>dataset_file_srr = ''late.csv'', quantum_ms_srr = 10, speedup_srr = 1,
     min_slots_srr = 1\<rparr>"

definition job_A_late_f :: JobState_f where
  "job_A_late_f = \<lparr>job_id_f = ''A'', service_ms_f = 10, arrival_ms_f = 500,
     start_ms_f = None, finish_ms_f = None, cpu_percent_f = None, memory_mb_f = None\<rparr>"

definition run_late_f :: RunState_f where
  "run_late_f = \<lparr>run_id_f = ''r1'', dataset_file_f = ''late.csv'', speedup_f = 1,
     start_wall_ms_f = 1000, jobs_f = [(''A'', job_A_late_f)], ready_q_f = [],
     pending_jobs_f = [(''A'', job_A_late_f)], total_jobs_f = 1, current_sim_ms_f = 0,
     completed_f = 0, done_f = False, jobs_csv_f = None\<rparr>"

text \<open>A \<^verbatim>\<open>/next\<close> request of core 0 of worker \<open>w1\<close> with a timeout of 10 s.\<close>

definition next_req_ex :: NextReq where
  "next_req_ex = \<lparr>worker_id = ''w1'', core_id = 0, timeout_ms = 10000\<rparr>"

text \<open>The FIFO run of the two jobs \<open>A\<close> and \<open>B\<close> right after \<^verbatim>\<open>/start\<close>.\<close>

definition job_A_f :: JobState_f where
  "job_A_f = \<lparr>job_id_f = ''A'', service_ms_f = 100, arrival_ms_f = 0,
     start_ms_f = None, finish_ms_f = None, cpu_percent_f = None, memory_mb_f = None\<rparr>"

definition run_two_f :: RunState_f where
  "run_two_f = \<lparr>run_id_f = ''r1'', dataset_file_f = ''two.csv'', speedup_f = 1,
     start_wall_ms_f = 1000,
     jobs_f = [(''A'', job_A_f),
               (''B'', \<lparr>job_id_f = ''B'', service_ms_f = 100, arrival_ms_f = 0,
                       start_ms_f = None, finish_ms_f = None, cpu_percent_f = None,
                       memory_mb_f = None\<rparr>)],
     ready_q_f = [''A'', ''B''], pending_jobs_f = [], total_jobs_f = 2, current_sim_ms_f = 0,
     completed_f = 0, done_f = False, jobs_csv_f = None\<rparr>"

text \<open>A priority run: job \<open>A\<close> (priority 10) is ready, job \<open>B\<close> (priority 1) arrives at
  50 ms and is pending. At wall clock 1100 ms, that is 100 ms of simulated time, \<open>B\<close> is
  promoted and then dispatched before \<open>A\<close>.\<close>

definition job_A_p :: JobState_p where
  "job_A_p = \<lparr>job_id_p = ''A'', service_ms_p = 100, arrival_ms_p = 0, priority_p = 10,
     start_ms_p = None, finish_ms_p = None, cpu_percent_p = None, memory_mb_p = None\<rparr>"

definition job_B_p :: JobState_p where
  "job_B_p = \<lparr>job_id_p = ''B'', service_ms_p = 70, arrival_ms_p = 50, priority_p = 1,
     start_ms_p = None, finish_ms_p = None, cpu_percent_p = None, memory_mb_p = None\<rparr>"

definition run_prio_ex :: RunState_p where
  "run_prio_ex = \<lparr>run_id_p = ''r1'', dataset_file_p = ''ab.csv'', speedup_p = 1,
     start_wall_ms_p = 1000, jobs_p = [(''A'', job_A_p), (''B'', job_B_p)],
     ready_heap_p = [(10, 0, 0, ''A'')], pending_heap_p = [(50, 1, ''B'')], next_seq_p = 2,
     total_jobs_p = 2, current_sim_ms_p = 0, completed_p = 0, done_p = False,
     jobs_csv_p = None\<rparr>"

definition run_prio_promoted :: RunState_p where
  "run_prio_promoted = run_prio_ex\<lparr>current_sim_ms_p := 100,
     ready_heap_p := [(1, 50, 2, ''B''), (10, 0, 0, ''A'')], pending_heap_p := [],
     next_seq_p := 3\<rparr>"

definition run_prio_after :: RunState_p where
  "run_prio_after = run_prio_promoted\<lparr>ready_heap_p := [(10, 0, 0, ''A'')]\<rparr>"

text \<open>A FIFO run of the single job \<open>A\<close>, started at wall clock 1000 ms, and the run after
  a worker has reported \<open>A\<close> done with a start at wall clock 500 ms. The run of two jobs
  after a report of \<open>A\<close> with a start at 1000 ms.\<close>

definition run_one_f :: RunState_f where
  "run_one_f = \<lparr>run_id_f = ''r1'', dataset_file_f = ''one.csv'', speedup_f = 1,
     start_wall_ms_f = 1000, jobs_f = [(''A'', job_A_f)], ready_q_f = [],
     pending_jobs_f = [], total_jobs_f = 1, current_sim_ms_f = 0,
     completed_f = 0, done_f = False, jobs_csv_f = None\<rparr>"

definition early_done_f :: "RunState_f option" where
  "early_done_f = snd (done_f_ep reg_ex 102 (done_A 500) (Some run_one_f))"

definition run_two_done_f :: RunState_f where
  "run_two_done_f = run_two_f\<lparr>jobs_f := [(''A'', job_A_done_f),
               (''B'', \<lparr>job_id_f = ''B'', service_ms_f = 100, arrival_ms_f = 0,
                       start_ms_f = None, finish_ms_f = None, cpu_percent_f = None,
                       memory_mb_f = None\<rparr>)],
     current_sim_ms_f := 100, completed_f := 1\<rparr>"

section \<open>Properties\<close>

declare next_loop_f.simps [simp del] next_loop_p.simps [simp del]
  next_loop_rr.simps [simp del] next_loop_r0.simps [simp del]
  promote_arrivals.simps [simp del] release_arrivals.simps [simp del]

lemmas ex_defs = reg_ex_def two_jobs_csv_def two_df_def start_req_ex_def done_A_def

lemma wall_to_sim_speedup_1: "wall_to_sim s 1 w = w - s"
  by (simp add: wall_to_sim_def py_round_def Let_def)

subsection \<open>Completion in the FIFO and priority services\<close>

lemma finalize_run_f_completed: "completed_f (finalize_run_f run) = completed_f run"
  by (simp add: finalize_run_f_def Let_def)

lemma finalize_run_p_completed: "completed_p (finalize_run_p run) = completed_p run"
  by (simp add: finalize_run_p_def Let_def)

lemma done_f_counts:
  assumes "is_alive_worker_core reg now (worker_id_d req) (core_id_d req)"
    and "\<not> done_f run" and "map_of (jobs_f run) (job_id_d req) = Some job"
  shows "\<exists>run'. done_f_ep reg now req (Some run) = (Inr StatusOk, Some run')
           \<and> completed_f run' = completed_f run + 1"
  using assms by (simp add: done_f_ep_def Let_def finalize_run_f_completed)

lemma done_p_counts:
  assumes "is_alive_worker_core reg now (worker_id_d req) (core_id_d req)"
    and "\<not> done_p run" and "map_of (jobs_p run) (job_id_d req) = Some job"
  shows "\<exists>run'. done_p_ep reg now req (Some run) = (Inr StatusOk, Some run')
           \<and> completed_p run' = completed_p run + 1"
  using assms by (simp add: done_p_ep_def Let_def finalize_run_p_completed)

lemma replay_f_finalized:
  "\<exists>run jb. replay_f = Some run \<and> done_f run \<and> completed_f run = total_jobs_f run
      \<and> map_of (jobs_f run) ''B'' = Some jb \<and> finish_ms_f jb = None"
  by (simp add: replay_f_def start_f_def done_f_ep_def ex_defs total_alive_slots_def
        load_jobs_f_def py_int_def partition_f_def is_alive_worker_core_def
        finalize_run_f_def wall_to_sim_speedup_1 Let_def)

lemma replay_p_finalized:
  "\<exists>run jb. replay_p = Some run \<and> done_p run \<and> completed_p run = total_jobs_p run
      \<and> map_of (jobs_p run) ''B'' = Some jb \<and> finish_ms_p jb = None"
  by (simp add: replay_p_def start_p_def done_p_ep_def ex_defs total_alive_slots_def
        load_jobs_p_def py_int_def heappush_def is_alive_worker_core_def
        finalize_run_p_def wall_to_sim_speedup_1 Let_def)

text \<open>
  \<^bold>\<open>C10.\<close> A \<^verbatim>\<open>/done\<close> on an active run that is not finalized, from an alive worker core and
  for a known job id, answers \<open>ok\<close> and adds exactly one to \<open>completed\<close>, in the FIFO and
  in the priority service, whatever the job's \<open>finish_ms\<close> already is: a replayed
  \<^verbatim>\<open>/done\<close> is counted again. So two reports of job \<open>A\<close> bring \<open>completed\<close> to the two jobs
  of the run and finalize it while job \<open>B\<close> has never finished.
\<close>

theorem done_replay_is_counted:
  "(is_alive_worker_core reg now (worker_id_d req) (core_id_d req) \<and> \<not> done_f run
      \<and> map_of (jobs_f run) (job_id_d req) = Some job
    \<longrightarrow> (\<exists>run'. done_f_ep reg now req (Some run) = (Inr StatusOk, Some run')
               \<and> completed_f run' = completed_f run + 1))
   \<and> (is_alive_worker_core reg now (worker_id_d req) (core_id_d req) \<and> \<not> done_p prun
      \<and> map_of (jobs_p prun) (job_id_d req) = Some pjob
    \<longrightarrow> (\<exists>run'. done_p_ep reg now req (Some prun) = (Inr StatusOk, Some run')
               \<and> completed_p run' = completed_p prun + 1))
   \<and> (\<exists>run jb. replay_f = Some run \<and> done_f run \<and> completed_f run = total_jobs_f run
         \<and> map_of (jobs_f run) ''B'' = Some jb \<and> finish_ms_f jb = None)
   \<and> (\<exists>run jb. replay_p = Some run \<and> done_p run \<and> completed_p run = total_jobs_p run
         \<and> map_of (jobs_p run) ''B'' = Some jb \<and> finish_ms_p jb = None)"
proof (intro conjI impI)
  show "\<exists>run'. done_f_ep reg now req (Some run) = (Inr StatusOk, Some run')
               \<and> completed_f run' = completed_f run + 1"
    if "is_alive_worker_core reg now (worker_id_d req) (core_id_d req) \<and> \<not> done_f run
      \<and> map_of (jobs_f run) (job_id_d req) = Some job"
    using that done_f_counts by blast
  show "\<exists>run'. done_p_ep reg now req (Some prun) = (Inr StatusOk, Some run')
               \<and> completed_p run' = completed_p prun + 1"
    if "is_alive_worker_core reg now (worker_id_d req) (core_id_d req) \<and> \<not> done_p prun
      \<and> map_of (jobs_p prun) (job_id_d req) = Some pjob"
    using that done_p_counts by blast
qed (rule replay_f_finalized replay_p_finalized)+

theorem done_replay_is_counted_witness:
  "is_alive_worker_core reg_ex 103 ''w1'' 0
   \<and> finish_ms_f job_A_done_f = Some 100 \<and> finish_ms_p job_A_done_p = Some 100
   \<and> (\<exists>run'. done_f_ep reg_ex 103 (done_A 1050) (Some run_A_done_f) = (Inr StatusOk, Some run')
         \<and> completed_f run' = 2)
   \<and> (\<exists>run'. done_p_ep reg_ex 103 (done_A 1050) (Some run_A_done_p) = (Inr StatusOk, Some run')
         \<and> completed_p run' = 2)"
proof -
  have alive: "is_alive_worker_core reg_ex 103 (worker_id_d (done_A 1050)) (core_id_d (done_A 1050))"
    by (simp add: is_alive_worker_core_def ex_defs)
  have f: "\<not> done_f run_A_done_f"
    "map_of (jobs_f run_A_done_f) (job_id_d (done_A 1050)) = Some job_A_done_f"
    "completed_f run_A_done_f = 1"
    by (simp_all add: run_A_done_f_def done_A_def)
  have p: "\<not> done_p run_A_done_p"
    "map_of (jobs_p run_A_done_p) (job_id_d (done_A 1050)) = Some job_A_done_p"
    "completed_p run_A_done_p = 1"
    by (simp_all add: run_A_done_p_def done_A_def)
  have fin: "finish_ms_f job_A_done_f = Some 100" "finish_ms_p job_A_done_p = Some 100"
    by (simp_all add: job_A_done_f_def job_A_done_p_def)
  have alive': "is_alive_worker_core reg_ex 103 ''w1'' 0"
    using alive by (simp add: done_A_def)
  from done_replay_is_counted [of reg_ex 103 "done_A 1050" run_A_done_f job_A_done_f
      run_A_done_p job_A_done_p] alive f p fin alive'
  show ?thesis by simp
qed

lemma done_f_finish_from_recorded_start:
  assumes "is_alive_worker_core reg now (worker_id_d req) (core_id_d req)"
    and "\<not> done_f run" and "map_of (jobs_f run) (job_id_d req) = Some job"
  shows "\<exists>run' job' start. snd (done_f_ep reg now req (Some run)) = Some run'
      \<and> map_of (jobs_f run') (job_id_d req) = Some job'
      \<and> start_ms_f job' = Some start
      \<and> (\<forall>s. start_ms_f job = Some s \<longrightarrow> start = s)
      \<and> (start_ms_f job = None \<longrightarrow>
            start = wall_to_sim (start_wall_ms_f run) (speedup_f run) (started_wall_ms_d req))
      \<and> finish_ms_f job' = Some (start + service_ms_f job')"
  using assms
  by (auto simp add: done_f_ep_def Let_def finalize_run_f_def AList.update_conv'
        split: option.splits)

text \<open>
  \<^bold>\<open>C2.\<close> The claim: after a \<^verbatim>\<open>/done\<close> on a FIFO or priority run the job's \<open>finish_ms\<close> is
  its recorded \<open>start_ms\<close> plus \<open>service_ms\<close>, also when \<open>start_ms\<close> was stamped by an
  earlier \<^verbatim>\<open>/done\<close>. The FIFO service does so (\<open>done_f_finish_from_recorded_start\<close>). The
  priority service adds \<open>service_ms\<close> to the start reported in the current call: after the
  two reports of job \<open>A\<close> (service 100 ms) its recorded start is 0 and its finish is 150.
\<close>

theorem priority_done_replay_finish:
  "\<exists>run job. replay_p = Some run \<and> map_of (jobs_p run) ''A'' = Some job
     \<and> start_ms_p job = Some 0 \<and> service_ms_p job = 100 \<and> finish_ms_p job = Some 150"
  by (simp add: replay_p_def start_p_def done_p_ep_def ex_defs total_alive_slots_def
        load_jobs_p_def py_int_def heappush_def is_alive_worker_core_def
        finalize_run_p_def wall_to_sim_speedup_1 Let_def)

subsection \<open>Completion in the round-robin services\<close>

lemma finalize_run_rr_fields:
  "jobs_rr (finalize_run_rr run) = jobs_rr run"
  "ready_q_rr (finalize_run_rr run) = ready_q_rr run"
  "completed_rr (finalize_run_rr run) = completed_rr run"
  by (simp_all add: finalize_run_rr_def)

lemma finalize_run_r0_fields:
  "finalize_run_r0 run = Inr run' \<Longrightarrow>
     jobs_r0 run' = jobs_r0 run \<and> ready_q_r0 run' = ready_q_r0 run
     \<and> completed_r0 run' = completed_r0 run"
  by (auto simp: finalize_run_r0_def Let_def split: if_splits)

lemma done_job_rr_fields:
  "remaining_ms_rr (done_job_rr job s f r) = max 0 r"
  "slices_rr (done_job_rr job s f r) = slices_rr job + 1"
  "job_id_rr (done_job_rr job s f r) = job_id_rr job"
  "finish_ms_rr (done_job_rr job s f r) = (if max 0 r = 0 then Some f else finish_ms_rr job)"
  "preemptions_rr (done_job_rr job s f r) =
     (if max 0 r = 0 then preemptions_rr job else preemptions_rr job + 1)"
  by (simp_all add: done_job_rr_def Let_def)

lemma done_rr_state:
  assumes "is_alive_worker_core reg now (worker_id_drr req) (core_id_drr req)"
    and "\<not> done_rr run" and "map_of (jobs_rr run) (job_id_drr req) = Some job"
  shows "\<exists>run' job'. snd (done_rr_ep reg now req (Some run)) = Some run'
      \<and> map_of (jobs_rr run') (job_id_drr req) = Some job'
      \<and> remaining_ms_rr job' = max 0 (remaining_after_ms_drr req)
      \<and> slices_rr job' = slices_rr job + 1
      \<and> (if remaining_ms_rr job' = 0
         then finish_ms_rr job' = Some (wall_to_sim (start_wall_ms_rr run) (speedup_rr run)
                                          (finished_wall_ms_drr req))
            \<and> completed_rr run' = completed_rr run + 1
            \<and> preemptions_rr job' = preemptions_rr job
            \<and> ready_q_rr run' = ready_q_rr run
         else preemptions_rr job' = preemptions_rr job + 1
            \<and> ready_q_rr run' = ready_q_rr run @ [job_id_rr job]
            \<and> finish_ms_rr job' = finish_ms_rr job
            \<and> completed_rr run' = completed_rr run)"
  using assms
  by (simp add: done_rr_ep_def Let_def finalize_run_rr_fields done_job_rr_fields
        AList.update_conv')

lemma done_r0_snd:
  assumes "is_alive_worker_core reg now (worker_id_drr req) (core_id_drr req)"
    and "\<not> done_r0 run" and "map_of (jobs_r0 run) (job_id_drr req) = Some job"
    and "job' = done_job_rr job
                 (wall_to_sim (start_wall_ms_r0 run) (speedup_r0 run) (started_wall_ms_drr req))
                 (wall_to_sim (start_wall_ms_r0 run) (speedup_r0 run) (finished_wall_ms_drr req))
                 (remaining_after_ms_drr req)"
  shows "\<exists>run'. snd (done_r0_ep reg now req (Some run)) = Some run'
      \<and> jobs_r0 run' = AList.update (job_id_drr req) job' (jobs_r0 run)
      \<and> completed_r0 run' = (if remaining_ms_rr job' = 0 then completed_r0 run + 1
                              else completed_r0 run)
      \<and> ready_q_r0 run' = (if remaining_ms_rr job' = 0 then ready_q_r0 run
                            else ready_q_r0 run @ [job_id_rr job'])"
proof -
  define run2 where "run2 =
     (if remaining_ms_rr job' = 0
      then run\<lparr>jobs_r0 := AList.update (job_id_drr req) job' (jobs_r0 run),
               completed_r0 := completed_r0 run + 1\<rparr>
      else run\<lparr>jobs_r0 := AList.update (job_id_drr req) job' (jobs_r0 run),
               ready_q_r0 := ready_q_r0 run @ [job_id_rr job']\<rparr>)"
  have eq: "done_r0_ep reg now req (Some run) =
     (if completed_r0 run2 \<ge> total_jobs_r0 run2
      then (case finalize_run_r0 run2 of
              Inl e \<Rightarrow> (Inl e, Some run2)
            | Inr run3 \<Rightarrow> (Inr StatusOk, Some run3))
      else (Inr StatusOk, Some run2))"
    using assms by (simp add: done_r0_ep_def Let_def run2_def cong: sum.case_cong)
  have f2: "jobs_r0 run2 = AList.update (job_id_drr req) job' (jobs_r0 run)"
    "completed_r0 run2 = (if remaining_ms_rr job' = 0 then completed_r0 run + 1
                              else completed_r0 run)"
    "ready_q_r0 run2 = (if remaining_ms_rr job' = 0 then ready_q_r0 run
                            else ready_q_r0 run @ [job_id_rr job'])"
    by (simp_all add: run2_def)
  show ?thesis
  proof (cases "finalize_run_r0 run2")
    case (Inl e)
    then show ?thesis using eq f2 by simp
  next
    case (Inr run3)
    from finalize_run_r0_fields[OF Inr] show ?thesis using eq f2 Inr by simp
  qed
qed

lemma done_r0_state:
  assumes "is_alive_worker_core reg now (worker_id_drr req) (core_id_drr req)"
    and "\<not> done_r0 run" and "map_of (jobs_r0 run) (job_id_drr req) = Some job"
  shows "\<exists>run' job'. snd (done_r0_ep reg now req (Some run)) = Some run'
      \<and> map_of (jobs_r0 run') (job_id_drr req) = Some job'
      \<and> remaining_ms_rr job' = max 0 (remaining_after_ms_drr req)
      \<and> slices_rr job' = slices_rr job + 1
      \<and> (if remaining_ms_rr job' = 0
         then finish_ms_rr job' = Some (wall_to_sim (start_wall_ms_r0 run) (speedup_r0 run)
                                          (finished_wall_ms_drr req))
            \<and> completed_r0 run' = completed_r0 run + 1
            \<and> preemptions_rr job' = preemptions_rr job
            \<and> ready_q_r0 run' = ready_q_r0 run
         else preemptions_rr job' = preemptions_rr job + 1
            \<and> ready_q_r0 run' = ready_q_r0 run @ [job_id_rr job]
            \<and> finish_ms_rr job' = finish_ms_rr job
            \<and> completed_r0 run' = completed_r0 run)"
proof -
  from done_r0_snd[OF assms refl] obtain run' where
    r: "snd (done_r0_ep reg now req (Some run)) = Some run'"
       "jobs_r0 run' = AList.update (job_id_drr req)
          (done_job_rr job
                 (wall_to_sim (start_wall_ms_r0 run) (speedup_r0 run) (started_wall_ms_drr req))
                 (wall_to_sim (start_wall_ms_r0 run) (speedup_r0 run) (finished_wall_ms_drr req))
                 (remaining_after_ms_drr req)) (jobs_r0 run)"
       "completed_r0 run' = (if max 0 (remaining_after_ms_drr req) = 0 then completed_r0 run + 1
                              else completed_r0 run)"
       "ready_q_r0 run' = (if max 0 (remaining_after_ms_drr req) = 0 then ready_q_r0 run
                            else ready_q_r0 run @ [job_id_rr job])"
    by (auto simp: done_job_rr_fields)
  show ?thesis
    by (simp add: r AList.update_conv' done_job_rr_fields)
qed



subsection \<open>The blocking wait of \<^verbatim>\<open>/next\<close>\<close>

lemma wait_f:
  assumes "\<not> (done_f run \<or> completed_f run \<ge> total_jobs_f run)" "ready_q_f run = []"
  shows "next_pass_f deadline (Some run) t =
     (if deadline - t \<le> 0 then (Return StatusWait, Some run)
      else (Block (deadline - t), Some run))"
  using assms by (simp add: next_pass_f_def Let_def)

lemma wait_r0:
  assumes "\<not> (done_r0 run \<or> completed_r0 run \<ge> total_jobs_r0 run)" "ready_q_r0 run = []"
  shows "next_pass_r0 deadline (Some run) t =
     (if deadline - t \<le> 0 then (Return StatusWait, Some run)
      else (Block (deadline - t), Some run))"
  using assms by (simp add: next_pass_r0_def Let_def)

lemma wait_p:
  assumes "\<not> (done_p run \<or> completed_p run \<ge> total_jobs_p run)"
    and "promote_arrivals
           (run\<lparr>current_sim_ms_p := max (current_sim_ms_p run)
               (wall_to_sim (start_wall_ms_p run) (speedup_p run) now_ms)\<rparr>)
           (max (current_sim_ms_p run)
               (wall_to_sim (start_wall_ms_p run) (speedup_p run) now_ms)) = (None, run2)"
    and "ready_heap_p run2 = []"
  shows "next_pass_p deadline (Some run) now_ms t =
     (if deadline - t \<le> 0 then (Return StatusWait, Some run2)
      else (Block (deadline - t), Some run2))"
  using assms by (simp add: next_pass_p_def Let_def)

lemma wait_rr:
  assumes "\<not> (done_rr run \<or> completed_rr run \<ge> total_jobs_rr run)"
    and "now_sim = wall_to_sim (start_wall_ms_rr run) (speedup_rr run) now_wall_ms"
    and "release_arrivals run now_sim = (None, run1)"
    and "ready_q_rr run1 = []"
  shows "(deadline - t \<le> 0 \<longrightarrow>
            next_pass_rr deadline (Some run) now_wall_ms t = (Return StatusWait, Some run1))
    \<and> (0 < deadline - t \<and> pending_idx_rr run1 < length (pending_ids_rr run1)
         \<and> map_of (jobs_rr run1) (pending_ids_rr run1 ! pending_idx_rr run1) = Some next_job
         \<and> speedup_rr run1 \<noteq> 0
        \<longrightarrow> next_pass_rr deadline (Some run) now_wall_ms t =
             (Block (min (deadline - t)
                (max (1 / 1000)
                   (of_int (max 0 (arrival_ms_rr next_job - now_sim)) / speedup_rr run1 / 1000))),
              Some run1))
    \<and> (0 < deadline - t \<and> \<not> pending_idx_rr run1 < length (pending_ids_rr run1)
        \<longrightarrow> next_pass_rr deadline (Some run) now_wall_ms t = (Block (deadline - t), Some run1))"
  using assms by (simp add: next_pass_rr_def Let_def)

text \<open>
  \<^bold>\<open>C5\<close>, as claimed: under every policy the blocking wait lasts the minimum of the time
  to the caller's deadline and the wall-clock time to the earliest pending arrival. It
  fails for the FIFO service: with 10 s to the deadline and job \<open>B\<close> pending with arrival
  50 ms at speed-up 1, the claimed wait is 0.05 s, and \<^verbatim>\<open>next_job\<close> blocks for 10 s.
\<close>

theorem fifo_wait_ignores_pending_arrival:
  "next_pass_f 10 (Some run_pending_f) 0 = (Block 10, Some run_pending_f)
   \<and> pending_jobs_f run_pending_f = [(''B'', job_B_pending_f)]
   \<and> arrival_ms_f job_B_pending_f = 50 \<and> speedup_f run_pending_f = 1
   \<and> (10::real) \<noteq> min (10 - 0) (max (1 / 1000) (of_int (50 - 0) / 1 / 1000))"
  by (simp add: next_pass_f_def run_pending_f_def job_B_pending_f_def)

text \<open>
  \<^bold>\<open>C5\<close>, amended. When a pass of \<^verbatim>\<open>/next\<close> finds the ready structure empty (after the
  promotion of arrivals where the service has one) it answers \<open>wait\<close> if the deadline has
  expired. Otherwise it blocks: in \<^verbatim>\<open>round-robin/scheduler.py\<close> for the minimum of the time
  to the deadline and \<open>max(0.001, max(0, arrival_ms - now_sim) / speedup / 1000)\<close> of
  the next pending job (the speed-up not being 0), or for the time to the deadline when
  no job is pending; in the FIFO service, the priority service and the top-level
  \<^verbatim>\<open>scheduler.py\<close> for the time to the deadline.
\<close>

theorem next_wait_duration:
  "(\<not> (done_f frun \<or> completed_f frun \<ge> total_jobs_f frun) \<and> ready_q_f frun = []
     \<longrightarrow> next_pass_f deadline (Some frun) t =
          (if deadline - t \<le> 0 then (Return StatusWait, Some frun)
           else (Block (deadline - t), Some frun)))
   \<and> (\<not> (done_p prun \<or> completed_p prun \<ge> total_jobs_p prun)
       \<and> promote_arrivals
           (prun\<lparr>current_sim_ms_p := max (current_sim_ms_p prun)
               (wall_to_sim (start_wall_ms_p prun) (speedup_p prun) now_ms)\<rparr>)
           (max (current_sim_ms_p prun)
               (wall_to_sim (start_wall_ms_p prun) (speedup_p prun) now_ms)) = (None, prun_after)
       \<and> ready_heap_p prun_after = []
     \<longrightarrow> next_pass_p deadline (Some prun) now_ms t =
          (if deadline - t \<le> 0 then (Return StatusWait, Some prun_after)
           else (Block (deadline - t), Some prun_after)))
   \<and> (\<not> (done_rr rrun \<or> completed_rr rrun \<ge> total_jobs_rr rrun)
       \<and> now_sim = wall_to_sim (start_wall_ms_rr rrun) (speedup_rr rrun) now_ms
       \<and> release_arrivals rrun now_sim = (None, rrun_after)
       \<and> ready_q_rr rrun_after = []
     \<longrightarrow> (deadline - t \<le> 0 \<longrightarrow>
            next_pass_rr deadline (Some rrun) now_ms t = (Return StatusWait, Some rrun_after))
        \<and> (0 < deadline - t \<and> pending_idx_rr rrun_after < length (pending_ids_rr rrun_after)
            \<and> map_of (jobs_rr rrun_after) (pending_ids_rr rrun_after ! pending_idx_rr rrun_after)
                = Some next_job
            \<and> speedup_rr rrun_after \<noteq> 0
           \<longrightarrow> next_pass_rr deadline (Some rrun) now_ms t =
                (Block (min (deadline - t)
                   (max (1 / 1000)
                      (of_int (max 0 (arrival_ms_rr next_job - now_sim))
                         / speedup_rr rrun_after / 1000))),
                 Some rrun_after))
        \<and> (0 < deadline - t \<and> \<not> pending_idx_rr rrun_after < length (pending_ids_rr rrun_after)
           \<longrightarrow> next_pass_rr deadline (Some rrun) now_ms t
                = (Block (deadline - t), Some rrun_after)))
   \<and> (\<not> (done_r0 zrun \<or> completed_r0 zrun \<ge> total_jobs_r0 zrun) \<and> ready_q_r0 zrun = []
     \<longrightarrow> next_pass_r0 deadline (Some zrun) t =
          (if deadline - t \<le> 0 then (Return StatusWait, Some zrun)
           else (Block (deadline - t), Some zrun)))"
proof (intro conjI)
  show "\<not> (done_f frun \<or> completed_f frun \<ge> total_jobs_f frun) \<and> ready_q_f frun = []
     \<longrightarrow> next_pass_f deadline (Some frun) t =
          (if deadline - t \<le> 0 then (Return StatusWait, Some frun)
           else (Block (deadline - t), Some frun))"
    using wait_f [of frun deadline t] by blast
  show "\<not> (done_r0 zrun \<or> completed_r0 zrun \<ge> total_jobs_r0 zrun) \<and> ready_q_r0 zrun = []
     \<longrightarrow> next_pass_r0 deadline (Some zrun) t =
          (if deadline - t \<le> 0 then (Return StatusWait, Some zrun)
           else (Block (deadline - t), Some zrun))"
    using wait_r0 [of zrun deadline t] by blast
  show "\<not> (done_p prun \<or> completed_p prun \<ge> total_jobs_p prun)
       \<and> promote_arrivals
           (prun\<lparr>current_sim_ms_p := max (current_sim_ms_p prun)
               (wall_to_sim (start_wall_ms_p prun) (speedup_p prun) now_ms)\<rparr>)
           (max (current_sim_ms_p prun)
               (wall_to_sim (start_wall_ms_p prun) (speedup_p prun) now_ms)) = (None, prun_after)
       \<and> ready_heap_p prun_after = []
     \<longrightarrow> next_pass_p deadline (Some prun) now_ms t =
          (if deadline - t \<le> 0 then (Return StatusWait, Some prun_after)
           else (Block (deadline - t), Some prun_after))"
    using wait_p [of prun now_ms prun_after deadline t] by blast
  show "\<not> (done_rr rrun \<or> completed_rr rrun \<ge> total_jobs_rr rrun)
       \<and> now_sim = wall_to_sim (start_wall_ms_rr rrun) (speedup_rr rrun) now_ms
       \<and> release_arrivals rrun now_sim = (None, rrun_after)
       \<and> ready_q_rr rrun_after = []
     \<longrightarrow> (deadline - t \<le> 0 \<longrightarrow>
            next_pass_rr deadline (Some rrun) now_ms t = (Return StatusWait, Some rrun_after))
        \<and> (0 < deadline - t \<and> pending_idx_rr rrun_after < length (pending_ids_rr rrun_after)
            \<and> map_of (jobs_rr rrun_after) (pending_ids_rr rrun_after ! pending_idx_rr rrun_after)
                = Some next_job
            \<and> speedup_rr rrun_after \<noteq> 0
           \<longrightarrow> next_pass_rr deadline (Some rrun) now_ms t =
                (Block (min (deadline - t)
                   (max (1 / 1000)
                      (of_int (max 0 (arrival_ms_rr next_job - now_sim))
                         / speedup_rr rrun_after / 1000))),
                 Some rrun_after))
        \<and> (0 < deadline - t \<and> \<not> pending_idx_rr rrun_after < length (pending_ids_rr rrun_after)
           \<longrightarrow> next_pass_rr deadline (Some rrun) now_ms t
                = (Block (deadline - t), Some rrun_after))"
    using wait_rr [of rrun now_sim now_ms rrun_after deadline t next_job] by blast
qed

lemma py_round_of_int: "py_round (of_int n) = n"
  by (simp add: py_round_def Let_def)

lemma wall_to_sim_speedup_2: "wall_to_sim s 2 w = 2 * (w - s)"
proof -
  have "of_int (w - s) * (2::real) = of_int (2 * (w - s))" by simp
  then show ?thesis unfolding wall_to_sim_def by (simp only: py_round_of_int)
qed

theorem next_wait_duration_witness:
  "next_pass_rr 10 (Some run_wait_rr) 1400 0 = (Block (1 / 10), Some run_wait_rr)
   \<and> next_pass_rr 10 (Some run_wait_rr) 1400 10 = (Return StatusWait, Some run_wait_rr)
   \<and> next_pass_f 10 (Some run_pending_f) 0 = (Block 10, Some run_pending_f)"
proof -
  have rel: "release_arrivals run_wait_rr 800 = (None, run_wait_rr)"
    by (subst release_arrivals.simps) (simp add: run_wait_rr_def job_B_late_rr_def Let_def)
  have sim: "(800::int) = wall_to_sim (start_wall_ms_rr run_wait_rr) (speedup_rr run_wait_rr) 1400"
    by (simp add: run_wait_rr_def wall_to_sim_speedup_2)
  have rr: "\<not> (done_rr run_wait_rr \<or> completed_rr run_wait_rr \<ge> total_jobs_rr run_wait_rr)"
    "ready_q_rr run_wait_rr = []"
    "pending_idx_rr run_wait_rr < length (pending_ids_rr run_wait_rr)"
    "map_of (jobs_rr run_wait_rr) (pending_ids_rr run_wait_rr ! pending_idx_rr run_wait_rr)
       = Some job_B_late_rr"
    "speedup_rr run_wait_rr = 2" "arrival_ms_rr job_B_late_rr = 1000"
    by (simp_all add: run_wait_rr_def job_B_late_rr_def)
  have f: "\<not> (done_f run_pending_f \<or> completed_f run_pending_f \<ge> total_jobs_f run_pending_f)"
    "ready_q_f run_pending_f = []"
    by (simp_all add: run_pending_f_def)
  have 1: "next_pass_rr 10 (Some run_wait_rr) 1400 0 = (Block (1 / 10), Some run_wait_rr)"
    using next_wait_duration [where rrun = run_wait_rr and rrun_after = run_wait_rr
        and now_sim = 800 and now_ms = 1400 and deadline = 10 and t = 0
        and next_job = job_B_late_rr] rel sim rr
    by simp
  have 2: "next_pass_rr 10 (Some run_wait_rr) 1400 10 = (Return StatusWait, Some run_wait_rr)"
    using next_wait_duration [where rrun = run_wait_rr and rrun_after = run_wait_rr
        and now_sim = 800 and now_ms = 1400 and deadline = 10 and t = 10
        and next_job = job_B_late_rr] rel sim rr
    by simp
  have 3: "next_pass_f 10 (Some run_pending_f) 0 = (Block 10, Some run_pending_f)"
    using next_wait_duration [where frun = run_pending_f and deadline = 10 and t = 0] f
    by simp
  from 1 2 3 show ?thesis by blast
qed

subsection \<open>Failures of \<^verbatim>\<open>/start\<close>\<close>

lemma start_f_client_errors:
  "total_alive_slots reg now < min_slots_s req \<Longrightarrow>
     start_f reg now fs fresh_id now_ms req active = (Inl (HTTPException NotEnoughSlots), active)"
  "\<not> total_alive_slots reg now < min_slots_s req \<Longrightarrow> fs (dataset_file_s req) = None \<Longrightarrow>
     start_f reg now fs fresh_id now_ms req active = (Inl (HTTPException DatasetNotFound), active)"
  "\<not> total_alive_slots reg now < min_slots_s req \<Longrightarrow> fs (dataset_file_s req) = Some file \<Longrightarrow>
     load_jobs_f file = Inl e \<Longrightarrow>
     start_f reg now fs fresh_id now_ms req active = (Inl e, active)"
  "\<not> total_alive_slots reg now < min_slots_s req \<Longrightarrow> fs (dataset_file_s req) = Some file \<Longrightarrow>
     load_jobs_f file = Inr jobs \<Longrightarrow>
     \<exists>run. start_f reg now fs fresh_id now_ms req active = (Inr (RunId fresh_id), Some run)
        \<and> run_id_f run = fresh_id \<and> jobs_f run = jobs"
  by (simp_all add: start_f_def Let_def split: prod.splits)

lemma load_rows_f_error: "load_rows_f has_arrival rows jobs = Inl e \<Longrightarrow> e = ValueError"
  by (induction has_arrival rows jobs rule: load_rows_f.induct)
     (auto simp: py_int_def split: sum.splits cell.splits if_splits)

lemma load_jobs_f_error: "load_jobs_f file = Inl e \<Longrightarrow> e = ValueError \<or> e = ParserError"
  by (auto simp: load_jobs_f_def split: csv_file.splits if_splits dest: load_rows_f_error)

text \<open>
  \<^bold>\<open>C6.\<close> The claim: \<^verbatim>\<open>/start\<close> answers HTTP 400 and leaves the active run as it is when
  there are too few slots, when the data set is not found and when it is malformed. The
  first two raise \<^verbatim>\<open>HTTPException(400)\<close> (\<open>start_f_client_errors\<close>). A data set without
  the column \<^verbatim>\<open>service_time_ms\<close>, or with a service time that is not a number, makes
  \<^verbatim>\<open>load_jobs\<close> raise \<^verbatim>\<open>ValueError\<close>, which \<^verbatim>\<open>start\<close> does not catch, in each of the four
  services: the request ends in an unhandled exception, not in the 400 of the claim. The
  active run is left as it is.
\<close>

theorem start_malformed_dataset_raises_ValueError:
  "start_f reg_ex 101 [''bad.csv'' \<mapsto> no_service_csv] ''r2'' 1000 bad_req fa
     = (Inl ValueError, fa)
   \<and> start_f reg_ex 101 [''bad.csv'' \<mapsto> bad_service_csv] ''r2'' 1000 bad_req fa
     = (Inl ValueError, fa)
   \<and> start_p reg_ex 101 [''bad.csv'' \<mapsto> no_service_csv] ''r2'' 1000 bad_req pa
     = (Inl ValueError, pa)
   \<and> start_p reg_ex 101 [''bad.csv'' \<mapsto> bad_service_csv] ''r2'' 1000 bad_req pa
     = (Inl ValueError, pa)
   \<and> start_rr reg_ex 101 [''bad.csv'' \<mapsto> no_service_csv] ''r2'' 1000 bad_req_rr ra
     = (Inl ValueError, ra)
   \<and> start_rr reg_ex 101 [''bad.csv'' \<mapsto> bad_service_csv] ''r2'' 1000 bad_req_rr ra
     = (Inl ValueError, ra)
   \<and> start_r0 reg_ex 101 [''bad.csv'' \<mapsto> no_service_csv] ''r2'' 1000 bad_req_rr za
     = (Inl ValueError, za)
   \<and> start_r0 reg_ex 101 [''bad.csv'' \<mapsto> bad_service_csv] ''r2'' 1000 bad_req_rr za
     = (Inl ValueError, za)"
  by (simp add: start_f_def start_p_def start_rr_def start_r0_def
        load_jobs_f_def load_jobs_p_def load_jobs_rr_def load_jobs_r0_def
        no_service_csv_def bad_service_csv_def bad_req_def bad_req_rr_def reg_ex_def
        total_alive_slots_def py_int_def)

subsection \<open>Per-job metrics at finalization\<close>

lemma result_rows_f_mem:
  "(jid, j) \<in> set jobs \<Longrightarrow> start_ms_f j = Some s \<Longrightarrow> finish_ms_f j = Some f
     \<Longrightarrow> result_row_f j s f \<in> set (result_rows_f jobs)"
  by (induction jobs) (auto split: option.splits)

lemma result_rows_p_mem:
  "(jid, j) \<in> set jobs \<Longrightarrow> start_ms_p j = Some s \<Longrightarrow> finish_ms_p j = Some f
     \<Longrightarrow> result_row_p j s f \<in> set (result_rows_p jobs)"
  by (induction jobs) (auto split: option.splits)

lemma result_rows_rr_mem:
  "(jid, j) \<in> set jobs \<Longrightarrow> finish_ms_rr j = Some f
     \<Longrightarrow> result_row_rr j f \<in> set (result_rows_rr jobs)"
  by (induction jobs) (auto split: option.splits)

lemma result_rows_r0_mem:
  "(jid, j) \<in> set jobs \<Longrightarrow> finish_ms_rr j = Some f
     \<Longrightarrow> result_row_r0 j f \<in> set (result_rows_r0 jobs)"
  by (induction jobs) (auto split: option.splits)

lemma metrics_f:
  assumes "(jid, j) \<in> set (jobs_f run)" "start_ms_f j = Some s" "finish_ms_f j = Some f"
  shows "\<exists>rows row. jobs_csv_f (finalize_run_f run) = Some rows \<and> row \<in> set rows
     \<and> map_of row ''job_id'' = Some (S (job_id_f j))
     \<and> map_of row ''waiting_time_ms'' = Some (I (s - arrival_ms_f j))
     \<and> map_of row ''response_time_ms'' = Some (I (f - arrival_ms_f j))
     \<and> map_of row ''slowdown''
         = Some (R (of_int (f - arrival_ms_f j) / of_int (max 1 (service_ms_f j))))"
proof -
  let ?row = "(''run_id'', S (run_id_f run)) # result_row_f j s f"
  from result_rows_f_mem[OF assms] have mem: "result_row_f j s f \<in> set (result_rows_f (jobs_f run))" .
  then have ne: "result_rows_f (jobs_f run) \<noteq> []" by auto
  have 1: "jobs_csv_f (finalize_run_f run)
      = Some (map (\<lambda>r. (''run_id'', S (run_id_f run)) # r) (result_rows_f (jobs_f run)))"
    using ne by (simp add: finalize_run_f_def Let_def)
  have 2: "?row \<in> set (map (\<lambda>r. (''run_id'', S (run_id_f run)) # r) (result_rows_f (jobs_f run)))"
    using mem by auto
  have 3: "map_of ?row ''job_id'' = Some (S (job_id_f j))"
     "map_of ?row ''waiting_time_ms'' = Some (I (s - arrival_ms_f j))"
     "map_of ?row ''response_time_ms'' = Some (I (f - arrival_ms_f j))"
     "map_of ?row ''slowdown''
         = Some (R (of_int (f - arrival_ms_f j) / of_int (max 1 (service_ms_f j))))"
    by (simp_all add: result_row_f_def Let_def)
  from 1 2 3 show ?thesis by blast
qed

lemma metrics_p:
  assumes "(jid, j) \<in> set (jobs_p run)" "start_ms_p j = Some s" "finish_ms_p j = Some f"
  shows "\<exists>rows row. jobs_csv_p (finalize_run_p run) = Some rows \<and> row \<in> set rows
     \<and> map_of row ''job_id'' = Some (S (job_id_p j))
     \<and> map_of row ''waiting_time_ms'' = Some (I (s - arrival_ms_p j))
     \<and> map_of row ''response_time_ms'' = Some (I (f - arrival_ms_p j))
     \<and> map_of row ''slowdown''
         = Some (R (of_int (f - arrival_ms_p j) / of_int (max 1 (service_ms_p j))))"
proof -
  let ?row = "(''run_id'', S (run_id_p run)) # result_row_p j s f"
  from result_rows_p_mem[OF assms] have mem: "result_row_p j s f \<in> set (result_rows_p (jobs_p run))" .
  then have ne: "result_rows_p (jobs_p run) \<noteq> []" by auto
  have 1: "jobs_csv_p (finalize_run_p run)
      = Some (map (\<lambda>r. (''run_id'', S (run_id_p run)) # r) (result_rows_p (jobs_p run)))"
    using ne by (simp add: finalize_run_p_def Let_def)
  have 2: "?row \<in> set (map (\<lambda>r. (''run_id'', S (run_id_p run)) # r) (result_rows_p (jobs_p run)))"
    using mem by auto
  have 3: "map_of ?row ''job_id'' = Some (S (job_id_p j))"
     "map_of ?row ''waiting_time_ms'' = Some (I (s - arrival_ms_p j))"
     "map_of ?row ''response_time_ms'' = Some (I (f - arrival_ms_p j))"
     "map_of ?row ''slowdown''
         = Some (R (of_int (f - arrival_ms_p j) / of_int (max 1 (service_ms_p j))))"
    by (simp_all add: result_row_p_def Let_def)
  from 1 2 3 show ?thesis by blast
qed

lemma metrics_rr:
  assumes "(jid, j) \<in> set (jobs_rr run)" "finish_ms_rr j = Some f"
  shows "\<exists>rows row. jobs_csv_rr (finalize_run_rr run) = Some rows \<and> row \<in> set rows
     \<and> map_of row ''job_id'' = Some (S (job_id_rr j))
     \<and> map_of row ''response_time_ms'' = Some (I (f - arrival_ms_rr j))
     \<and> map_of row ''waiting_time_ms'' = Some (I (f - arrival_ms_rr j - service_ms_rr j))
     \<and> map_of row ''slowdown'' = None"
proof -
  let ?pre = "\<lambda>r. (''run_id'', S (run_id_rr run)) # (''quantum_ms'', I (quantum_ms_rr run)) # r"
  let ?row = "?pre (result_row_rr j f)"
  from result_rows_rr_mem[OF assms] have mem: "result_row_rr j f \<in> set (result_rows_rr (jobs_rr run))" .
  have 1: "jobs_csv_rr (finalize_run_rr run) = Some (map ?pre (result_rows_rr (jobs_rr run)))"
    by (simp add: finalize_run_rr_def)
  have 2: "?row \<in> set (map ?pre (result_rows_rr (jobs_rr run)))"
    using mem by auto
  have 3: "map_of ?row ''job_id'' = Some (S (job_id_rr j))"
     "map_of ?row ''response_time_ms'' = Some (I (f - arrival_ms_rr j))"
     "map_of ?row ''waiting_time_ms'' = Some (I (f - arrival_ms_rr j - service_ms_rr j))"
     "map_of ?row ''slowdown'' = None"
    by (simp_all add: result_row_rr_def Let_def)
  from 1 2 3 show ?thesis by blast
qed

lemma metrics_r0:
  assumes "(jid, j) \<in> set (jobs_r0 run)" "finish_ms_rr j = Some f"
  shows "\<exists>run' rows row. finalize_run_r0 run = Inr run' \<and> jobs_csv_r0 run' = Some rows
     \<and> row \<in> set rows
     \<and> map_of row ''job_id'' = Some (S (job_id_rr j))
     \<and> map_of row ''response_time_ms'' = Some (I (f - arrival_ms_rr j))
     \<and> map_of row ''waiting_time_ms'' = Some (I (f - arrival_ms_rr j - service_ms_rr j))
     \<and> map_of row ''slowdown''
         = Some (R (of_int (f - arrival_ms_rr j) / of_int (max 1 (service_ms_rr j))))"
proof -
  let ?pre = "\<lambda>r. (''run_id'', S (run_id_r0 run)) # (''quantum_ms'', I (quantum_ms_r0 run)) # r"
  let ?row = "?pre (result_row_r0 j f)"
  let ?run' = "run\<lparr>jobs_csv_r0 := Some (map ?pre (result_rows_r0 (jobs_r0 run))), done_r0 := True\<rparr>"
  from result_rows_r0_mem[OF assms] have mem: "result_row_r0 j f \<in> set (result_rows_r0 (jobs_r0 run))" .
  then have ne: "result_rows_r0 (jobs_r0 run) \<noteq> []" by auto
  have 1: "finalize_run_r0 run = Inr ?run'"
    using ne by (simp add: finalize_run_r0_def Let_def)
  have csv: "jobs_csv_r0 ?run' = Some (map ?pre (result_rows_r0 (jobs_r0 run)))" by simp
  have 2: "?row \<in> set (map ?pre (result_rows_r0 (jobs_r0 run)))"
    using mem by auto
  have 3: "map_of ?row ''job_id'' = Some (S (job_id_rr j))"
     "map_of ?row ''response_time_ms'' = Some (I (f - arrival_ms_rr j))"
     "map_of ?row ''waiting_time_ms'' = Some (I (f - arrival_ms_rr j - service_ms_rr j))"
     "map_of ?row ''slowdown''
         = Some (R (of_int (f - arrival_ms_rr j) / of_int (max 1 (service_ms_rr j))))"
    by (simp_all add: result_row_r0_def Let_def)
  from 1 csv 2 3 show ?thesis by blast
qed

text \<open>
  \<^bold>\<open>C8\<close>, as claimed: in the per-job results of every policy \<open>waiting_time_ms\<close> is the
  recorded start minus the arrival, for round-robin with \<open>first_start_ms\<close> as the start.
  It fails for round-robin: job \<open>B\<close> (service 30 ms) arrived at 0, started first at 20 ms
  and finished at 60 ms; its row has \<open>waiting_time_ms = 30\<close>, which is response minus
  service, not \<open>20 - 0\<close>. The row of \<^verbatim>\<open>round-robin/scheduler.py\<close> has no slowdown either.
\<close>

theorem rr_waiting_is_response_minus_service:
  "jobs_csv_rr (finalize_run_rr run_fin_rr) =
     Some [[(''run_id'', S ''r1''), (''quantum_ms'', I 20), (''job_id'', S ''B''),
            (''service_time_ms'', I 30), (''arrival_time_ms'', I 0),
            (''first_start_time_ms'', I 20), (''finish_time_ms'', I 60),
            (''response_time_ms'', I 60), (''waiting_time_ms'', I 30),
            (''slices'', I 2), (''preemptions'', I 1)]]
   \<and> first_start_ms_rr job_B_fin_rr = Some 20 \<and> arrival_ms_rr job_B_fin_rr = 0
   \<and> (30::int) \<noteq> 20 - 0"
  by (simp add: finalize_run_rr_def run_fin_rr_def job_B_fin_rr_def result_row_rr_def Let_def)

text \<open>
  \<^bold>\<open>C8\<close>, amended. At finalization, in the FIFO and in the priority service the row of each
  job with a recorded start and finish has \<open>waiting_time_ms = start - arrival\<close>,
  \<open>response_time_ms = finish - arrival\<close> and \<open>slowdown = response / max(1, service_ms)\<close>.
  In the two round-robin services the row of each job with a recorded finish has
  \<open>response_time_ms = finish - arrival\<close> and \<open>waiting_time_ms = response - service_ms\<close>;
  the top-level \<^verbatim>\<open>scheduler.py\<close> writes \<open>slowdown = response / max(1, service_ms)\<close> and
  \<^verbatim>\<open>round-robin/scheduler.py\<close> writes no slowdown.
\<close>

theorem per_job_metrics:
  "((jid, fj) \<in> set (jobs_f frun) \<and> start_ms_f fj = Some s \<and> finish_ms_f fj = Some f
    \<longrightarrow> (\<exists>rows row. jobs_csv_f (finalize_run_f frun) = Some rows \<and> row \<in> set rows
         \<and> map_of row ''job_id'' = Some (S (job_id_f fj))
         \<and> map_of row ''waiting_time_ms'' = Some (I (s - arrival_ms_f fj))
         \<and> map_of row ''response_time_ms'' = Some (I (f - arrival_ms_f fj))
         \<and> map_of row ''slowdown''
             = Some (R (of_int (f - arrival_ms_f fj) / of_int (max 1 (service_ms_f fj))))))
   \<and> ((jid, pj) \<in> set (jobs_p prun) \<and> start_ms_p pj = Some s \<and> finish_ms_p pj = Some f
    \<longrightarrow> (\<exists>rows row. jobs_csv_p (finalize_run_p prun) = Some rows \<and> row \<in> set rows
         \<and> map_of row ''job_id'' = Some (S (job_id_p pj))
         \<and> map_of row ''waiting_time_ms'' = Some (I (s - arrival_ms_p pj))
         \<and> map_of row ''response_time_ms'' = Some (I (f - arrival_ms_p pj))
         \<and> map_of row ''slowdown''
             = Some (R (of_int (f - arrival_ms_p pj) / of_int (max 1 (service_ms_p pj))))))
   \<and> ((jid, rj) \<in> set (jobs_rr rrun) \<and> finish_ms_rr rj = Some f
    \<longrightarrow> (\<exists>rows row. jobs_csv_rr (finalize_run_rr rrun) = Some rows \<and> row \<in> set rows
         \<and> map_of row ''job_id'' = Some (S (job_id_rr rj))
         \<and> map_of row ''response_time_ms'' = Some (I (f - arrival_ms_rr rj))
         \<and> map_of row ''waiting_time_ms''
             = Some (I (f - arrival_ms_rr rj - service_ms_rr rj))
         \<and> map_of row ''slowdown'' = None))
   \<and> ((jid, zj) \<in> set (jobs_r0 zrun) \<and> finish_ms_rr zj = Some f
    \<longrightarrow> (\<exists>run' rows row. finalize_run_r0 zrun = Inr run' \<and> jobs_csv_r0 run' = Some rows
         \<and> row \<in> set rows
         \<and> map_of row ''job_id'' = Some (S (job_id_rr zj))
         \<and> map_of row ''response_time_ms'' = Some (I (f - arrival_ms_rr zj))
         \<and> map_of row ''waiting_time_ms''
             = Some (I (f - arrival_ms_rr zj - service_ms_rr zj))
         \<and> map_of row ''slowdown''
             = Some (R (of_int (f - arrival_ms_rr zj) / of_int (max 1 (service_ms_rr zj))))))"
  by (intro conjI impI; elim conjE;
      (rule metrics_f | rule metrics_p | rule metrics_rr | rule metrics_r0); assumption)

theorem per_job_metrics_witness:
  "(\<exists>rows row. jobs_csv_f (finalize_run_f run_A_done_f) = Some rows \<and> row \<in> set rows
         \<and> map_of row ''job_id'' = Some (S ''A'')
         \<and> map_of row ''waiting_time_ms'' = Some (I 0)
         \<and> map_of row ''response_time_ms'' = Some (I 100)
         \<and> map_of row ''slowdown'' = Some (R 1))
   \<and> (\<exists>rows row. jobs_csv_p (finalize_run_p run_A_done_p) = Some rows \<and> row \<in> set rows
         \<and> map_of row ''job_id'' = Some (S ''A'')
         \<and> map_of row ''waiting_time_ms'' = Some (I 0)
         \<and> map_of row ''response_time_ms'' = Some (I 100)
         \<and> map_of row ''slowdown'' = Some (R 1))
   \<and> (\<exists>rows row. jobs_csv_rr (finalize_run_rr run_fin_rr) = Some rows \<and> row \<in> set rows
         \<and> map_of row ''job_id'' = Some (S ''B'')
         \<and> map_of row ''response_time_ms'' = Some (I 60)
         \<and> map_of row ''waiting_time_ms'' = Some (I 30)
         \<and> map_of row ''slowdown'' = None)
   \<and> (\<exists>run' rows row. finalize_run_r0 run_fin_r0 = Inr run' \<and> jobs_csv_r0 run' = Some rows
         \<and> row \<in> set rows
         \<and> map_of row ''job_id'' = Some (S ''B'')
         \<and> map_of row ''response_time_ms'' = Some (I 60)
         \<and> map_of row ''waiting_time_ms'' = Some (I 30)
         \<and> map_of row ''slowdown'' = Some (R 2))"
proof -
  have fj: "(''A'', job_A_done_f) \<in> set (jobs_f run_A_done_f)"
    "start_ms_f job_A_done_f = Some 0" "finish_ms_f job_A_done_f = Some 100"
    "job_id_f job_A_done_f = ''A''" "arrival_ms_f job_A_done_f = 0"
    "service_ms_f job_A_done_f = 100"
    by (simp_all add: run_A_done_f_def job_A_done_f_def)
  have pj: "(''A'', job_A_done_p) \<in> set (jobs_p run_A_done_p)"
    "start_ms_p job_A_done_p = Some 0" "finish_ms_p job_A_done_p = Some 100"
    "job_id_p job_A_done_p = ''A''" "arrival_ms_p job_A_done_p = 0"
    "service_ms_p job_A_done_p = 100"
    by (simp_all add: run_A_done_p_def job_A_done_p_def)
  have rj: "(''B'', job_B_fin_rr) \<in> set (jobs_rr run_fin_rr)"
    "(''B'', job_B_fin_rr) \<in> set (jobs_r0 run_fin_r0)"
    "finish_ms_rr job_B_fin_rr = Some 60"
    "job_id_rr job_B_fin_rr = ''B''" "arrival_ms_rr job_B_fin_rr = 0"
    "service_ms_rr job_B_fin_rr = 30"
    by (simp_all add: run_fin_rr_def run_fin_r0_def job_B_fin_rr_def)
  note T = per_job_metrics [where frun = run_A_done_f and fj = job_A_done_f
      and prun = run_A_done_p and pj = job_A_done_p and s = 0 and f = 100 and jid = "''A''"]
  note U = per_job_metrics [where rrun = run_fin_rr and rj = job_B_fin_rr
      and zrun = run_fin_r0 and zj = job_B_fin_rr and f = 60 and jid = "''B''"]
  have 1: "\<exists>rows row. jobs_csv_f (finalize_run_f run_A_done_f) = Some rows \<and> row \<in> set rows
         \<and> map_of row ''job_id'' = Some (S ''A'')
         \<and> map_of row ''waiting_time_ms'' = Some (I 0)
         \<and> map_of row ''response_time_ms'' = Some (I 100)
         \<and> map_of row ''slowdown'' = Some (R 1)"
    using T [THEN conjunct1] fj by simp
  have 2: "\<exists>rows row. jobs_csv_p (finalize_run_p run_A_done_p) = Some rows \<and> row \<in> set rows
         \<and> map_of row ''job_id'' = Some (S ''A'')
         \<and> map_of row ''waiting_time_ms'' = Some (I 0)
         \<and> map_of row ''response_time_ms'' = Some (I 100)
         \<and> map_of row ''slowdown'' = Some (R 1)"
    using T [THEN conjunct2, THEN conjunct1] pj by simp
  have 3: "\<exists>rows row. jobs_csv_rr (finalize_run_rr run_fin_rr) = Some rows \<and> row \<in> set rows
         \<and> map_of row ''job_id'' = Some (S ''B'')
         \<and> map_of row ''response_time_ms'' = Some (I 60)
         \<and> map_of row ''waiting_time_ms'' = Some (I 30)
         \<and> map_of row ''slowdown'' = None"
    using U [THEN conjunct2, THEN conjunct2, THEN conjunct1] rj by simp
  have 4: "\<exists>run' rows row. finalize_run_r0 run_fin_r0 = Inr run' \<and> jobs_csv_r0 run' = Some rows
         \<and> row \<in> set rows
         \<and> map_of row ''job_id'' = Some (S ''B'')
         \<and> map_of row ''response_time_ms'' = Some (I 60)
         \<and> map_of row ''waiting_time_ms'' = Some (I 30)
         \<and> map_of row ''slowdown'' = Some (R 2)"
    using U [THEN conjunct2, THEN conjunct2, THEN conjunct2] rj by simp
  from 1 2 3 4 show ?thesis by blast
qed

subsection \<open>The arrival column of the data set\<close>


lemma update_mem: "(a, b) \<in> set (AList.update k v al) \<Longrightarrow> (a, b) = (k, v) \<or> (a, b) \<in> set al"
  by (induction al) (auto split: if_splits)

lemma load_rows_f_default:
  "load_rows_f False rows jobs0 = Inr jobs \<Longrightarrow> \<forall>(jid, j) \<in> set jobs0. arrival_ms_f j = 0
     \<Longrightarrow> \<forall>(jid, j) \<in> set jobs. arrival_ms_f j = 0"
proof (induction rows arbitrary: jobs0)
  case Nil
  then show ?case by simp
next
  case (Cons row rows)
  then show ?case
    by (auto split: sum.splits dest!: update_mem) (force dest!: update_mem)+
qed

lemma load_rows_f_accepts:
  "\<forall>row \<in> set rows. col_service_time_ms row \<noteq> NotInt
       \<and> (has_arrival \<longrightarrow> col_arrival_time_ms row \<noteq> NotInt)
     \<Longrightarrow> \<exists>jobs. load_rows_f has_arrival rows jobs0 = Inr jobs"
proof (induction rows arbitrary: jobs0)
  case Nil
  then show ?case by simp
next
  case (Cons row rows)
  then show ?case
    by (cases "col_service_time_ms row"; cases "col_arrival_time_ms row")
       (auto simp: py_int_def)
qed

lemma load_rows_f_uses_column:
  "load_rows_f True rows jobs0 = Inr jobs \<Longrightarrow> (jid, j) \<in> set jobs \<Longrightarrow>
     (jid, j) \<in> set jobs0
     \<or> (\<exists>row \<in> set rows. col_job_id row = jid
            \<and> col_arrival_time_ms row = IntCell (arrival_ms_f j))"
proof (induction rows arbitrary: jobs0)
  case Nil
  then show ?case by simp
next
  case (Cons row rows)
  from Cons.prems(1) obtain svc arr where
    s: "py_int (col_service_time_ms row) = Inr svc"
    and a: "py_int (col_arrival_time_ms row) = Inr arr"
    and rest: "load_rows_f True rows (AList.update (col_job_id row)
                    \<lparr>job_id_f = col_job_id row, service_ms_f = svc, arrival_ms_f = arr,
                     start_ms_f = None, finish_ms_f = None,
                     cpu_percent_f = None, memory_mb_f = None\<rparr> jobs0) = Inr jobs"
    by (auto split: sum.splits)
  from a have c: "col_arrival_time_ms row = IntCell arr"
    by (auto simp: py_int_def split: cell.splits)
  from Cons.IH[OF rest Cons.prems(2)] show ?case
    using c by (auto dest!: update_mem)
qed


lemma load_rows_p_default:
  "load_rows_p False rows jobs0 = Inr jobs \<Longrightarrow> \<forall>(jid, j) \<in> set jobs0. arrival_ms_p j = 0
     \<Longrightarrow> \<forall>(jid, j) \<in> set jobs. arrival_ms_p j = 0"
proof (induction rows arbitrary: jobs0)
  case Nil
  then show ?case by simp
next
  case (Cons row rows)
  then show ?case
    by (auto split: sum.splits dest!: update_mem) (force dest!: update_mem)+
qed

lemma load_rows_p_accepts:
  "\<forall>row \<in> set rows. col_service_time_ms row \<noteq> NotInt \<and> col_priority row \<noteq> NotInt
       \<and> (has_arrival \<longrightarrow> col_arrival_time_ms row \<noteq> NotInt)
     \<Longrightarrow> \<exists>jobs. load_rows_p has_arrival rows jobs0 = Inr jobs"
proof (induction rows arbitrary: jobs0)
  case Nil
  then show ?case by simp
next
  case (Cons row rows)
  then show ?case
    by (cases "col_service_time_ms row"; cases "col_arrival_time_ms row";
        cases "col_priority row")
       (auto simp: py_int_def)
qed

lemma load_rows_p_uses_column:
  "load_rows_p True rows jobs0 = Inr jobs \<Longrightarrow> (jid, j) \<in> set jobs \<Longrightarrow>
     (jid, j) \<in> set jobs0
     \<or> (\<exists>row \<in> set rows. col_job_id row = jid
            \<and> col_arrival_time_ms row = IntCell (arrival_ms_p j))"
proof (induction rows arbitrary: jobs0)
  case Nil
  then show ?case by simp
next
  case (Cons row rows)
  from Cons.prems(1) obtain svc arr pr where
    a: "py_int (col_arrival_time_ms row) = Inr arr"
    and rest: "load_rows_p True rows (AList.update (col_job_id row)
                         \<lparr>job_id_p = col_job_id row, service_ms_p = svc,
                          arrival_ms_p = arr, priority_p = pr,
                          start_ms_p = None, finish_ms_p = None,
                          cpu_percent_p = None, memory_mb_p = None\<rparr> jobs0) = Inr jobs"
    by (auto split: sum.splits)
  from a have c: "col_arrival_time_ms row = IntCell arr"
    by (auto simp: py_int_def split: cell.splits)
  from Cons.IH[OF rest Cons.prems(2)] show ?case
    using c by (auto dest!: update_mem)
qed

lemma partition_p_ids:
  "partition_p jobs rh ph seq = (rh', ph', seq') \<Longrightarrow>
     heap_ready_ids rh' = heap_ready_ids rh \<union> {jid. \<exists>j. (jid, j) \<in> set jobs \<and> arrival_ms_p j \<le> 0}
     \<and> heap_pending_ids ph' = heap_pending_ids ph \<union> {jid. \<exists>j. (jid, j) \<in> set jobs \<and> \<not> arrival_ms_p j \<le> 0}"
proof (induction jobs rh ph seq rule: partition_p.induct)
  case (1 rh ph seq)
  then show ?case by simp
next
  case (2 job_id job rest rh ph seq)
  show ?case
  proof (cases "arrival_ms_p job \<le> 0")
    case True
    with 2 show ?thesis
      by (auto simp: heap_ready_ids_def heap_pending_ids_def heappush_def set_insort_key)
  next
    case False
    with 2 show ?thesis
      by (auto simp: heap_ready_ids_def heap_pending_ids_def heappush_def set_insort_key)
  qed
qed

lemma load_rows_r0_arrival:
  "load_rows_r0 rows jobs0 = Inr jobs \<Longrightarrow> \<forall>(jid, j) \<in> set jobs0. arrival_ms_rr j = 0
     \<Longrightarrow> \<forall>(jid, j) \<in> set jobs. arrival_ms_rr j = 0"
proof (induction rows arbitrary: jobs0)
  case Nil
  then show ?case by simp
next
  case (Cons row rows)
  then show ?case
    by (auto split: sum.splits dest!: update_mem) (force dest!: update_mem)+
qed

lemma load_rows_rr_uses_column:
  "load_rows_rr rows jobs0 = Inr jobs \<Longrightarrow> (jid, j) \<in> set jobs \<Longrightarrow>
     (jid, j) \<in> set jobs0
     \<or> (\<exists>row \<in> set rows. col_job_id row = jid
            \<and> col_arrival_time_ms row = IntCell (arrival_ms_rr j))"
proof (induction rows arbitrary: jobs0)
  case Nil
  then show ?case by simp
next
  case (Cons row rows)
  from Cons.prems(1) obtain svc arr where
    a: "py_int (col_arrival_time_ms row) = Inr arr"
    and rest: "load_rows_rr rows (AList.update (col_job_id row)
                    \<lparr>job_id_rr = col_job_id row, service_ms_rr = svc, remaining_ms_rr = svc,
                     arrival_ms_rr = arr, first_start_ms_rr = None, finish_ms_rr = None,
                     slices_rr = 0, preemptions_rr = 0\<rparr> jobs0) = Inr jobs"
    by (auto split: sum.splits)
  from a have c: "col_arrival_time_ms row = IntCell arr"
    by (auto simp: py_int_def split: cell.splits)
  from Cons.IH[OF rest Cons.prems(2)] show ?case
    using c by (auto dest!: update_mem)
qed

lemma load_rows_rr_distinct:
  "load_rows_rr rows jobs0 = Inr jobs \<Longrightarrow> distinct (map fst jobs0) \<Longrightarrow> distinct (map fst jobs)"
proof (induction rows arbitrary: jobs0)
  case Nil
  then show ?case by simp
next
  case (Cons row rows)
  then show ?case
    by (auto split: sum.splits simp: AList.distinct_update)
qed

lemma release_arrivals_result:
  "\<forall>jid \<in> set (pending_ids_rr run). map_of (jobs_rr run) jid \<noteq> None \<Longrightarrow>
   release_arrivals run now =
     (None, run\<lparr>ready_q_rr := ready_q_rr run @
                  takeWhile (\<lambda>jid. arrival_ms_rr (the (map_of (jobs_rr run) jid)) \<le> now)
                    (drop (pending_idx_rr run) (pending_ids_rr run)),
               pending_idx_rr := pending_idx_rr run +
                  length (takeWhile (\<lambda>jid. arrival_ms_rr (the (map_of (jobs_rr run) jid)) \<le> now)
                    (drop (pending_idx_rr run) (pending_ids_rr run)))\<rparr>)"
proof (induction run now rule: release_arrivals.induct)
  case (1 run now)
  show ?case
  proof (cases "pending_idx_rr run < length (pending_ids_rr run)")
    case False
    then show ?thesis by (subst release_arrivals.simps) simp
  next
    case True
    let ?jid = "pending_ids_rr run ! pending_idx_rr run"
    from True have mem: "?jid \<in> set (pending_ids_rr run)" by simp
    with 1(2) obtain job where job: "map_of (jobs_rr run) ?jid = Some job" by auto
    have dr: "drop (pending_idx_rr run) (pending_ids_rr run)
        = ?jid # drop (Suc (pending_idx_rr run)) (pending_ids_rr run)"
      using True by (simp add: Cons_nth_drop_Suc)
    show ?thesis
    proof (cases "arrival_ms_rr job > now")
      case True
      then show ?thesis using \<open>pending_idx_rr run < length (pending_ids_rr run)\<close> job dr
        by (subst release_arrivals.simps) (simp add: Let_def)
    next
      case False
      let ?run' = "run\<lparr>ready_q_rr := ready_q_rr run @ [?jid],
                         pending_idx_rr := pending_idx_rr run + 1\<rparr>"
      have ih: "release_arrivals ?run' now =
     (None, ?run'\<lparr>ready_q_rr := ready_q_rr ?run' @
                  takeWhile (\<lambda>jid. arrival_ms_rr (the (map_of (jobs_rr ?run') jid)) \<le> now)
                    (drop (pending_idx_rr ?run') (pending_ids_rr ?run')),
               pending_idx_rr := pending_idx_rr ?run' +
                  length (takeWhile (\<lambda>jid. arrival_ms_rr (the (map_of (jobs_rr ?run') jid)) \<le> now)
                    (drop (pending_idx_rr ?run') (pending_ids_rr ?run')))\<rparr>)"
        using 1(1)[OF True refl job False] 1(2) by simp
      have "release_arrivals run now = release_arrivals ?run' now"
        using True job False by (subst release_arrivals.simps) (simp add: Let_def)
      then show ?thesis using ih dr job False by simp
    qed
  qed
qed

lemma takeWhile_sorted_filter:
  "sorted (map f xs) \<Longrightarrow> takeWhile (\<lambda>x. f x \<le> (c::int)) xs = filter (\<lambda>x. f x \<le> c) xs"
proof (induction xs)
  case Nil
  then show ?case by simp
next
  case (Cons x xs)
  show ?case
  proof (cases "f x \<le> c")
    case True
    with Cons show ?thesis by simp
  next
    case False
    with Cons.prems have "\<forall>y \<in> set xs. \<not> f y \<le> c" by auto
    then have "filter (\<lambda>x. f x \<le> c) xs = []" by (simp add: filter_empty_conv)
    with False show ?thesis by simp
  qed
qed



lemma load_jobs_f_default:
  assumes "{''job_id'', ''service_time_ms''} \<subseteq> set (df_columns df)"
    "''arrival_time_ms'' \<notin> set (df_columns df)"
    "\<forall>row \<in> set (df_rows df). col_service_time_ms row \<noteq> NotInt"
  shows "\<exists>jobs. load_jobs_f (Parsed df) = Inr jobs \<and> (\<forall>(jid, j) \<in> set jobs. arrival_ms_f j = 0)"
proof -
  from assms(3) obtain jobs where j: "load_rows_f False (df_rows df) [] = Inr jobs"
    using load_rows_f_accepts[of "df_rows df" False "[]"] by auto
  from load_rows_f_default[OF j] have "\<forall>(jid, j) \<in> set jobs. arrival_ms_f j = 0" by simp
  with j assms(1,2) show ?thesis by (simp add: load_jobs_f_def)
qed

lemma load_jobs_f_uses_column:
  assumes "''arrival_time_ms'' \<in> set (df_columns df)" "load_jobs_f (Parsed df) = Inr jobs"
    "(jid, j) \<in> set jobs"
  shows "\<exists>row \<in> set (df_rows df). col_job_id row = jid
            \<and> col_arrival_time_ms row = IntCell (arrival_ms_f j)"
proof -
  from assms(1,2) have "load_rows_f True (df_rows df) [] = Inr jobs"
    by (simp add: load_jobs_f_def split: if_splits)
  from load_rows_f_uses_column[OF this assms(3)] show ?thesis by simp
qed

lemma start_f_partition:
  assumes "start_f reg now fs fresh_id now_ms req active = (Inr resp, Some run)"
  shows "(jid \<in> set (ready_q_f run) \<longleftrightarrow> (\<exists>j. (jid, j) \<in> set (jobs_f run) \<and> arrival_ms_f j \<le> 0))
    \<and> ((jid, j) \<in> set (pending_jobs_f run) \<longleftrightarrow> (jid, j) \<in> set (jobs_f run) \<and> 0 < arrival_ms_f j)"
proof -
  from assms have r: "ready_q_f run = map fst (filter (\<lambda>(jid, job). arrival_ms_f job \<le> 0) (jobs_f run))"
    "pending_jobs_f run = filter (\<lambda>(jid, job). \<not> arrival_ms_f job \<le> 0) (jobs_f run)"
    by (auto simp: start_f_def partition_f_def Let_def split: if_splits option.splits sum.splits)
  show ?thesis unfolding r by force
qed

lemma load_jobs_p_default:
  assumes "{''job_id'', ''service_time_ms'', ''priority''} \<subseteq> set (df_columns df)"
    "''arrival_time_ms'' \<notin> set (df_columns df)"
    "\<forall>row \<in> set (df_rows df). col_service_time_ms row \<noteq> NotInt \<and> col_priority row \<noteq> NotInt"
  shows "\<exists>jobs. load_jobs_p (Parsed df) = Inr jobs \<and> (\<forall>(jid, j) \<in> set jobs. arrival_ms_p j = 0)"
proof -
  from assms(3) obtain jobs where j: "load_rows_p False (df_rows df) [] = Inr jobs"
    using load_rows_p_accepts[of "df_rows df" False "[]"] by auto
  from load_rows_p_default[OF j] have "\<forall>(jid, j) \<in> set jobs. arrival_ms_p j = 0" by simp
  with j assms(1,2) show ?thesis by (simp add: load_jobs_p_def)
qed

lemma load_jobs_p_uses_column:
  assumes "''arrival_time_ms'' \<in> set (df_columns df)" "load_jobs_p (Parsed df) = Inr jobs"
    "(jid, j) \<in> set jobs"
  shows "\<exists>row \<in> set (df_rows df). col_job_id row = jid
            \<and> col_arrival_time_ms row = IntCell (arrival_ms_p j)"
proof -
  from assms(1,2) have "load_rows_p True (df_rows df) [] = Inr jobs"
    by (simp add: load_jobs_p_def split: if_splits)
  from load_rows_p_uses_column[OF this assms(3)] show ?thesis by simp
qed

lemma start_p_partition:
  assumes "start_p reg now fs fresh_id now_ms req active = (Inr resp, Some run)"
  shows "(jid \<in> heap_ready_ids (ready_heap_p run)
            \<longleftrightarrow> (\<exists>j. (jid, j) \<in> set (jobs_p run) \<and> arrival_ms_p j \<le> 0))
    \<and> (jid \<in> heap_pending_ids (pending_heap_p run)
            \<longleftrightarrow> (\<exists>j. (jid, j) \<in> set (jobs_p run) \<and> 0 < arrival_ms_p j))"
proof -
  from assms obtain csv jobs where
    j: "load_jobs_p csv = Inr jobs"
    and r: "run = (let (ready_heap, pending_heap, seq) = partition_p jobs [] [] 0 in
              \<lparr>run_id_p = fresh_id, dataset_file_p = dataset_file_s req,
                             speedup_p = speedup_s req, start_wall_ms_p = now_ms,
                             jobs_p = jobs, ready_heap_p = ready_heap,
                             pending_heap_p = pending_heap, next_seq_p = seq,
                             total_jobs_p = int (length jobs), current_sim_ms_p = 0,
                             completed_p = 0, done_p = False, jobs_csv_p = None\<rparr>)"
    by (auto simp: start_p_def Let_def split: if_splits option.splits sum.splits prod.splits)
  obtain rh ph seq where p: "partition_p jobs [] [] 0 = (rh, ph, seq)"
    by (cases "partition_p jobs [] [] 0") auto
  from partition_p_ids[OF p] r p show ?thesis
    by (auto simp: heap_ready_ids_def heap_pending_ids_def)
qed

lemma load_jobs_rr_requires_column:
  "''arrival_time_ms'' \<notin> set (df_columns df) \<Longrightarrow> load_jobs_rr (Parsed df) = Inl ValueError"
  by (simp add: load_jobs_rr_def)

lemma load_jobs_rr_uses_column:
  assumes "load_jobs_rr (Parsed df) = Inr jobs" "(jid, j) \<in> set jobs"
  shows "''arrival_time_ms'' \<in> set (df_columns df)
     \<and> (\<exists>row \<in> set (df_rows df). col_job_id row = jid
            \<and> col_arrival_time_ms row = IntCell (arrival_ms_rr j))"
proof -
  from assms(1) have c: "''arrival_time_ms'' \<in> set (df_columns df)"
    and l: "load_rows_rr (sort_key arrival_key (df_rows df)) [] = Inr jobs"
    by (auto simp: load_jobs_rr_def split: if_splits)
  from load_rows_rr_uses_column[OF l assms(2)] c show ?thesis by simp
qed

lemma start_rr_partition:
  assumes "start_rr reg now fs fresh_id now_ms req active = (Inr resp, Some run)"
  shows "jid \<in> set (ready_q_rr run)
            \<longleftrightarrow> (\<exists>j. (jid, j) \<in> set (jobs_rr run) \<and> arrival_ms_rr j \<le> 0)"
proof -
  from assms obtain csv jobs where
    j: "load_jobs_rr csv = Inr jobs"
    and rel: "release_arrivals \<lparr>run_id_rr = fresh_id, dataset_file_rr = dataset_file_srr req,
                             quantum_ms_rr = quantum_ms_srr req, speedup_rr = speedup_srr req,
                             start_wall_ms_rr = now_ms, jobs_rr = jobs, ready_q_rr = [],
                             pending_ids_rr = map fst (sort_key (\<lambda>(jid, job). arrival_ms_rr job) jobs),
                             total_jobs_rr = int (length jobs), pending_idx_rr = 0,
                             completed_rr = 0, done_rr = False, jobs_csv_rr = None\<rparr> 0
             = (None, run)"
    by (auto simp: start_rr_def Let_def split: if_splits option.splits sum.splits prod.splits)
  let ?k = "\<lambda>(jid, job). arrival_ms_rr job"
  let ?ids = "map fst (sort_key ?k jobs)"
  let ?run0 = "\<lparr>run_id_rr = fresh_id, dataset_file_rr = dataset_file_srr req,
                             quantum_ms_rr = quantum_ms_srr req, speedup_rr = speedup_srr req,
                             start_wall_ms_rr = now_ms, jobs_rr = jobs, ready_q_rr = [],
                             pending_ids_rr = ?ids,
                             total_jobs_rr = int (length jobs), pending_idx_rr = 0,
                             completed_rr = 0, done_rr = False, jobs_csv_rr = None\<rparr>"
  let ?g = "\<lambda>jid. arrival_ms_rr (the (map_of jobs jid))"
  from j have d: "distinct (map fst jobs)"
    by (auto simp: load_jobs_rr_def split: csv_file.splits if_splits
        dest!: load_rows_rr_distinct)
  have g: "?g a = arrival_ms_rr b" if "(a, b) \<in> set jobs" for a b
    using that d by simp
  have dom: "\<forall>jid \<in> set (pending_ids_rr ?run0). map_of (jobs_rr ?run0) jid \<noteq> None"
    using d by (auto simp: map_of_eq_None_iff image_iff)
  have "map ?g ?ids = map ?k (sort_key ?k jobs)"
    by (auto simp: g)
  then have srt: "sorted (map ?g ?ids)" by (simp only: sorted_sort_key)
  from release_arrivals_result[OF dom, of 0] rel
  have "ready_q_rr run = takeWhile (\<lambda>jid. ?g jid \<le> 0) ?ids" by auto
  also have "\<dots> = filter (\<lambda>jid. ?g jid \<le> 0) ?ids"
    using takeWhile_sorted_filter[OF srt] .
  finally have rq: "ready_q_rr run = filter (\<lambda>jid. ?g jid \<le> 0) ?ids" .
  from release_arrivals_result[OF dom, of 0] rel have jr: "jobs_rr run = jobs" by auto
  show ?thesis unfolding rq jr
    by (auto simp: g) (force simp: g)
qed

lemma load_jobs_r0_arrival:
  "load_jobs_r0 (Parsed df) = Inr jobs \<Longrightarrow> \<forall>(jid, j) \<in> set jobs. arrival_ms_rr j = 0"
  using load_rows_r0_arrival[of "df_rows df" "[]" jobs]
  by (auto simp: load_jobs_r0_def split: if_splits)

lemma start_r0_all_ready:
  "start_r0 reg now fs fresh_id now_ms req active = (Inr resp, Some run)
     \<Longrightarrow> ready_q_r0 run = map fst (jobs_r0 run)"
  by (auto simp: start_r0_def split: if_splits option.splits sum.splits)

text \<open>
  \<^bold>\<open>C9\<close>, as claimed: under every policy a data set without the column
  \<^verbatim>\<open>arrival_time_ms\<close> is accepted with every arrival 0, and the values of the column are
  used when it is there. It fails for both round-robin services:
  \<^verbatim>\<open>round-robin/scheduler.py\<close> rejects the data set of jobs \<open>A\<close> and \<open>B\<close>, which has no
  arrival column, with \<^verbatim>\<open>ValueError\<close>; the top-level \<^verbatim>\<open>scheduler.py\<close> loads job \<open>A\<close> of the
  data set with arrival 500 ms with \<open>arrival_ms = 0\<close> and puts it in the ready queue at once.
\<close>

theorem rr_arrival_column_not_optional:
  "load_jobs_rr (Parsed two_df) = Inl ValueError
   \<and> ''arrival_time_ms'' \<notin> set (df_columns two_df)
   \<and> start_rr reg_ex 101 [''two.csv'' \<mapsto> Parsed two_df] ''r1'' 1000
        \<lparr>dataset_file_srr = ''two.csv'', quantum_ms_srr = 10, speedup_srr = 1,
         min_slots_srr = 1\<rparr> None = (Inl ValueError, None)
   \<and> start_r0 reg_ex 101 [''late.csv'' \<mapsto> Parsed late_df] ''r1'' 1000 late_req_rr None =
       (Inr (RunId ''r1''),
        Some \<lparr>run_id_r0 = ''r1'', dataset_file_r0 = ''late.csv'', quantum_ms_r0 = 10,
              speedup_r0 = 1, start_wall_ms_r0 = 1000,
              jobs_r0 = [(''A'', \<lparr>job_id_rr = ''A'', service_ms_rr = 10, remaining_ms_rr = 10,
                                   arrival_ms_rr = 0, first_start_ms_rr = None,
                                   finish_ms_rr = None, slices_rr = 0, preemptions_rr = 0\<rparr>)],
              ready_q_r0 = [''A''], total_jobs_r0 = 1, completed_r0 = 0, done_r0 = False,
              jobs_csv_r0 = None\<rparr>)"
  by (simp add: load_jobs_rr_def load_jobs_r0_def start_rr_def start_r0_def two_df_def
        late_df_def late_req_rr_def reg_ex_def total_alive_slots_def py_int_def)

text \<open>
  \<^bold>\<open>C9\<close>, amended. In the FIFO and in the priority service the column \<^verbatim>\<open>arrival_time_ms\<close>
  is optional: a data set without it (with the required columns, and integers in them)
  is accepted and every job gets \<open>arrival_ms = 0\<close>; when the column is there, the arrival
  of each job is the value of one of its rows; and \<^verbatim>\<open>/start\<close> puts a job in the ready
  structure iff its arrival is at most 0, in the pending structure otherwise.
  \<^verbatim>\<open>round-robin/scheduler.py\<close> requires the column (\<^verbatim>\<open>ValueError\<close> without it), takes each
  job's arrival from its rows and makes ready at \<^verbatim>\<open>/start\<close> exactly the jobs with arrival
  at most 0. The top-level \<^verbatim>\<open>scheduler.py\<close> never reads the column: every job has
  \<open>arrival_ms = 0\<close> and is in the ready queue at \<^verbatim>\<open>/start\<close>.
\<close>

theorem arrival_column_handling:
  "({''job_id'', ''service_time_ms''} \<subseteq> set (df_columns df)
      \<and> ''arrival_time_ms'' \<notin> set (df_columns df)
      \<and> (\<forall>row \<in> set (df_rows df). col_service_time_ms row \<noteq> NotInt)
     \<longrightarrow> (\<exists>jobs. load_jobs_f (Parsed df) = Inr jobs
           \<and> (\<forall>(jid, j) \<in> set jobs. arrival_ms_f j = 0)))
   \<and> (''arrival_time_ms'' \<in> set (df_columns df) \<and> load_jobs_f (Parsed df) = Inr fjobs
      \<and> (jid, fj) \<in> set fjobs
     \<longrightarrow> (\<exists>row \<in> set (df_rows df). col_job_id row = jid
            \<and> col_arrival_time_ms row = IntCell (arrival_ms_f fj)))
   \<and> (start_f reg now fs fresh_id now_ms req factive = (Inr resp, Some frun)
     \<longrightarrow> (jid \<in> set (ready_q_f frun)
            \<longleftrightarrow> (\<exists>j. (jid, j) \<in> set (jobs_f frun) \<and> arrival_ms_f j \<le> 0))
        \<and> ((jid, fj) \<in> set (pending_jobs_f frun)
            \<longleftrightarrow> (jid, fj) \<in> set (jobs_f frun) \<and> 0 < arrival_ms_f fj))
   \<and> ({''job_id'', ''service_time_ms'', ''priority''} \<subseteq> set (df_columns df)
      \<and> ''arrival_time_ms'' \<notin> set (df_columns df)
      \<and> (\<forall>row \<in> set (df_rows df). col_service_time_ms row \<noteq> NotInt
             \<and> col_priority row \<noteq> NotInt)
     \<longrightarrow> (\<exists>jobs. load_jobs_p (Parsed df) = Inr jobs
           \<and> (\<forall>(jid, j) \<in> set jobs. arrival_ms_p j = 0)))
   \<and> (''arrival_time_ms'' \<in> set (df_columns df) \<and> load_jobs_p (Parsed df) = Inr pjobs
      \<and> (jid, pj) \<in> set pjobs
     \<longrightarrow> (\<exists>row \<in> set (df_rows df). col_job_id row = jid
            \<and> col_arrival_time_ms row = IntCell (arrival_ms_p pj)))
   \<and> (start_p reg now fs fresh_id now_ms req pactive = (Inr resp, Some prun)
     \<longrightarrow> (jid \<in> heap_ready_ids (ready_heap_p prun)
            \<longleftrightarrow> (\<exists>j. (jid, j) \<in> set (jobs_p prun) \<and> arrival_ms_p j \<le> 0))
        \<and> (jid \<in> heap_pending_ids (pending_heap_p prun)
            \<longleftrightarrow> (\<exists>j. (jid, j) \<in> set (jobs_p prun) \<and> 0 < arrival_ms_p j)))
   \<and> (''arrival_time_ms'' \<notin> set (df_columns df)
     \<longrightarrow> load_jobs_rr (Parsed df) = Inl ValueError)
   \<and> (load_jobs_rr (Parsed df) = Inr rjobs \<and> (jid, rj) \<in> set rjobs
     \<longrightarrow> ''arrival_time_ms'' \<in> set (df_columns df)
        \<and> (\<exists>row \<in> set (df_rows df). col_job_id row = jid
            \<and> col_arrival_time_ms row = IntCell (arrival_ms_rr rj)))
   \<and> (start_rr reg now fs fresh_id now_ms rreq ractive = (Inr resp, Some rrun)
     \<longrightarrow> (jid \<in> set (ready_q_rr rrun)
            \<longleftrightarrow> (\<exists>j. (jid, j) \<in> set (jobs_rr rrun) \<and> arrival_ms_rr j \<le> 0)))
   \<and> (load_jobs_r0 (Parsed df) = Inr zjobs
     \<longrightarrow> (\<forall>(jid, j) \<in> set zjobs. arrival_ms_rr j = 0))
   \<and> (start_r0 reg now fs fresh_id now_ms rreq zactive = (Inr resp, Some zrun)
     \<longrightarrow> ready_q_r0 zrun = map fst (jobs_r0 zrun))"
proof (intro conjI impI; (elim conjE)?)
  show "\<exists>jobs. load_jobs_f (Parsed df) = Inr jobs \<and> (\<forall>(jid, j) \<in> set jobs. arrival_ms_f j = 0)"
    if "{''job_id'', ''service_time_ms''} \<subseteq> set (df_columns df)"
      "''arrival_time_ms'' \<notin> set (df_columns df)"
      "\<forall>row \<in> set (df_rows df). col_service_time_ms row \<noteq> NotInt"
    using that by (rule load_jobs_f_default)
  show "\<exists>jobs. load_jobs_p (Parsed df) = Inr jobs \<and> (\<forall>(jid, j) \<in> set jobs. arrival_ms_p j = 0)"
    if "{''job_id'', ''service_time_ms'', ''priority''} \<subseteq> set (df_columns df)"
      "''arrival_time_ms'' \<notin> set (df_columns df)"
      "\<forall>row \<in> set (df_rows df). col_service_time_ms row \<noteq> NotInt
             \<and> col_priority row \<noteq> NotInt"
    using that by (rule load_jobs_p_default)
  show "\<exists>row \<in> set (df_rows df). col_job_id row = jid
            \<and> col_arrival_time_ms row = IntCell (arrival_ms_f fj)"
    if "''arrival_time_ms'' \<in> set (df_columns df)" "load_jobs_f (Parsed df) = Inr fjobs"
      "(jid, fj) \<in> set fjobs"
    using that by (rule load_jobs_f_uses_column)
  show "\<exists>row \<in> set (df_rows df). col_job_id row = jid
            \<and> col_arrival_time_ms row = IntCell (arrival_ms_p pj)"
    if "''arrival_time_ms'' \<in> set (df_columns df)" "load_jobs_p (Parsed df) = Inr pjobs"
      "(jid, pj) \<in> set pjobs"
    using that by (rule load_jobs_p_uses_column)
  show "jid \<in> set (ready_q_f frun)
            \<longleftrightarrow> (\<exists>j. (jid, j) \<in> set (jobs_f frun) \<and> arrival_ms_f j \<le> 0)"
    "(jid, fj) \<in> set (pending_jobs_f frun)
            \<longleftrightarrow> (jid, fj) \<in> set (jobs_f frun) \<and> 0 < arrival_ms_f fj"
    if "start_f reg now fs fresh_id now_ms req factive = (Inr resp, Some frun)"
    using start_f_partition [OF that] by blast+
  show "jid \<in> heap_ready_ids (ready_heap_p prun)
            \<longleftrightarrow> (\<exists>j. (jid, j) \<in> set (jobs_p prun) \<and> arrival_ms_p j \<le> 0)"
    "jid \<in> heap_pending_ids (pending_heap_p prun)
            \<longleftrightarrow> (\<exists>j. (jid, j) \<in> set (jobs_p prun) \<and> 0 < arrival_ms_p j)"
    if "start_p reg now fs fresh_id now_ms req pactive = (Inr resp, Some prun)"
    using start_p_partition [OF that] by blast+
  show "load_jobs_rr (Parsed df) = Inl ValueError"
    if "''arrival_time_ms'' \<notin> set (df_columns df)"
    using that by (rule load_jobs_rr_requires_column)
  show "''arrival_time_ms'' \<in> set (df_columns df)"
    "\<exists>row \<in> set (df_rows df). col_job_id row = jid
            \<and> col_arrival_time_ms row = IntCell (arrival_ms_rr rj)"
    if "load_jobs_rr (Parsed df) = Inr rjobs" "(jid, rj) \<in> set rjobs"
    using load_jobs_rr_uses_column [OF that] by blast+
  show "jid \<in> set (ready_q_rr rrun)
            \<longleftrightarrow> (\<exists>j. (jid, j) \<in> set (jobs_rr rrun) \<and> arrival_ms_rr j \<le> 0)"
    if "start_rr reg now fs fresh_id now_ms rreq ractive = (Inr resp, Some rrun)"
    using that by (rule start_rr_partition)
  show "\<forall>(jid, j) \<in> set zjobs. arrival_ms_rr j = 0"
    if "load_jobs_r0 (Parsed df) = Inr zjobs"
    using that by (rule load_jobs_r0_arrival)
  show "ready_q_r0 zrun = map fst (jobs_r0 zrun)"
    if "start_r0 reg now fs fresh_id now_ms rreq zactive = (Inr resp, Some zrun)"
    using that by (rule start_r0_all_ready)
qed

theorem arrival_column_handling_witness:
  "(\<exists>jobs. load_jobs_f (Parsed two_df) = Inr jobs
       \<and> (\<forall>(jid, j) \<in> set jobs. arrival_ms_f j = 0))
   \<and> load_jobs_rr (Parsed two_df) = Inl ValueError
   \<and> start_f reg_ex 101 [''late.csv'' \<mapsto> Parsed late_df] ''r1'' 1000 late_req None
       = (Inr (RunId ''r1''), Some run_late_f)
   \<and> (''A'', job_A_late_f) \<in> set (pending_jobs_f run_late_f)
   \<and> ''A'' \<notin> set (ready_q_f run_late_f)"
proof -
  have cols: "{''job_id'', ''service_time_ms''} \<subseteq> set (df_columns two_df)"
    "''arrival_time_ms'' \<notin> set (df_columns two_df)"
    "\<forall>row \<in> set (df_rows two_df). col_service_time_ms row \<noteq> NotInt"
    by (simp_all add: two_df_def)
  have st: "start_f reg_ex 101 [''late.csv'' \<mapsto> Parsed late_df] ''r1'' 1000 late_req None
       = (Inr (RunId ''r1''), Some run_late_f)"
    by (simp add: start_f_def load_jobs_f_def partition_f_def late_df_def late_req_def
          reg_ex_def total_alive_slots_def py_int_def run_late_f_def job_A_late_f_def)
  have jobs: "(''A'', job_A_late_f) \<in> set (jobs_f run_late_f)" "0 < arrival_ms_f job_A_late_f"
    "\<not> (\<exists>j. (''A'', j) \<in> set (jobs_f run_late_f) \<and> arrival_ms_f j \<le> 0)"
    by (simp_all add: run_late_f_def job_A_late_f_def)
  note T = arrival_column_handling [where df = two_df and reg = reg_ex and now = 101
      and fs = "[''late.csv'' \<mapsto> Parsed late_df]" and fresh_id = "''r1''"
      and now_ms = 1000 and req = late_req and factive = None and resp = "RunId ''r1''"
      and frun = run_late_f and jid = "''A''" and fj = job_A_late_f]
  have 1: "\<exists>jobs. load_jobs_f (Parsed two_df) = Inr jobs
       \<and> (\<forall>(jid, j) \<in> set jobs. arrival_ms_f j = 0)"
    using T [THEN conjunct1] cols by blast
  have 2: "load_jobs_rr (Parsed two_df) = Inl ValueError"
    using T [THEN conjunct2, THEN conjunct2, THEN conjunct2, THEN conjunct2, THEN conjunct2,
        THEN conjunct2, THEN conjunct1] cols by blast
  have 3: "(''A'', job_A_late_f) \<in> set (pending_jobs_f run_late_f)"
    "''A'' \<notin> set (ready_q_f run_late_f)"
    using T [THEN conjunct2, THEN conjunct2, THEN conjunct1] st jobs by blast+
  from 1 2 3 st show ?thesis by blast
qed

subsection \<open>Dispatch by \<^verbatim>\<open>/next\<close>\<close>

lemma sorted_triple_fst:
  "sorted (xs :: (int \<times> int \<times> string) list) \<Longrightarrow> sorted (map fst xs)"
  by (induction xs) (auto simp: less_eq_prod_def)

lemma dropWhile_sorted_above:
  "sorted (map f xs) \<Longrightarrow> e \<in> set (dropWhile (\<lambda>x. f x \<le> (c::int)) xs) \<Longrightarrow> c < f e"
proof (induction xs)
  case Nil
  then show ?case by simp
next
  case (Cons x xs)
  show ?case
  proof (cases "f x \<le> c")
    case True
    with Cons show ?thesis by simp
  next
    case False
    with Cons.prems show ?thesis by auto
  qed
qed

lemma takeWhile_sorted_all:
  "sorted (map f xs) \<Longrightarrow> e \<in> set xs \<Longrightarrow> f e \<le> (c::int) \<Longrightarrow> e \<in> set (takeWhile (\<lambda>x. f x \<le> c) xs)"
proof (induction xs)
  case Nil
  then show ?case by simp
next
  case (Cons x xs)
  show ?case
  proof (cases "f x \<le> c")
    case True
    with Cons show ?thesis by auto
  next
    case False
    with Cons.prems show ?thesis by auto
  qed
qed

lemma push_ready_fields:
  assumes "push_ready run jid = Inr run'"
  shows "pending_heap_p run' = pending_heap_p run \<and> jobs_p run' = jobs_p run
     \<and> current_sim_ms_p run' = current_sim_ms_p run
     \<and> heap_ready_ids (ready_heap_p run') = insert jid (heap_ready_ids (ready_heap_p run))
     \<and> (sorted (ready_heap_p run) \<longrightarrow> sorted (ready_heap_p run'))"
proof -
  from assms obtain job where j: "map_of (jobs_p run) jid = Some job"
    by (cases "map_of (jobs_p run) jid") (simp_all add: push_ready_def)
  from assms j have
    r: "run' = run\<lparr>ready_heap_p :=
                      insort (priority_p job, arrival_ms_p job, next_seq_p run, jid)
                        (ready_heap_p run),
                    next_seq_p := next_seq_p run + 1\<rparr>"
    by (simp add: push_ready_def heappush_def)
  show ?thesis unfolding r
    by (simp add: heap_ready_ids_def set_insort_key sorted_insort)
qed

lemma promote_arrivals_result:
  "promote_arrivals run upto_ms = (None, run') \<Longrightarrow>
     pending_heap_p run' = dropWhile (\<lambda>e. fst e \<le> upto_ms) (pending_heap_p run)
     \<and> heap_ready_ids (ready_heap_p run') = heap_ready_ids (ready_heap_p run)
          \<union> heap_pending_ids (takeWhile (\<lambda>e. fst e \<le> upto_ms) (pending_heap_p run))
     \<and> jobs_p run' = jobs_p run \<and> current_sim_ms_p run' = current_sim_ms_p run
     \<and> (sorted (ready_heap_p run) \<longrightarrow> sorted (ready_heap_p run'))"
proof (induction run upto_ms arbitrary: run' rule: promote_arrivals.induct)
  case (1 run upto_ms)
  show ?case
  proof (cases "pending_heap_p run")
    case Nil
    with 1(2) show ?thesis
      by (subst (asm) promote_arrivals.simps) (simp add: heap_pending_ids_def)
  next
    case (Cons e rest)
    obtain arr seq jid where e: "e = (arr, seq, jid)" by (cases e) auto
    show ?thesis
    proof (cases "arr \<le> upto_ms")
      case False
      with 1(2) Cons e show ?thesis
        by (subst (asm) promote_arrivals.simps) (simp add: heap_pending_ids_def)
    next
      case True
      from 1(2) Cons e True obtain run1 where
        p: "push_ready (run\<lparr>pending_heap_p := rest\<rparr>) jid = Inr run1"
        and r: "promote_arrivals run1 upto_ms = (None, run')"
        by (subst (asm) promote_arrivals.simps) (auto split: sum.splits)
      from push_ready_fields[OF p] have f1:
        "pending_heap_p run1 = rest" "jobs_p run1 = jobs_p run"
        "current_sim_ms_p run1 = current_sim_ms_p run"
        "heap_ready_ids (ready_heap_p run1) = insert jid (heap_ready_ids (ready_heap_p run))"
        "sorted (ready_heap_p run) \<longrightarrow> sorted (ready_heap_p run1)"
        by simp_all
      from 1(1)[OF Cons e[symmetric] refl True p r]
      show ?thesis using f1 Cons e True
        by (auto simp: heap_pending_ids_def)
    qed
  qed
qed

lemma lex4_le_lex3:
  "((p::int), (a::int), (s::int), (j::string)) \<le> (p', a', s', j') \<Longrightarrow> (p, a, s) \<le> (p', a', s')"
  by (auto simp: less_eq_prod_def)

lemma next_f_cases:
  "(is_alive_worker_core reg now (worker_id req) (core_id req)
     \<longrightarrow> next_job_f reg now tstart req None t fwakes = Some (Return StatusNoRun, None))
   \<and> (is_alive_worker_core reg now (worker_id req) (core_id req)
       \<and> (done_f fdone \<or> completed_f fdone \<ge> total_jobs_f fdone)
     \<longrightarrow> next_job_f reg now tstart req (Some fdone) t fwakes = Some (Return StatusDone, Some fdone))
   \<and> (is_alive_worker_core reg now (worker_id req) (core_id req)
       \<and> \<not> (done_f frun \<or> completed_f frun \<ge> total_jobs_f frun)
       \<and> ready_q_f frun = fjid # frest \<and> map_of (jobs_f frun) fjid = Some fjob
     \<longrightarrow> next_job_f reg now tstart req (Some frun) t fwakes
          = Some (Return (OkFifo fjid (service_ms_f fjob)), Some (frun\<lparr>ready_q_f := frest\<rparr>)))
   \<and> (is_alive_worker_core reg now (worker_id req) (core_id req)
       \<and> \<not> (done_f fidle \<or> completed_f fidle \<ge> total_jobs_f fidle)
       \<and> ready_q_f fidle = [] \<and> tstart + of_int (timeout_ms req) / 1000 - t \<le> 0
     \<longrightarrow> next_job_f reg now tstart req (Some fidle) t fwakes = Some (Return StatusWait, Some fidle))"
  by (simp add: next_job_f_def next_loop_f.simps next_pass_f_def Let_def)

lemma next_r0_cases:
  "(is_alive_worker_core reg now (worker_id req) (core_id req)
     \<longrightarrow> next_slice_r0 reg now tstart req None t zwakes = Some (Return StatusNoRun, None))
   \<and> (is_alive_worker_core reg now (worker_id req) (core_id req)
       \<and> (done_r0 zdone \<or> completed_r0 zdone \<ge> total_jobs_r0 zdone)
     \<longrightarrow> next_slice_r0 reg now tstart req (Some zdone) t zwakes = Some (Return StatusDone, Some zdone))
   \<and> (is_alive_worker_core reg now (worker_id req) (core_id req)
       \<and> \<not> (done_r0 zrun \<or> completed_r0 zrun \<ge> total_jobs_r0 zrun)
       \<and> ready_q_r0 zrun = zjid # zrest \<and> map_of (jobs_r0 zrun) zjid = Some zjob
     \<longrightarrow> next_slice_r0 reg now tstart req (Some zrun) t zwakes
          = Some (Return (OkRoot zjid (min (quantum_ms_r0 zrun) (remaining_ms_rr zjob))
                            (remaining_ms_rr zjob)),
                  Some (zrun\<lparr>ready_q_r0 := zrest\<rparr>)))
   \<and> (is_alive_worker_core reg now (worker_id req) (core_id req)
       \<and> \<not> (done_r0 zidle \<or> completed_r0 zidle \<ge> total_jobs_r0 zidle)
       \<and> ready_q_r0 zidle = [] \<and> tstart + of_int (timeout_ms req) / 1000 - t \<le> 0
     \<longrightarrow> next_slice_r0 reg now tstart req (Some zidle) t zwakes = Some (Return StatusWait, Some zidle))"
  by (simp add: next_slice_r0_def next_loop_r0.simps next_pass_r0_def Let_def)

lemma next_rr_cases:
  "(is_alive_worker_core reg now (worker_id req) (core_id req)
     \<longrightarrow> next_slice_rr reg now tstart req None now_ms t rwakes = Some (Return StatusNoRun, None))
   \<and> (is_alive_worker_core reg now (worker_id req) (core_id req)
       \<and> (done_rr rdone \<or> completed_rr rdone \<ge> total_jobs_rr rdone)
     \<longrightarrow> next_slice_rr reg now tstart req (Some rdone) now_ms t rwakes
          = Some (Return StatusDone, Some rdone))
   \<and> (is_alive_worker_core reg now (worker_id req) (core_id req)
       \<and> \<not> (done_rr rrun \<or> completed_rr rrun \<ge> total_jobs_rr rrun)
       \<and> release_arrivals rrun (wall_to_sim (start_wall_ms_rr rrun) (speedup_rr rrun) now_ms)
            = (None, rrun_after)
       \<and> ready_q_rr rrun_after = rjid # rrest \<and> map_of (jobs_rr rrun_after) rjid = Some rjob
     \<longrightarrow> next_slice_rr reg now tstart req (Some rrun) now_ms t rwakes
          = Some (Return (OkRR rjid (min (quantum_ms_rr rrun_after) (remaining_ms_rr rjob))
                            (remaining_ms_rr rjob) (arrival_ms_rr rjob)),
                  Some (rrun_after\<lparr>ready_q_rr := rrest\<rparr>)))
   \<and> (is_alive_worker_core reg now (worker_id req) (core_id req)
       \<and> \<not> (done_rr ridle \<or> completed_rr ridle \<ge> total_jobs_rr ridle)
       \<and> release_arrivals ridle (wall_to_sim (start_wall_ms_rr ridle) (speedup_rr ridle) now_ms)
            = (None, ridle_after)
       \<and> ready_q_rr ridle_after = [] \<and> tstart + of_int (timeout_ms req) / 1000 - t \<le> 0
     \<longrightarrow> next_slice_rr reg now tstart req (Some ridle) now_ms t rwakes
          = Some (Return StatusWait, Some ridle_after))"
  by (simp add: next_slice_rr_def next_loop_rr.simps next_pass_rr_def Let_def)

lemma next_p_cases:
  "(is_alive_worker_core reg now (worker_id req) (core_id req)
     \<longrightarrow> next_job_p reg now tstart req None now_ms t pwakes = Some (Return StatusNoRun, None))
   \<and> (is_alive_worker_core reg now (worker_id req) (core_id req)
       \<and> (done_p pdone \<or> completed_p pdone \<ge> total_jobs_p pdone)
     \<longrightarrow> next_job_p reg now tstart req (Some pdone) now_ms t pwakes
          = Some (Return StatusDone, Some pdone))
   \<and> (is_alive_worker_core reg now (worker_id req) (core_id req)
       \<and> \<not> (done_p prun \<or> completed_p prun \<ge> total_jobs_p prun)
       \<and> sorted (ready_heap_p prun)
       \<and> promote_arrivals
            (prun\<lparr>current_sim_ms_p := max (current_sim_ms_p prun)
                (wall_to_sim (start_wall_ms_p prun) (speedup_p prun) now_ms)\<rparr>)
            (max (current_sim_ms_p prun)
                (wall_to_sim (start_wall_ms_p prun) (speedup_p prun) now_ms))
            = (None, prun_after)
       \<and> ready_heap_p prun_after = (prio, arr, sq, pjid) # prest
       \<and> map_of (jobs_p prun_after) pjid = Some pjob
     \<longrightarrow> next_job_p reg now tstart req (Some prun) now_ms t pwakes
          = Some (Return (OkPrio pjid (service_ms_p pjob) prio arr),
                  Some (prun_after\<lparr>ready_heap_p := prest\<rparr>))
        \<and> (\<forall>(prio', arr', sq', jid') \<in> set (ready_heap_p prun_after).
              (prio, arr, sq) \<le> (prio', arr', sq')))
   \<and> (is_alive_worker_core reg now (worker_id req) (core_id req)
       \<and> \<not> (done_p pidle \<or> completed_p pidle \<ge> total_jobs_p pidle)
       \<and> promote_arrivals
            (pidle\<lparr>current_sim_ms_p := max (current_sim_ms_p pidle)
                (wall_to_sim (start_wall_ms_p pidle) (speedup_p pidle) now_ms)\<rparr>)
            (max (current_sim_ms_p pidle)
                (wall_to_sim (start_wall_ms_p pidle) (speedup_p pidle) now_ms))
            = (None, pidle_after)
       \<and> ready_heap_p pidle_after = [] \<and> tstart + of_int (timeout_ms req) / 1000 - t \<le> 0
     \<longrightarrow> next_job_p reg now tstart req (Some pidle) now_ms t pwakes
          = Some (Return StatusWait, Some pidle_after))"
proof (intro conjI impI; (elim conjE)?)
  assume a: "sorted (ready_heap_p prun)"
    and p: "promote_arrivals
            (prun\<lparr>current_sim_ms_p := max (current_sim_ms_p prun)
                (wall_to_sim (start_wall_ms_p prun) (speedup_p prun) now_ms)\<rparr>)
            (max (current_sim_ms_p prun)
                (wall_to_sim (start_wall_ms_p prun) (speedup_p prun) now_ms))
            = (None, prun_after)"
    and r: "ready_heap_p prun_after = (prio, arr, sq, pjid) # prest"
  from promote_arrivals_result[OF p] a have "sorted (ready_heap_p prun_after)" by simp
  with r have "\<forall>y \<in> set (ready_heap_p prun_after). (prio, arr, sq, pjid) \<le> y"
    by auto
  then show "\<forall>(prio', arr', sq', jid') \<in> set (ready_heap_p prun_after).
              (prio, arr, sq) \<le> (prio', arr', sq')"
    by (auto dest!: bspec lex4_le_lex3)
qed (simp_all add: next_job_p_def next_loop_p.simps next_pass_p_def Let_def)

lemma partition_p_sorted:
  "partition_p jobs rh ph seq = (rh', ph', seq') \<Longrightarrow> sorted rh \<Longrightarrow> sorted ph
     \<Longrightarrow> sorted rh' \<and> sorted ph'"
  by (induction jobs rh ph seq rule: partition_p.induct)
     (auto simp: heappush_def sorted_insort split: if_splits)

lemma start_p_sorted:
  assumes "start_p reg now fs fresh_id now_ms req active = (Inr resp, Some run)"
  shows "sorted (ready_heap_p run) \<and> sorted (pending_heap_p run)"
proof -
  from assms obtain csv jobs where
    j: "load_jobs_p csv = Inr jobs"
    and r: "run = (let (ready_heap, pending_heap, seq) = partition_p jobs [] [] 0 in
              \<lparr>run_id_p = fresh_id, dataset_file_p = dataset_file_s req,
                             speedup_p = speedup_s req, start_wall_ms_p = now_ms,
                             jobs_p = jobs, ready_heap_p = ready_heap,
                             pending_heap_p = pending_heap, next_seq_p = seq,
                             total_jobs_p = int (length jobs), current_sim_ms_p = 0,
                             completed_p = 0, done_p = False, jobs_csv_p = None\<rparr>)"
    by (auto simp: start_p_def Let_def split: if_splits option.splits sum.splits prod.splits)
  obtain rh ph seq where p: "partition_p jobs [] [] 0 = (rh, ph, seq)"
    by (cases "partition_p jobs [] [] 0") auto
  from partition_p_sorted[OF p] r p show ?thesis by simp
qed

lemma next_pass_p_promotes:
  assumes fin: "\<not> (done_p run \<or> completed_p run \<ge> total_jobs_p run)"
    and srt: "sorted (pending_heap_p run)"
    and pass: "next_pass_p deadline (Some run) now_ms t = (out, Some run')"
    and ok: "\<forall>e. out \<noteq> Raise e"
    and cur: "cur = max (current_sim_ms_p run)
                 (wall_to_sim (start_wall_ms_p run) (speedup_p run) now_ms)"
  shows "current_sim_ms_p run' = cur
    \<and> (\<forall>(arr, seq, jid) \<in> set (pending_heap_p run'). cur < arr)
    \<and> (\<forall>(arr, seq, jid) \<in> set (pending_heap_p run). arr \<le> cur \<longrightarrow>
          jid \<in> heap_ready_ids (ready_heap_p run')
          \<or> (\<exists>svc prio a. out = Return (OkPrio jid svc prio a)))"
proof -
  let ?run1 = "run\<lparr>current_sim_ms_p := cur\<rparr>"
  obtain e run2 where p: "promote_arrivals ?run1 cur = (e, run2)"
    by (cases "promote_arrivals ?run1 cur") auto
  from pass fin ok p cur have e: "e = None"
    by (cases e) (auto simp: next_pass_p_def Let_def)
  note pr = promote_arrivals_result[OF p[unfolded e]]
  from pr have pend2: "pending_heap_p run2 = dropWhile (\<lambda>e. fst e \<le> cur) (pending_heap_p run)"
    and ids2: "heap_ready_ids (ready_heap_p run2) = heap_ready_ids (ready_heap_p run)
          \<union> heap_pending_ids (takeWhile (\<lambda>e. fst e \<le> cur) (pending_heap_p run))"
    and cur2: "current_sim_ms_p run2 = cur"
    by simp_all
  have pass2: "next_pass_p deadline (Some run) now_ms t =
      (case ready_heap_p run2 of
         (priority, arrival, seq, jid) # rest \<Rightarrow>
           (case map_of (jobs_p run2) jid of
              None \<Rightarrow> (Raise KeyError, Some (run2\<lparr>ready_heap_p := rest\<rparr>))
            | Some job \<Rightarrow>
                (Return (OkPrio jid (service_ms_p job) priority arrival),
                 Some (run2\<lparr>ready_heap_p := rest\<rparr>)))
       | [] \<Rightarrow>
           (let remaining = deadline - t
            in if remaining \<le> 0 then (Return StatusWait, Some run2)
               else (Block remaining, Some run2)))"
    using fin p e cur by (simp add: next_pass_p_def Let_def)
  have f: "current_sim_ms_p run' = current_sim_ms_p run2"
    "pending_heap_p run' = pending_heap_p run2"
    "\<forall>jid \<in> heap_ready_ids (ready_heap_p run2). jid \<in> heap_ready_ids (ready_heap_p run')
          \<or> (\<exists>svc prio a. out = Return (OkPrio jid svc prio a))"
  proof -
    show "current_sim_ms_p run' = current_sim_ms_p run2"
      "pending_heap_p run' = pending_heap_p run2"
      using pass pass2
      by (auto simp: Let_def split: list.splits option.splits if_splits)
    show "\<forall>jid \<in> heap_ready_ids (ready_heap_p run2). jid \<in> heap_ready_ids (ready_heap_p run')
          \<or> (\<exists>svc prio a. out = Return (OkPrio jid svc prio a))"
    proof (cases "ready_heap_p run2")
      case Nil
      then show ?thesis by (simp add: heap_ready_ids_def)
    next
      case (Cons entry rest)
      obtain prio a sq jid where en: "entry = (prio, a, sq, jid)" by (cases entry) auto
      show ?thesis
      proof (cases "map_of (jobs_p run2) jid")
        case None
        with pass pass2 Cons en have "out = Raise KeyError" by simp
        with ok show ?thesis by blast
      next
        case (Some job)
        with pass pass2 Cons en have
          "out = Return (OkPrio jid (service_ms_p job) prio a)"
          "run' = run2\<lparr>ready_heap_p := rest\<rparr>"
          by simp_all
        then show ?thesis using Cons en by (auto simp: heap_ready_ids_def)
      qed
    qed
  qed
  have s1: "sorted (map fst (pending_heap_p run))" using srt by (rule sorted_triple_fst)
  have a: "\<forall>(arr, seq, jid) \<in> set (pending_heap_p run'). cur < arr"
    using dropWhile_sorted_above[OF s1, of _ cur] f(2) pend2 by auto
  have b: "\<forall>(arr, seq, jid) \<in> set (pending_heap_p run). arr \<le> cur \<longrightarrow>
          jid \<in> heap_ready_ids (ready_heap_p run')
          \<or> (\<exists>svc prio a. out = Return (OkPrio jid svc prio a))"
  proof (clarify)
    fix arr seq jid
    assume m: "(arr, seq, jid) \<in> set (pending_heap_p run)" and le: "arr \<le> cur"
      and n: "\<not> (\<exists>svc prio a. out = Return (OkPrio jid svc prio a))"
    from takeWhile_sorted_all[OF s1 m, of cur] le
    have "(arr, seq, jid) \<in> set (takeWhile (\<lambda>e. fst e \<le> cur) (pending_heap_p run))" by simp
    then have "jid \<in> heap_ready_ids (ready_heap_p run2)"
      unfolding ids2 heap_pending_ids_def by force
    with f(3) n show "jid \<in> heap_ready_ids (ready_heap_p run')" by blast
  qed
  from f(1) cur2 a b show ?thesis by simp
qed

lemma next_pass_f_pending:
  "next_pass_f deadline (Some run) t = (out, Some run') \<Longrightarrow>
     pending_jobs_f run' = pending_jobs_f run"
  by (auto simp: next_pass_f_def Let_def split: if_splits list.splits option.splits)

lemma done_f_pending:
  "done_f_ep reg now req (Some run) = (res, Some run') \<Longrightarrow>
     pending_jobs_f run' = pending_jobs_f run \<and> ready_q_f run' = ready_q_f run"
  by (auto simp: done_f_ep_def finalize_run_f_def Let_def split: if_splits option.splits)

lemma done_p_heaps:
  "done_p_ep reg now req (Some run) = (res, Some run') \<Longrightarrow>
     pending_heap_p run' = pending_heap_p run \<and> ready_heap_p run' = ready_heap_p run"
  by (auto simp: done_p_ep_def finalize_run_p_def Let_def split: if_splits option.splits)

lemma done_rr_pending:
  "done_rr_ep reg now req (Some run) = (res, Some run') \<Longrightarrow>
     pending_idx_rr run' = pending_idx_rr run \<and> pending_ids_rr run' = pending_ids_rr run"
  by (auto simp: done_rr_ep_def finalize_run_rr_def Let_def split: if_splits option.splits)

lemma next_pass_rr_promotes:
  assumes fin: "\<not> (done_rr run \<or> completed_rr run \<ge> total_jobs_rr run)"
    and dom: "\<forall>jid \<in> set (pending_ids_rr run). map_of (jobs_rr run) jid \<noteq> None"
    and srt: "sorted (map (\<lambda>jid. arrival_ms_rr (the (map_of (jobs_rr run) jid)))
                        (pending_ids_rr run))"
    and pass: "next_pass_rr deadline (Some run) now_ms t = (out, Some run')"
    and ok: "\<forall>e. out \<noteq> Raise e"
    and now_sim: "now_sim = wall_to_sim (start_wall_ms_rr run) (speedup_rr run) now_ms"
  shows "(\<forall>jid \<in> set (drop (pending_idx_rr run') (pending_ids_rr run')).
            now_sim < arrival_ms_rr (the (map_of (jobs_rr run) jid)))
    \<and> (\<forall>jid \<in> set (drop (pending_idx_rr run) (pending_ids_rr run)).
          arrival_ms_rr (the (map_of (jobs_rr run) jid)) \<le> now_sim \<longrightarrow>
          jid \<in> set (ready_q_rr run')
          \<or> (\<exists>sl rem a. out = Return (OkRR jid sl rem a)))"
proof -
  let ?g = "\<lambda>jid. arrival_ms_rr (the (map_of (jobs_rr run) jid))"
  let ?xs = "drop (pending_idx_rr run) (pending_ids_rr run)"
  let ?tw = "takeWhile (\<lambda>jid. ?g jid \<le> now_sim) ?xs"
  define run1 where "run1 = run\<lparr>ready_q_rr := ready_q_rr run @ ?tw,
                     pending_idx_rr := pending_idx_rr run + length ?tw\<rparr>"
  have r1: "ready_q_rr run1 = ready_q_rr run @ ?tw"
    "pending_idx_rr run1 = pending_idx_rr run + length ?tw"
    "pending_ids_rr run1 = pending_ids_rr run"
    by (simp_all add: run1_def)
  have rel: "release_arrivals run now_sim = (None, run1)"
    using release_arrivals_result[OF dom] by (simp add: run1_def)
  have f: "pending_idx_rr run' = pending_idx_rr run1 \<and> pending_ids_rr run' = pending_ids_rr run
    \<and> (\<forall>jid \<in> set (ready_q_rr run1). jid \<in> set (ready_q_rr run')
          \<or> (\<exists>sl rem a. out = Return (OkRR jid sl rem a)))"
  proof (cases "ready_q_rr run1")
    case Nil
    with pass fin rel now_sim have "run' = run1"
      by (auto simp: next_pass_rr_def Let_def split: option.splits if_splits)
    with Nil r1 show ?thesis by simp
  next
    case (Cons jid rest)
    show ?thesis
    proof (cases "map_of (jobs_rr run1) jid")
      case None
      with pass fin rel now_sim Cons have "out = Raise KeyError"
        by (simp add: next_pass_rr_def Let_def)
      with ok show ?thesis by blast
    next
      case (Some job)
      with pass fin rel now_sim Cons have
        "out = Return (OkRR jid (min (quantum_ms_rr run1) (remaining_ms_rr job))
                           (remaining_ms_rr job) (arrival_ms_rr job))"
        "run' = run1\<lparr>ready_q_rr := rest\<rparr>"
        by (simp_all add: next_pass_rr_def Let_def)
      then show ?thesis using Cons r1 by auto
    qed
  qed
  then have g: "\<forall>jid \<in> set (ready_q_rr run1). jid \<in> set (ready_q_rr run')
          \<or> (\<exists>sl rem a. out = Return (OkRR jid sl rem a))" by blast
  have "sorted (drop (pending_idx_rr run) (map ?g (pending_ids_rr run)))"
    using srt by (rule sorted_wrt_drop)
  then have s1: "sorted (map ?g ?xs)"
    by (simp only: drop_map)
  have dr: "drop (pending_idx_rr run') (pending_ids_rr run')
      = dropWhile (\<lambda>jid. ?g jid \<le> now_sim) ?xs"
    using f r1 by (simp add: dropWhile_eq_drop add.commute)
  have a: "\<forall>jid \<in> set (drop (pending_idx_rr run') (pending_ids_rr run')). now_sim < ?g jid"
    unfolding dr using dropWhile_sorted_above[OF s1, of _ now_sim] by blast
  have b: "\<forall>jid \<in> set ?xs. ?g jid \<le> now_sim \<longrightarrow>
          jid \<in> set (ready_q_rr run') \<or> (\<exists>sl rem a. out = Return (OkRR jid sl rem a))"
  proof (intro ballI impI)
    fix jid assume m: "jid \<in> set ?xs" and le: "?g jid \<le> now_sim"
    from takeWhile_sorted_all[OF s1 m le] have "jid \<in> set (ready_q_rr run1)"
      by (simp add: r1)
    with g show "jid \<in> set (ready_q_rr run') \<or> (\<exists>sl rem a. out = Return (OkRR jid sl rem a))"
      by blast
  qed
  from a b show ?thesis by blast
qed



subsection \<open>Promotion of arrivals\<close>




subsection \<open>The order of arrival, start and finish\<close>

lemma done_f_keeps_times_ok:
  assumes inv: "\<forall>(jid, j) \<in> set (jobs_f run). times_ok_f j"
    and ok: "report_ok_f run req"
    and d: "done_f_ep reg now req (Some run) = (res, Some run')"
  shows "\<forall>(jid, j) \<in> set (jobs_f run'). times_ok_f j"
proof (cases "is_alive_worker_core reg now (worker_id_d req) (core_id_d req) \<and> \<not> done_f run")
  case False
  with d have "run' = run" by (auto simp: done_f_ep_def split: if_splits)
  with inv show ?thesis by simp
next
  case True
  show ?thesis
  proof (cases "map_of (jobs_f run) (job_id_d req)")
    case None
    with d True have "run' = run" by (simp add: done_f_ep_def)
    with inv show ?thesis by simp
  next
    case (Some job)
    let ?started_sim = "wall_to_sim (start_wall_ms_f run) (speedup_f run)
                                   (started_wall_ms_d req)"
    let ?start = "case start_ms_f job of None \<Rightarrow> ?started_sim | Some s \<Rightarrow> s"
    let ?job' = "job\<lparr>start_ms_f := Some ?start,
                              finish_ms_f := Some (?start + service_ms_f job),
                              cpu_percent_f := cpu_percent_d req,
                              memory_mb_f := memory_mb_d req\<rparr>"
    from d True Some have j': "jobs_f run' = AList.update (job_id_d req) ?job' (jobs_f run)"
      by (auto simp: done_f_ep_def Let_def finalize_run_f_def split: if_splits)
    from Some have mem: "(job_id_d req, job) \<in> set (jobs_f run)" by (rule map_of_SomeD)
    with inv have tj: "times_ok_f job" by auto
    from ok Some have r: "arrival_ms_f job \<le> ?started_sim" "0 \<le> service_ms_f job"
      by (simp_all add: report_ok_f_def)
    have "arrival_ms_f job \<le> ?start"
      using tj r by (auto simp: times_ok_f_def split: option.splits)
    then have "times_ok_f ?job'"
      using r by (simp add: times_ok_f_def)
    with inv show ?thesis unfolding j' by (auto dest!: update_mem)
  qed
qed

lemma done_p_keeps_times_ok:
  assumes inv: "\<forall>(jid, j) \<in> set (jobs_p run). times_ok_p j"
    and ok: "report_ok_p run req"
    and d: "done_p_ep reg now req (Some run) = (res, Some run')"
  shows "\<forall>(jid, j) \<in> set (jobs_p run'). times_ok_p j"
proof (cases "is_alive_worker_core reg now (worker_id_d req) (core_id_d req) \<and> \<not> done_p run")
  case False
  with d have "run' = run" by (auto simp: done_p_ep_def split: if_splits)
  with inv show ?thesis by simp
next
  case True
  show ?thesis
  proof (cases "map_of (jobs_p run) (job_id_d req)")
    case None
    with d True have "run' = run" by (simp add: done_p_ep_def)
    with inv show ?thesis by simp
  next
    case (Some job)
    let ?started_sim = "wall_to_sim (start_wall_ms_p run) (speedup_p run)
                                   (started_wall_ms_d req)"
    let ?job' = "job\<lparr>start_ms_p := (case start_ms_p job of
                                                    None \<Rightarrow> Some ?started_sim
                                                  | Some s \<Rightarrow> Some s),
                                  finish_ms_p := Some (?started_sim + service_ms_p job),
                                  cpu_percent_p := cpu_percent_d req,
                                  memory_mb_p := memory_mb_d req\<rparr>"
    from d True Some have j': "jobs_p run' = AList.update (job_id_d req) ?job' (jobs_p run)"
      by (auto simp: done_p_ep_def Let_def finalize_run_p_def split: if_splits)
    from Some have mem: "(job_id_d req, job) \<in> set (jobs_p run)" by (rule map_of_SomeD)
    with inv have tj: "times_ok_p job" by auto
    from ok Some have r: "arrival_ms_p job \<le> ?started_sim" "0 \<le> service_ms_p job"
      "case start_ms_p job of None \<Rightarrow> True | Some s \<Rightarrow> s \<le> ?started_sim + service_ms_p job"
      by (simp_all add: report_ok_p_def Let_def)
    have "times_ok_p ?job'"
      using tj r by (auto simp: times_ok_p_def split: option.splits)
    with inv show ?thesis unfolding j' by (auto dest!: update_mem)
  qed
qed

lemma done_job_rr_times_ok:
  assumes "times_ok_rr job" "arrival_ms_rr job \<le> started_sim"
    "(case first_start_ms_rr job of None \<Rightarrow> started_sim | Some s \<Rightarrow> s) \<le> finished_sim"
  shows "times_ok_rr (done_job_rr job started_sim finished_sim remaining_after)"
  using assms by (auto simp: times_ok_rr_def done_job_rr_def Let_def split: option.splits)

lemma done_rr_keeps_times_ok:
  assumes inv: "\<forall>(jid, j) \<in> set (jobs_rr run). times_ok_rr j"
    and ok: "report_ok_rr (start_wall_ms_rr run) (speedup_rr run) (jobs_rr run) req"
    and d: "done_rr_ep reg now req (Some run) = (res, Some run')"
  shows "\<forall>(jid, j) \<in> set (jobs_rr run'). times_ok_rr j"
proof (cases "is_alive_worker_core reg now (worker_id_drr req) (core_id_drr req) \<and> \<not> done_rr run")
  case False
  with d have "run' = run" by (auto simp: done_rr_ep_def split: if_splits)
  with inv show ?thesis by simp
next
  case True
  show ?thesis
  proof (cases "map_of (jobs_rr run) (job_id_drr req)")
    case None
    with d True have "run' = run" by (simp add: done_rr_ep_def)
    with inv show ?thesis by simp
  next
    case (Some job)
    define job' where "job' = done_job_rr job
        (wall_to_sim (start_wall_ms_rr run) (speedup_rr run) (started_wall_ms_drr req))
        (wall_to_sim (start_wall_ms_rr run) (speedup_rr run) (finished_wall_ms_drr req))
        (remaining_after_ms_drr req)"
    from d True Some have j': "jobs_rr run' = AList.update (job_id_drr req) job' (jobs_rr run)"
      by (auto simp: done_rr_ep_def Let_def finalize_run_rr_def job'_def split: if_splits)
    from Some have mem: "(job_id_drr req, job) \<in> set (jobs_rr run)" by (rule map_of_SomeD)
    with inv have tj: "times_ok_rr job" by auto
    from ok Some have "times_ok_rr job'"
      unfolding job'_def
      by (intro done_job_rr_times_ok tj) (simp_all add: report_ok_rr_def Let_def)
    with inv show ?thesis unfolding j' by (auto dest!: update_mem)
  qed
qed

lemma done_r0_keeps_times_ok:
  assumes inv: "\<forall>(jid, j) \<in> set (jobs_r0 run). times_ok_rr j"
    and ok: "report_ok_rr (start_wall_ms_r0 run) (speedup_r0 run) (jobs_r0 run) req"
    and d: "done_r0_ep reg now req (Some run) = (res, Some run')"
  shows "\<forall>(jid, j) \<in> set (jobs_r0 run'). times_ok_rr j"
proof (cases "is_alive_worker_core reg now (worker_id_drr req) (core_id_drr req) \<and> \<not> done_r0 run")
  case False
  with d have "run' = run" by (auto simp: done_r0_ep_def split: if_splits)
  with inv show ?thesis by simp
next
  case True
  show ?thesis
  proof (cases "map_of (jobs_r0 run) (job_id_drr req)")
    case None
    with d True have "run' = run" by (simp add: done_r0_ep_def)
    with inv show ?thesis by simp
  next
    case (Some job)
    define job' where "job' = done_job_rr job
        (wall_to_sim (start_wall_ms_r0 run) (speedup_r0 run) (started_wall_ms_drr req))
        (wall_to_sim (start_wall_ms_r0 run) (speedup_r0 run) (finished_wall_ms_drr req))
        (remaining_after_ms_drr req)"
    from True have al: "is_alive_worker_core reg now (worker_id_drr req) (core_id_drr req)"
      and nd: "\<not> done_r0 run" by simp_all
    from done_r0_snd[OF al nd Some job'_def] d
    have j': "jobs_r0 run' = AList.update (job_id_drr req) job' (jobs_r0 run)" by auto
    from Some have mem: "(job_id_drr req, job) \<in> set (jobs_r0 run)" by (rule map_of_SomeD)
    with inv have tj: "times_ok_rr job" by auto
    from ok Some have "times_ok_rr job'"
      unfolding job'_def
      by (intro done_job_rr_times_ok tj) (simp_all add: report_ok_rr_def Let_def)
    with inv show ?thesis unfolding j' by (auto dest!: update_mem)
  qed
qed

lemma load_rows_f_times:
  "load_rows_f h rows jobs0 = Inr jobs \<Longrightarrow> \<forall>(jid, j) \<in> set jobs0. times_ok_f j
     \<Longrightarrow> \<forall>(jid, j) \<in> set jobs. times_ok_f j"
proof (induction rows arbitrary: jobs0)
  case Nil
  then show ?case by simp
next
  case (Cons row rows)
  from Cons.prems(1) obtain svc arr where
    rest: "load_rows_f h rows (AList.update (col_job_id row)
                    \<lparr>job_id_f = col_job_id row, service_ms_f = svc, arrival_ms_f = arr,
                     start_ms_f = None, finish_ms_f = None,
                     cpu_percent_f = None, memory_mb_f = None\<rparr> jobs0) = Inr jobs"
    by (auto split: sum.splits)
  show ?case
    by (rule Cons.IH[OF rest]) (use Cons.prems(2) in \<open>auto simp: times_ok_f_def dest!: update_mem\<close>)
qed

lemma load_rows_p_times:
  "load_rows_p h rows jobs0 = Inr jobs \<Longrightarrow> \<forall>(jid, j) \<in> set jobs0. times_ok_p j
     \<Longrightarrow> \<forall>(jid, j) \<in> set jobs. times_ok_p j"
proof (induction rows arbitrary: jobs0)
  case Nil
  then show ?case by simp
next
  case (Cons row rows)
  from Cons.prems(1) obtain svc arr pr where
    rest: "load_rows_p h rows (AList.update (col_job_id row)
                         \<lparr>job_id_p = col_job_id row, service_ms_p = svc,
                          arrival_ms_p = arr, priority_p = pr,
                          start_ms_p = None, finish_ms_p = None,
                          cpu_percent_p = None, memory_mb_p = None\<rparr> jobs0) = Inr jobs"
    by (auto split: sum.splits)
  show ?case
    by (rule Cons.IH[OF rest]) (use Cons.prems(2) in \<open>auto simp: times_ok_p_def dest!: update_mem\<close>)
qed

lemma load_rows_rr_times:
  "load_rows_rr rows jobs0 = Inr jobs \<Longrightarrow> \<forall>(jid, j) \<in> set jobs0. times_ok_rr j
     \<Longrightarrow> \<forall>(jid, j) \<in> set jobs. times_ok_rr j"
proof (induction rows arbitrary: jobs0)
  case Nil
  then show ?case by simp
next
  case (Cons row rows)
  from Cons.prems(1) obtain svc arr where
    rest: "load_rows_rr rows (AList.update (col_job_id row)
                    \<lparr>job_id_rr = col_job_id row, service_ms_rr = svc, remaining_ms_rr = svc,
                     arrival_ms_rr = arr, first_start_ms_rr = None, finish_ms_rr = None,
                     slices_rr = 0, preemptions_rr = 0\<rparr> jobs0) = Inr jobs"
    by (auto split: sum.splits)
  show ?case
    by (rule Cons.IH[OF rest]) (use Cons.prems(2) in \<open>auto simp: times_ok_rr_def dest!: update_mem\<close>)
qed

lemma load_rows_r0_times:
  "load_rows_r0 rows jobs0 = Inr jobs \<Longrightarrow> \<forall>(jid, j) \<in> set jobs0. times_ok_rr j
     \<Longrightarrow> \<forall>(jid, j) \<in> set jobs. times_ok_rr j"
proof (induction rows arbitrary: jobs0)
  case Nil
  then show ?case by simp
next
  case (Cons row rows)
  from Cons.prems(1) obtain svc where
    rest: "load_rows_r0 rows (AList.update (col_job_id row)
               \<lparr>job_id_rr = col_job_id row, service_ms_rr = svc, remaining_ms_rr = svc,
                arrival_ms_rr = 0, first_start_ms_rr = None, finish_ms_rr = None,
                slices_rr = 0, preemptions_rr = 0\<rparr> jobs0) = Inr jobs"
    by (auto split: sum.splits)
  show ?case
    by (rule Cons.IH[OF rest]) (use Cons.prems(2) in \<open>auto simp: times_ok_rr_def dest!: update_mem\<close>)
qed

lemma start_f_times:
  assumes "start_f reg now fs fresh_id now_ms req active = (Inr resp, Some run)"
  shows "\<forall>(jid, j) \<in> set (jobs_f run). times_ok_f j"
proof -
  from assms obtain csv where "load_jobs_f csv = Inr (jobs_f run)"
    by (auto simp: start_f_def Let_def partition_f_def
        split: if_splits option.splits sum.splits)
  then show ?thesis
    by (auto simp: load_jobs_f_def split: csv_file.splits if_splits dest!: load_rows_f_times)
qed

lemma start_p_times:
  assumes "start_p reg now fs fresh_id now_ms req active = (Inr resp, Some run)"
  shows "\<forall>(jid, j) \<in> set (jobs_p run). times_ok_p j"
proof -
  from assms obtain csv where "load_jobs_p csv = Inr (jobs_p run)"
    by (auto simp: start_p_def Let_def
        split: if_splits option.splits sum.splits prod.splits)
  then show ?thesis
    by (auto simp: load_jobs_p_def split: csv_file.splits if_splits dest!: load_rows_p_times)
qed

lemma release_arrivals_jobs:
  "release_arrivals run now_sim = (e, run') \<Longrightarrow> jobs_rr run' = jobs_rr run"
proof (induction run now_sim arbitrary: e run' rule: release_arrivals.induct)
  case (1 run now_sim)
  show ?case
  proof (cases "pending_idx_rr run < length (pending_ids_rr run)")
    case False
    with 1(2) show ?thesis by (subst (asm) release_arrivals.simps) simp
  next
    case True
    let ?jid = "pending_ids_rr run ! pending_idx_rr run"
    show ?thesis
    proof (cases "map_of (jobs_rr run) ?jid")
      case None
      with 1(2) True show ?thesis
        by (subst (asm) release_arrivals.simps) (simp add: Let_def)
    next
      case (Some job)
      show ?thesis
      proof (cases "arrival_ms_rr job > now_sim")
        case True
        with 1(2) \<open>pending_idx_rr run < length (pending_ids_rr run)\<close> Some show ?thesis
          by (subst (asm) release_arrivals.simps) (simp add: Let_def)
      next
        case False
        from 1(2) True Some False
        have "release_arrivals (run\<lparr>ready_q_rr := ready_q_rr run @ [?jid],
                            pending_idx_rr := pending_idx_rr run + 1\<rparr>) now_sim = (e, run')"
          by (subst (asm) release_arrivals.simps) (simp add: Let_def)
        from 1(1)[OF True refl Some False this] show ?thesis by simp
      qed
    qed
  qed
qed

lemma start_rr_times:
  assumes "start_rr reg now fs fresh_id now_ms req active = (Inr resp, Some run)"
  shows "\<forall>(jid, j) \<in> set (jobs_rr run). times_ok_rr j"
proof -
  from assms obtain csv jobs where
    l: "load_jobs_rr csv = Inr jobs"
    and r: "release_arrivals \<lparr>run_id_rr = fresh_id, dataset_file_rr = dataset_file_srr req,
                             quantum_ms_rr = quantum_ms_srr req, speedup_rr = speedup_srr req,
                             start_wall_ms_rr = now_ms, jobs_rr = jobs, ready_q_rr = [],
                             pending_ids_rr = map fst (sort_key (\<lambda>(jid, job). arrival_ms_rr job) jobs),
                             total_jobs_rr = int (length jobs), pending_idx_rr = 0,
                             completed_rr = 0, done_rr = False, jobs_csv_rr = None\<rparr> 0
             = (None, run)"
    by (auto simp: start_rr_def Let_def split: if_splits option.splits sum.splits prod.splits)
  from release_arrivals_jobs[OF r] have "jobs_rr run = jobs" by simp
  with l show ?thesis
    by (auto simp: load_jobs_rr_def split: csv_file.splits if_splits dest!: load_rows_rr_times)
qed

lemma start_r0_times:
  assumes "start_r0 reg now fs fresh_id now_ms req active = (Inr resp, Some run)"
  shows "\<forall>(jid, j) \<in> set (jobs_r0 run). times_ok_rr j"
proof -
  from assms obtain csv where "load_jobs_r0 csv = Inr (jobs_r0 run)"
    by (auto simp: start_r0_def Let_def
        split: if_splits option.splits sum.splits prod.splits)
  then show ?thesis
    by (auto simp: load_jobs_r0_def split: csv_file.splits if_splits dest!: load_rows_r0_times)
qed


lemma times_ok_f_meaning:
  "times_ok_f j \<longleftrightarrow> (\<forall>s. start_ms_f j = Some s \<longrightarrow> arrival_ms_f j \<le> s)
     \<and> (\<forall>f. finish_ms_f j = Some f \<longrightarrow> (\<exists>s. start_ms_f j = Some s \<and> s \<le> f))"
  by (auto simp: times_ok_f_def split: option.splits)

lemma times_ok_p_meaning:
  "times_ok_p j \<longleftrightarrow> (\<forall>s. start_ms_p j = Some s \<longrightarrow> arrival_ms_p j \<le> s)
     \<and> (\<forall>f. finish_ms_p j = Some f \<longrightarrow> (\<exists>s. start_ms_p j = Some s \<and> s \<le> f))"
  by (auto simp: times_ok_p_def split: option.splits)

lemma times_ok_rr_meaning:
  "times_ok_rr j \<longleftrightarrow> (\<forall>s. first_start_ms_rr j = Some s \<longrightarrow> arrival_ms_rr j \<le> s)
     \<and> (\<forall>f. finish_ms_rr j = Some f \<longrightarrow> (\<exists>s. first_start_ms_rr j = Some s \<and> s \<le> f))"
  by (auto simp: times_ok_rr_def split: option.splits)



end
